theory Spec2Isabelle
  imports Main
begin

section \<open>Data model\<close>

text \<open>
  The documents of the store, one record per Mongoose schema. An \<open>ObjectId\<close> is a natural
  number, a \<open>Date\<close> is its \<open>getTime()\<close> value (milliseconds since the epoch). Field names are
  the schema's, prefixed by the collection, since several schemas share \<open>account\<close>,
  \<open>status\<close>, \<open>isActive\<close> and \<open>isDeleted\<close>. JavaScript numbers are modelled as integers.
\<close>

type_synonym ObjectId = nat
type_synonym Date = int

datatype SUBSCRIPTION_PLANS = FREE | PRO

datatype ROLES = ADMIN | MEMBER

datatype PAYMENT_STATUS = PENDING | SUCCESS | FAILED | REFUNDED

datatype subscription_status = Active | Inactive | Cancelled | Expired

record account =
  acc_id :: ObjectId
  acc_slug :: string
  acc_plan :: SUBSCRIPTION_PLANS
  acc_limit :: int
  acc_noteCount :: int
  acc_currentSubscription :: "ObjectId option"
  acc_isActive :: bool
  acc_isDeleted :: bool

record subscription =
  sub_id :: ObjectId
  sub_account :: ObjectId
  sub_razorpaySubscriptionId :: "string option"
  sub_plan :: SUBSCRIPTION_PLANS
  sub_status :: subscription_status
  sub_startDate :: Date
  sub_endDate :: "Date option"
  sub_cancelledAt :: "Date option"

record payment =
  pay_id :: ObjectId
  pay_account :: ObjectId
  pay_subscription :: "ObjectId option"
  pay_razorpayPaymentId :: "string option"
  pay_razorpayOrderId :: "string option"
  pay_amount :: int
  pay_currency :: string
  pay_status :: PAYMENT_STATUS
  pay_method :: "string option"
  pay_errorCode :: "string option"
  pay_errorDescription :: "string option"

record role =
  role_id :: ObjectId
  role_account :: ObjectId
  role_roleName :: ROLES

record user =
  usr_id :: ObjectId
  usr_account :: ObjectId
  usr_email :: string
  usr_password :: string
  usr_name :: string
  usr_role :: ObjectId
  usr_isActive :: bool
  usr_isDeleted :: bool
  usr_tokensInvalidBefore :: Date
  usr_lastLogin :: "Date option"
  usr_lastIP :: "string option"

record tag =
  tag_id :: ObjectId
  tag_account :: ObjectId
  tag_tagName :: string

record note_doc =
  note_id :: ObjectId
  note_account :: ObjectId
  note_user :: ObjectId
  note_title :: string
  note_description :: string
  note_tags :: "ObjectId list"
  note_isDeleted :: bool
  note_createdAt :: Date

text \<open>The store: one list of documents per collection, in insertion order.\<close>

record db =
  db_accounts :: "account list"
  db_roles :: "role list"
  db_users :: "user list"
  db_notes :: "note_doc list"
  db_tags :: "tag list"
  db_subscriptions :: "subscription list"
  db_payments :: "payment list"

text \<open>
  A new document gets an \<open>_id\<close> that no document of its collection has: one more than the
  largest id in use.
\<close>

definition new_ObjectId :: "ObjectId list \<Rightarrow> ObjectId" where
  "new_ObjectId ids = Suc (foldr max ids 0)"

text \<open>
  \<open>doc.save()\<close> on a loaded document writes it back under its \<open>_id\<close>. Within one request no
  other writer touches the same document, so writing the whole document equals writing
  its modified paths. Writes to the store are taken to succeed unless a schema validator
  rejects the document or a unique index refuses it; the documents of the store have
  passed the validators of their schema.
\<close>

definition findById :: "('a \<Rightarrow> ObjectId) \<Rightarrow> ObjectId \<Rightarrow> 'a list \<Rightarrow> 'a option" where
  "findById id_of i docs = find (\<lambda>d. id_of d = i) docs"

definition save :: "('a \<Rightarrow> ObjectId) \<Rightarrow> 'a \<Rightarrow> 'a list \<Rightarrow> 'a list" where
  "save id_of doc docs = map (\<lambda>d. if id_of d = id_of doc then doc else d) docs"

text \<open>
  A session token: a malformed string, or a set of claims with a signature.
\<close>

record jwt_payload =
  jwt_userId :: ObjectId
  jwt_accountId :: ObjectId
  jwt_role :: ROLES
  jwt_iat :: int
  jwt_exp :: int

datatype token = Malformed string | Signed jwt_payload string

section \<open>Responses\<close>

text \<open>
  \<open>sendResponse\<close> and \<open>sendError\<close> of utils/helpers.js: an HTTP status, a message and a
  data part. The message of the quota rejection is a structured object. The data part
  carries the documents a JSON view is computed from.
\<close>

datatype message =
    Msg string
  | NoteLimitExceeded string SUBSCRIPTION_PLANS int int bool

datatype payload =
    NoData
  | NotesPage "note_doc list" int int int
  | NoteData note_doc
  | TokenData token
  | InviteData string string
  | SubscriptionData account "subscription option"
  | UpgradeData account subscription payment
  | CancelData account subscription
  | OrderData string int ObjectId
  | ProfileData user account ROLES
  | PlansData "(SUBSCRIPTION_PLANS \<times> int \<times> int) list"
  | PaymentsPage "payment list" int int int

datatype response = Response (status: nat) (message: message) (payload: payload)

definition sendResponse :: "nat \<Rightarrow> string \<Rightarrow> payload \<Rightarrow> response" where
  "sendResponse code msg d = Response code (Msg msg) d"

definition sendError :: "nat \<Rightarrow> string \<Rightarrow> response" where
  "sendError code msg = Response code (Msg msg) NoData"

section \<open>Account model (models/Account.js)\<close>

definition canCreateNote :: "account \<Rightarrow> bool" where
  "canCreateNote this =
     (if acc_plan this = PRO then True else acc_noteCount this < acc_limit this)"

definition incrementNoteCount :: "account \<Rightarrow> db \<Rightarrow> account \<times> db" where
  "incrementNoteCount this s =
     (let this' = this\<lparr>acc_noteCount := acc_noteCount this + 1\<rparr>
      in (this', s\<lparr>db_accounts := save acc_id this' (db_accounts s)\<rparr>))"

definition decrementNoteCount :: "account \<Rightarrow> db \<Rightarrow> account \<times> db" where
  "decrementNoteCount this s =
     (if acc_noteCount this > 0
      then (let this' = this\<lparr>acc_noteCount := acc_noteCount this - 1\<rparr>
            in (this', s\<lparr>db_accounts := save acc_id this' (db_accounts s)\<rparr>))
      else (this, s))"

definition upgradeToPro :: "account \<Rightarrow> db \<Rightarrow> account \<times> db" where
  "upgradeToPro this s =
     (let this' = this\<lparr>acc_plan := PRO, acc_limit := -1\<rparr>
      in (this', s\<lparr>db_accounts := save acc_id this' (db_accounts s)\<rparr>))"

section \<open>Subscription limits (utils/constants.js, middleware/subscriptionLimit.js)\<close>

record limits =
  maxNotes :: int

definition SUBSCRIPTION_LIMITS :: "SUBSCRIPTION_PLANS \<Rightarrow> limits option" where
  "SUBSCRIPTION_LIMITS p =
     (case p of FREE \<Rightarrow> Some \<lparr>maxNotes = 20\<rparr> | PRO \<Rightarrow> Some \<lparr>maxNotes = -1\<rparr>)"

text \<open>
  A middleware either answers the request (\<open>Inl\<close>) or calls \<open>next()\<close> (\<open>Inr\<close>).
  \<open>checkNoteLimit\<close> reads \<open>req.account\<close>, absent when no middleware has set it.
\<close>

definition checkNoteLimit :: "account option \<Rightarrow> response + unit" where
  "checkNoteLimit req_account =
     (case req_account of
        None \<Rightarrow> Inl (sendError 400 ''Account context required'')
      | Some account \<Rightarrow>
          if acc_plan account = PRO then Inr ()
          else (case SUBSCRIPTION_LIMITS (acc_plan account) of
                  None \<Rightarrow> Inl (sendError 500 ''Invalid subscription plan'')
                | Some limit \<Rightarrow>
                    if acc_noteCount account \<ge> maxNotes limit
                    then Inl (Response 403
                           (NoteLimitExceeded ''Note limit exceeded for your current plan''
                              (acc_plan account) (acc_noteCount account) (maxNotes limit) True)
                           NoData)
                    else Inr ()))"

section \<open>Payment gateway (config/razorpay.js)\<close>

text \<open>
  The HMAC-SHA256 primitive is a parameter \<open>hmac secret body\<close> giving the hex digest.
  \<open>getPaymentDetails\<close> asks the gateway, which answers with the payment or fails (the
  function then throws): the answer is a parameter \<open>fetch\<close>.
\<close>

definition verifyPaymentSignature ::
  "(string \<Rightarrow> string \<Rightarrow> string) \<Rightarrow> string \<Rightarrow> string \<Rightarrow> string \<Rightarrow> string \<Rightarrow> bool" where
  "verifyPaymentSignature hmac secret orderId paymentId signature =
     (let body = orderId @ ''|'' @ paymentId;
          expectedSignature = hmac secret body
      in expectedSignature = signature)"

record payment_details =
  pd_method :: "string option"

definition getPaymentDetails ::
  "(string \<Rightarrow> payment_details option) \<Rightarrow> string \<Rightarrow> string + payment_details" where
  "getPaymentDetails fetch paymentId =
     (case fetch paymentId of
        None \<Rightarrow> Inl ''Failed to fetch payment details''
      | Some p \<Rightarrow> Inr p)"

section \<open>Subscription controller (controllers/subscriptionController.js)\<close>

record verify_body =
  razorpay_order_id :: "string option"
  razorpay_payment_id :: "string option"
  razorpay_signature :: "string option"
  paymentId :: "ObjectId option"

text \<open>JavaScript truthiness of an optional string: present and not empty.\<close>

definition truthy :: "string option \<Rightarrow> bool" where
  "truthy v = (case v of None \<Rightarrow> False | Some s \<Rightarrow> s \<noteq> [])"

text \<open>
  The handler reads the clock at three places: \<open>cancelledAt = new Date()\<close>,
  \<open>startDate: new Date()\<close> and \<open>endDate: new Date(Date.now() + ...)\<close>.
\<close>

record verify_clock =
  at_cancel :: Date
  at_start :: Date
  at_end :: Date

definition one_year_ms :: int where
  "one_year_ms = 365 * 24 * 60 * 60 * 1000"

definition find_pending_payment :: "db \<Rightarrow> ObjectId \<Rightarrow> ObjectId \<Rightarrow> string \<Rightarrow> payment option" where
  "find_pending_payment s pid aid order_id =
     find (\<lambda>p. pay_id p = pid \<and> pay_account p = aid
              \<and> pay_razorpayOrderId p = Some order_id \<and> pay_status p = PENDING) (db_payments s)"

text \<open>The query \<open>{account: account._id, status: "active"}\<close> on subscriptions.\<close>

definition active_for :: "ObjectId \<Rightarrow> subscription \<Rightarrow> bool" where
  "active_for aid x = (sub_account x = aid \<and> sub_status x = Active)"

definition find_active_subscription :: "db \<Rightarrow> ObjectId \<Rightarrow> subscription option" where
  "find_active_subscription s aid = find (active_for aid) (db_subscriptions s)"

definition new_pro_subscription :: "db \<Rightarrow> ObjectId \<Rightarrow> verify_clock \<Rightarrow> subscription" where
  "new_pro_subscription s aid clock =
     \<lparr>sub_id = new_ObjectId (map sub_id (db_subscriptions s)),
      sub_account = aid,
      sub_razorpaySubscriptionId = None,
      sub_plan = PRO,
      sub_status = Active,
      sub_startDate = at_start clock,
      sub_endDate = Some (at_end clock + one_year_ms),
      sub_cancelledAt = None\<rparr>"

definition cancel_existing :: "db \<Rightarrow> ObjectId \<Rightarrow> Date \<Rightarrow> db" where
  "cancel_existing s aid now =
     (case find_active_subscription s aid of
        None \<Rightarrow> s
      | Some existingSubscription \<Rightarrow>
          s\<lparr>db_subscriptions :=
              save sub_id (existingSubscription\<lparr>sub_status := Cancelled, sub_cancelledAt := Some now\<rparr>)
                (db_subscriptions s)\<rparr>)"

text \<open>
  The index \<open>razorpayPaymentId: {unique: true, sparse: true}\<close> of the Payment schema: a save
  that sets the gateway payment id of one Payment to the value another Payment document
  already carries is refused with a duplicate key error, which the handler's \<open>catch\<close> turns
  into the answer 500; the document is not written.
\<close>

definition razorpayPaymentId_taken :: "db \<Rightarrow> ObjectId \<Rightarrow> string \<Rightarrow> bool" where
  "razorpayPaymentId_taken s pid gw_payment_id =
     list_ex (\<lambda>q. pay_id q \<noteq> pid \<and> pay_razorpayPaymentId q = Some gw_payment_id) (db_payments s)"

definition verifyPaymentAndUpgrade ::
  "(string \<Rightarrow> string \<Rightarrow> string) \<Rightarrow> string \<Rightarrow> (string \<Rightarrow> payment_details option) \<Rightarrow> verify_clock
     \<Rightarrow> verify_body \<Rightarrow> account \<Rightarrow> db \<Rightarrow> response \<times> db" where
  "verifyPaymentAndUpgrade hmac secret fetch clock body account s =
     (if \<not> truthy (razorpay_order_id body) \<or> \<not> truthy (razorpay_payment_id body)
         \<or> \<not> truthy (razorpay_signature body) \<or> paymentId body = None
      then (sendError 400 ''Missing required payment verification data'', s)
      else
        let order_id = the (razorpay_order_id body);
            gw_payment_id = the (razorpay_payment_id body);
            signature = the (razorpay_signature body)
        in (case find_pending_payment s (the (paymentId body)) (acc_id account) order_id of
              None \<Rightarrow> (sendError 404 ''Payment record not found'', s)
            | Some payment \<Rightarrow>
                if \<not> verifyPaymentSignature hmac secret order_id gw_payment_id signature
                then
                  (let payment1 = payment\<lparr>pay_status := FAILED,
                         pay_errorDescription := Some ''Invalid payment signature''\<rparr>
                   in (sendError 400 ''Payment verification failed'',
                       s\<lparr>db_payments := save pay_id payment1 (db_payments s)\<rparr>))
                else
                  (case getPaymentDetails fetch gw_payment_id of
                     Inl err \<Rightarrow>
                       (sendError 500 ''Failed to verify payment and upgrade subscription'', s)
                   | Inr paymentDetails \<Rightarrow>
                       if razorpayPaymentId_taken s (pay_id payment) gw_payment_id
                       then (sendError 500 ''Failed to verify payment and upgrade subscription'', s)
                       else
                       let payment1 = payment\<lparr>pay_razorpayPaymentId := Some gw_payment_id,
                              pay_status := SUCCESS, pay_method := pd_method paymentDetails\<rparr>;
                           s1 = s\<lparr>db_payments := save pay_id payment1 (db_payments s)\<rparr>;
                           s2 = cancel_existing s1 (acc_id account) (at_cancel clock);
                           subscription = new_pro_subscription s2 (acc_id account) clock;
                           s3 = s2\<lparr>db_subscriptions := db_subscriptions s2 @ [subscription]\<rparr>;
                           payment2 = payment1\<lparr>pay_subscription := Some (sub_id subscription)\<rparr>;
                           s4 = s3\<lparr>db_payments := save pay_id payment2 (db_payments s3)\<rparr>;
                           (account1, s5) = upgradeToPro account s4;
                           account2 = account1\<lparr>acc_currentSubscription := Some (sub_id subscription)\<rparr>;
                           s6 = s5\<lparr>db_accounts := save acc_id account2 (db_accounts s5)\<rparr>
                       in (sendResponse 200 ''Subscription upgraded successfully''
                             (UpgradeData account2 subscription payment2), s6))))"

definition cancelSubscription :: "Date \<Rightarrow> account \<Rightarrow> db \<Rightarrow> response \<times> db" where
  "cancelSubscription now account s =
     (case find_active_subscription s (acc_id account) of
        None \<Rightarrow> (sendError 404 ''No active subscription found'', s)
      | Some subscription \<Rightarrow>
          let subscription1 = subscription\<lparr>sub_status := Cancelled, sub_cancelledAt := Some now\<rparr>;
              s1 = s\<lparr>db_subscriptions := save sub_id subscription1 (db_subscriptions s)\<rparr>;
              account1 = account\<lparr>acc_plan := FREE, acc_limit := 3,
                           acc_currentSubscription := None\<rparr>;
              s2 = s1\<lparr>db_accounts := save acc_id account1 (db_accounts s1)\<rparr>
          in (sendResponse 200 ''Subscription cancelled successfully''
                (CancelData account1 subscription1), s2))"

section \<open>Tokens (jsonwebtoken, utils/helpers.js)\<close>

text \<open>
  The jsonwebtoken library is not part of the repository; \<open>jwt.sign\<close> and \<open>jwt.verify\<close> are
  modelled by their documented behaviour, on the tokens of the data model. The signing
  primitive is a parameter \<open>sign secret claims\<close>. \<open>iat\<close> and \<open>exp\<close> are in seconds, the clock
  is in milliseconds. \<open>jwt.verify\<close> checks the signature
  first and the expiry second.
\<close>

datatype jwt_error = JsonWebTokenError | TokenExpiredError

definition jwt_sign ::
  "(string \<Rightarrow> jwt_payload \<Rightarrow> string) \<Rightarrow> string \<Rightarrow> int \<Rightarrow> Date
     \<Rightarrow> ObjectId \<Rightarrow> ObjectId \<Rightarrow> ROLES \<Rightarrow> token" where
  "jwt_sign sign secret expiresIn now userId accountId roleName =
     (let claims = \<lparr>jwt_userId = userId, jwt_accountId = accountId, jwt_role = roleName,
                     jwt_iat = now div 1000, jwt_exp = now div 1000 + expiresIn\<rparr>
      in Signed claims (sign secret claims))"

definition jwt_verify ::
  "(string \<Rightarrow> jwt_payload \<Rightarrow> string) \<Rightarrow> string \<Rightarrow> Date \<Rightarrow> token \<Rightarrow> jwt_error + jwt_payload" where
  "jwt_verify sign secret now tok =
     (case tok of
        Malformed str \<Rightarrow> Inl JsonWebTokenError
      | Signed claims sg \<Rightarrow>
          if sg \<noteq> sign secret claims then Inl JsonWebTokenError
          else if now div 1000 \<ge> jwt_exp claims then Inl TokenExpiredError
          else Inr claims)"

text \<open>\<open>generateToken\<close>: \<open>expiresIn\<close> is \<open>JWT_EXPIRE\<close> in seconds (seven days by default).\<close>

definition generateToken ::
  "(string \<Rightarrow> jwt_payload \<Rightarrow> string) \<Rightarrow> string \<Rightarrow> int \<Rightarrow> Date
     \<Rightarrow> ObjectId \<Rightarrow> ObjectId \<Rightarrow> ROLES \<Rightarrow> token" where
  "generateToken sign secret expiresIn now userId accountId roleName =
     jwt_sign sign secret expiresIn now userId accountId roleName"

section \<open>Authentication middleware (middleware/auth.js)\<close>

text \<open>
  The request carries an Authorization header and a cookie. A header that starts with
  "Bearer " yields the rest of the header, which may be the empty string; any other header
  falls through to the cookie. The empty token is falsy.
\<close>

datatype authorization = Bearer token | Other_scheme string

record headers =
  hdr_authorization :: "authorization option"
  cookie_token :: "token option"

definition extractToken :: "headers \<Rightarrow> token option" where
  "extractToken req =
     (case hdr_authorization req of
        Some (Bearer tok) \<Rightarrow> Some tok
      | _ \<Rightarrow> (case cookie_token req of
                Some tok \<Rightarrow> if tok = Malformed [] then None else Some tok
              | None \<Rightarrow> None))"

text \<open>
  The request context the middlewares build up: \<open>req.user\<close> with its populated role
  (\<open>req.user.account\<close> is \<open>req.account\<close>), \<open>req.account\<close>, and \<open>req.tenantFilter\<close>.
\<close>

record tenant_filter =
  tf_account :: "ObjectId option"
  tf_user :: "ObjectId option"

record request_context =
  req_user :: user
  req_user_role :: "role option"
  req_account :: account
  req_tenantFilter :: "tenant_filter option"

definition authenticate ::
  "(string \<Rightarrow> jwt_payload \<Rightarrow> string) \<Rightarrow> string \<Rightarrow> Date \<Rightarrow> headers \<Rightarrow> db \<Rightarrow> response + request_context" where
  "authenticate sign secret now req s =
     (case extractToken req of
        None \<Rightarrow> Inl (sendError 401 ''Access token required'')
      | Some tok \<Rightarrow>
          if tok = Malformed [] then Inl (sendError 401 ''Access token required'')
          else
          (case jwt_verify sign secret now tok of
             Inl JsonWebTokenError \<Rightarrow> Inl (sendError 401 ''Invalid token format'')
           | Inl TokenExpiredError \<Rightarrow> Inl (sendError 401 ''Token has expired'')
           | Inr decoded \<Rightarrow>
               (case findById usr_id (jwt_userId decoded) (db_users s) of
                  None \<Rightarrow> Inl (sendError 401 ''Invalid token - user not found or inactive'')
                | Some user \<Rightarrow>
                    if \<not> usr_isActive user \<or> usr_isDeleted user
                    then Inl (sendError 401 ''Invalid token - user not found or inactive'')
                    else if jwt_iat decoded * 1000 < usr_tokensInvalidBefore user
                    then Inl (sendError 401 ''Token has been invalidated'')
                    else
                      (case findById acc_id (usr_account user) (db_accounts s) of
                         None \<Rightarrow> Inl (sendError 401 ''Account inactive or not found'')
                       | Some account \<Rightarrow>
                           if \<not> acc_isActive account \<or> acc_isDeleted account
                           then Inl (sendError 401 ''Account inactive or not found'')
                           else Inr \<lparr>req_user = user,
                                     req_user_role = findById role_id (usr_role user) (db_roles s),
                                     req_account = account,
                                     req_tenantFilter = None\<rparr>))))"

section \<open>Password change and logout (controllers/authController.js)\<close>

text \<open>
  bcrypt is a pair of parameters: \<open>hashPassword\<close> and \<open>comparePassword plain hash\<close>. Saving a
  user whose password was modified runs the schema validator (\<open>minlength: 6\<close>, on the plain
  text) and then the pre-save hook that hashes it; a validation error is caught by the
  handler and answered with 500.
\<close>

record change_password_body =
  currentPassword :: "string option"
  newPassword :: "string option"

definition changePassword ::
  "(string \<Rightarrow> string) \<Rightarrow> (string \<Rightarrow> string \<Rightarrow> bool) \<Rightarrow> Date
     \<Rightarrow> change_password_body \<Rightarrow> request_context \<Rightarrow> db \<Rightarrow> response \<times> db" where
  "changePassword hashPassword comparePassword now body ctx s =
     (let user = req_user ctx in
      if \<not> truthy (currentPassword body) \<or> \<not> truthy (newPassword body)
      then (sendError 400 ''Current password and new password are required'', s)
      else if \<not> comparePassword (the (currentPassword body)) (usr_password user)
      then (sendError 400 ''Current password is incorrect'', s)
      else if comparePassword (the (newPassword body)) (usr_password user)
      then (sendError 400 ''New password cannot be the same as the old password'', s)
      else if length (the (newPassword body)) < 6
      then (sendError 500 ''Failed to change password'', s)
      else
        (let user1 = user\<lparr>usr_password := hashPassword (the (newPassword body)),
                          usr_tokensInvalidBefore := now\<rparr>
         in (sendResponse 200 ''Password changed successfully'' NoData,
             s\<lparr>db_users := save usr_id user1 (db_users s)\<rparr>)))"

definition logout :: "Date \<Rightarrow> request_context \<Rightarrow> db \<Rightarrow> response \<times> db" where
  "logout now ctx s =
     (let user = req_user ctx;
          user1 = user\<lparr>usr_tokensInvalidBefore := now\<rparr>
      in (sendResponse 200 ''Logged out successfully'' NoData,
          s\<lparr>db_users := save usr_id user1 (db_users s)\<rparr>))"

section \<open>Strings\<close>

text \<open>
  The handlers call two methods of \<open>String.prototype\<close>, \<open>toLowerCase()\<close> and \<open>trim()\<close>. Both
  belong to the JavaScript runtime and follow the Unicode tables; the handlers take them as
  the parameter \<open>js\<close>. \<open>split(",")\<close> cuts a string at every comma.
\<close>

record String_prototype =
  toLowerCase :: "string \<Rightarrow> string"
  trim :: "string \<Rightarrow> string"

fun split_on :: "char \<Rightarrow> string \<Rightarrow> string list" where
  "split_on sep [] = [[]]"
| "split_on sep (c # cs) =
     (if c = sep then [] # split_on sep cs
      else (case split_on sep cs of
              [] \<Rightarrow> [[c]]
            | w # ws \<Rightarrow> (c # w) # ws))"

section \<open>Tag model (models/Tag.js)\<close>

text \<open>
  \<open>Tag.findOrCreate\<close>. \<open>create\<close> runs the schema validators (\<open>required\<close>, \<open>maxlength: 50\<close>); a
  validation error is thrown to the caller: the result is then \<open>None\<close> and nothing is stored.
  The name handed to \<open>create\<close> is already lowered and trimmed: the \<open>lowercase\<close> and \<open>trim\<close>
  setters of the schema leave it as it is.
\<close>

definition tag_named :: "ObjectId \<Rightarrow> string \<Rightarrow> db \<Rightarrow> tag option" where
  "tag_named account name s =
     find (\<lambda>t. tag_account t = account \<and> tag_tagName t = name) (db_tags s)"

definition findOrCreate :: "String_prototype \<Rightarrow> ObjectId \<Rightarrow> string \<Rightarrow> db \<Rightarrow> tag option \<times> db" where
  "findOrCreate js account tagName s =
     (let normalizedTagName = trim js (toLowerCase js tagName) in
      case tag_named account normalizedTagName s of
        Some tag \<Rightarrow> (Some tag, s)
      | None \<Rightarrow>
          if normalizedTagName = [] \<or> length normalizedTagName > 50 then (None, s)
          else
            (let tag = \<lparr>tag_id = new_ObjectId (map tag_id (db_tags s)), tag_account = account,
                         tag_tagName = normalizedTagName\<rparr>
             in (Some tag, s\<lparr>db_tags := db_tags s @ [tag]\<rparr>)))"

section \<open>Tenant and role middlewares (middleware/tenant.js, middleware/rolePermission.js)\<close>

text \<open>
  The middlewares read the request context; \<open>None\<close> is a request on which no middleware
  has set \<open>req.user\<close>. In the context \<open>req.user.account\<close> and \<open>req.account\<close> are the same
  document, as \<open>authenticate\<close> sets them.
\<close>

definition ensureTenantIsolation :: "request_context option \<Rightarrow> response + request_context" where
  "ensureTenantIsolation req =
     (case req of
        None \<Rightarrow> Inl (sendError 401 ''Authentication required for tenant isolation'')
      | Some ctx \<Rightarrow>
          Inr (ctx\<lparr>req_tenantFilter :=
                 Some \<lparr>tf_account = Some (acc_id (req_account ctx)), tf_user = None\<rparr>\<rparr>))"

definition checkAccountStatus :: "request_context option \<Rightarrow> response + request_context" where
  "checkAccountStatus req =
     (case req of
        None \<Rightarrow> Inl (sendError 400 ''Account context required'')
      | Some ctx \<Rightarrow>
          let account = req_account ctx in
          if \<not> acc_isActive account then Inl (sendError 403 ''Account is suspended'')
          else if acc_isDeleted account then Inl (sendError 403 ''Account has been deleted'')
          else Inr ctx)"

definition requireRole :: "ROLES \<Rightarrow> request_context option \<Rightarrow> response + request_context" where
  "requireRole requiredRole req =
     (case req of
        None \<Rightarrow> Inl (sendError 401 ''Authentication required'')
      | Some ctx \<Rightarrow>
          (case req_user_role ctx of
             None \<Rightarrow> Inl (sendError 401 ''Authentication required'')
           | Some r \<Rightarrow>
               if role_roleName r \<noteq> requiredRole
               then Inl (sendError 403
                      (''Access denied - '' @ (case requiredRole of ADMIN \<Rightarrow> ''admin'' | MEMBER \<Rightarrow> ''member'')
                         @ '' role required''))
               else Inr ctx))"

definition requireAdmin :: "request_context option \<Rightarrow> response + request_context" where
  "requireAdmin = requireRole ADMIN"

definition requireMember :: "request_context option \<Rightarrow> response + request_context" where
  "requireMember req =
     (case req of
        None \<Rightarrow> Inl (sendError 401 ''Authentication required'')
      | Some ctx \<Rightarrow>
          (case req_user_role ctx of
             None \<Rightarrow> Inl (sendError 401 ''Authentication required'')
           | Some r \<Rightarrow>
               if role_roleName r \<notin> set [ADMIN, MEMBER]
               then Inl (sendError 403 ''Access denied - member access required'')
               else Inr ctx))"

text \<open>\<open>requireOwnershipOrAdmin()\<close> with its default field \<open>"user"\<close>.\<close>

definition requireOwnershipOrAdmin :: "request_context option \<Rightarrow> response + request_context" where
  "requireOwnershipOrAdmin req =
     (case req of
        None \<Rightarrow> Inl (sendError 401 ''Authentication required'')
      | Some ctx \<Rightarrow>
          (case req_user_role ctx of
             None \<Rightarrow> Inl (sendError 401 ''Authentication required'')
           | Some r \<Rightarrow>
               if role_roleName r = ADMIN then Inr ctx
               else
                 (let tenantFilter = (case req_tenantFilter ctx of
                                        None \<Rightarrow> \<lparr>tf_account = None, tf_user = None\<rparr>
                                      | Some f \<Rightarrow> f)
                  in Inr (ctx\<lparr>req_tenantFilter :=
                            Some (tenantFilter\<lparr>tf_user := Some (usr_id (req_user ctx))\<rparr>)\<rparr>))))"

section \<open>Note controller (controllers/noteController.js)\<close>

text \<open>An element of the \<open>tags\<close> array of a request body: a string or another JSON value.\<close>

datatype json_value = JString string | JOther

record create_note_body =
  cn_title :: "string option"
  cn_description :: "string option"
  cn_tags :: "json_value list"

record update_note_body =
  un_title :: "string option"
  un_description :: "string option"
  un_tags :: "json_value list option"

datatype tags_param = Tags_string string | Tags_array "string list"

text \<open>
  The query of the list endpoints; \<open>q_page\<close> and \<open>q_limit\<close> are the values of
  \<open>parseInt(page)\<close> and \<open>parseInt(limit)\<close>.
\<close>

record list_query =
  q_page :: int
  q_limit :: int
  q_search :: "string option"
  q_tags :: "tags_param option"

text \<open>The \<open>:id\<close> parameter: a string that casts to an ObjectId, or one that does not.\<close>

datatype id_param = Valid_id ObjectId | Invalid_id string

text \<open>The loop over the tags of a request body; a thrown validation error ends it.\<close>

fun process_tags :: "String_prototype \<Rightarrow> ObjectId \<Rightarrow> json_value list \<Rightarrow> ObjectId list \<Rightarrow> db \<Rightarrow> ObjectId list option \<times> db" where
  "process_tags js account [] tagIds s = (Some tagIds, s)"
| "process_tags js account (JString tagName # rest) tagIds s =
     (if trim js tagName \<noteq> []
      then (case findOrCreate js account (trim js tagName) s of
              (None, s') \<Rightarrow> (None, s')
            | (Some tag, s') \<Rightarrow> process_tags js account rest (tagIds @ [tag_id tag]) s')
      else process_tags js account rest tagIds s)"
| "process_tags js account (JOther # rest) tagIds s = process_tags js account rest tagIds s"

text \<open>The validators of the Note schema that \<open>note.save()\<close> runs.\<close>

definition note_valid :: "note_doc \<Rightarrow> bool" where
  "note_valid n = (note_title n \<noteq> [] \<and> length (note_title n) \<le> 200
     \<and> length (note_description n) \<le> 10000)"

definition createNote :: "String_prototype \<Rightarrow> Date \<Rightarrow> create_note_body \<Rightarrow> request_context \<Rightarrow> db \<Rightarrow> response \<times> db" where
  "createNote js now body ctx s =
     (let user = req_user ctx; account = req_account ctx in
      if \<not> truthy (cn_title body) then (sendError 400 ''Title is required'', s)
      else
        (case process_tags js (acc_id account) (cn_tags body) [] s of
           (None, s1) \<Rightarrow> (sendError 500 ''Failed to create note'', s1)
         | (Some tagIds, s1) \<Rightarrow>
             let new_note = \<lparr>note_id = new_ObjectId (map note_id (db_notes s1)),
                       note_account = acc_id account,
                       note_user = usr_id user,
                       note_title = trim js (the (cn_title body)),
                       note_description =
                         (if truthy (cn_description body) then trim js (the (cn_description body)) else []),
                       note_tags = tagIds,
                       note_isDeleted = False,
                       note_createdAt = now\<rparr>
             in if \<not> note_valid new_note then (sendError 500 ''Failed to create note'', s1)
                else
                  (let s2 = s1\<lparr>db_notes := db_notes s1 @ [new_note]\<rparr>;
                       (account1, s3) = incrementNoteCount account s2
                   in (sendResponse 201 ''Note created successfully'' NoData, s3))))"

text \<open>
  A query filter: the tenant filter spread into the query, and \<open>isDeleted: false\<close>.
  \<open>req.tenantFilter || {}\<close> is the empty filter when no middleware has set one.
\<close>

definition tenantFilter_of :: "request_context \<Rightarrow> tenant_filter" where
  "tenantFilter_of ctx =
     (case req_tenantFilter ctx of
        None \<Rightarrow> \<lparr>tf_account = None, tf_user = None\<rparr>
      | Some f \<Rightarrow> f)"

definition matches_filter :: "tenant_filter \<Rightarrow> note_doc \<Rightarrow> bool" where
  "matches_filter f n =
     ((case tf_account f of None \<Rightarrow> True | Some a \<Rightarrow> note_account n = a)
      \<and> (case tf_user f of None \<Rightarrow> True | Some u \<Rightarrow> note_user n = u))"

definition find_note :: "ObjectId \<Rightarrow> tenant_filter \<Rightarrow> db \<Rightarrow> note_doc option" where
  "find_note i f s =
     find (\<lambda>n. note_id n = i \<and> matches_filter f n \<and> \<not> note_isDeleted n) (db_notes s)"

definition getNoteById :: "id_param \<Rightarrow> request_context \<Rightarrow> db \<Rightarrow> response \<times> db" where
  "getNoteById ident ctx s =
     (case ident of
        Invalid_id str \<Rightarrow> (sendError 400 ''Invalid note ID'', s)
      | Valid_id i \<Rightarrow>
          (case find_note i (tenantFilter_of ctx) s of
             None \<Rightarrow> (sendError 404 ''Note not found'', s)
           | Some n \<Rightarrow> (sendResponse 200 ''Note retrieved successfully'' (NoteData n), s)))"

text \<open>
  \<open>updateNote\<close>: the assignments to the found document (title and description when
  provided, the resolved tag ids when \<open>tags\<close> is provided) and the final \<open>note.save()\<close>, which
  runs the validators. The ownership test reads \<open>user.role.roleName\<close>; with no role
  document the read throws and the handler answers 500 (so does \<open>deleteNote\<close>).
\<close>

definition update_fields :: "String_prototype \<Rightarrow> update_note_body \<Rightarrow> ObjectId list \<Rightarrow> note_doc \<Rightarrow> note_doc" where
  "update_fields js body tagIds n =
     n\<lparr>note_title := (case un_title body of None \<Rightarrow> note_title n | Some title \<Rightarrow> trim js title),
       note_description :=
         (case un_description body of
            None \<Rightarrow> note_description n
          | Some description \<Rightarrow> if description \<noteq> [] then trim js description else []),
       note_tags := tagIds\<rparr>"

definition save_updated :: "note_doc \<Rightarrow> db \<Rightarrow> response \<times> db" where
  "save_updated n s =
     (if \<not> note_valid n then (sendError 500 ''Failed to update note'', s)
      else (sendResponse 200 ''Note updated successfully'' (NoteData n),
            s\<lparr>db_notes := save note_id n (db_notes s)\<rparr>))"

definition updateNote :: "String_prototype \<Rightarrow> id_param \<Rightarrow> update_note_body \<Rightarrow> request_context \<Rightarrow> db \<Rightarrow> response \<times> db" where
  "updateNote js ident body ctx s =
     (let user = req_user ctx in
      case ident of
        Invalid_id str \<Rightarrow> (sendError 400 ''Invalid note ID'', s)
      | Valid_id i \<Rightarrow>
          (case find_note i (tenantFilter_of ctx) s of
             None \<Rightarrow> (sendError 404 ''Note not found'', s)
           | Some n \<Rightarrow>
               if req_user_role ctx = None then (sendError 500 ''Failed to update note'', s)
               else if role_roleName (the (req_user_role ctx)) \<noteq> ADMIN
                  \<and> note_user n \<noteq> usr_id user
               then (sendError 403 ''You can only update your own notes'', s)
               else if un_title body \<noteq> None \<and> trim js (the (un_title body)) = []
               then (sendError 400 ''Title is required'', s)
               else
                 (case (case un_tags body of
                          None \<Rightarrow> (Some (note_tags n), s)
                        | Some tags \<Rightarrow> process_tags js (acc_id (req_account ctx)) tags [] s) of
                    (None, s1) \<Rightarrow> (sendError 500 ''Failed to update note'', s1)
                  | (Some tagIds, s1) \<Rightarrow> save_updated (update_fields js body tagIds n) s1)))"

definition deleteNote :: "id_param \<Rightarrow> request_context \<Rightarrow> db \<Rightarrow> response \<times> db" where
  "deleteNote ident ctx s =
     (let user = req_user ctx; account = req_account ctx in
      case ident of
        Invalid_id str \<Rightarrow> (sendError 400 ''Invalid note ID'', s)
      | Valid_id i \<Rightarrow>
          (case find_note i (tenantFilter_of ctx) s of
             None \<Rightarrow> (sendError 404 ''Note not found'', s)
           | Some n \<Rightarrow>
               if req_user_role ctx = None then (sendError 500 ''Failed to delete note'', s)
               else if role_roleName (the (req_user_role ctx)) \<noteq> ADMIN
                  \<and> note_user n \<noteq> usr_id user
               then (sendError 403 ''You can only delete your own notes'', s)
               else
                 (let n1 = n\<lparr>note_isDeleted := True\<rparr>;
                      s1 = s\<lparr>db_notes := save note_id n1 (db_notes s)\<rparr>;
                      (account1, s2) = decrementNoteCount account s1
                  in (sendResponse 200 ''Note deleted successfully'' NoData, s2))))"

text \<open>
  The list endpoints. \<open>getNotes\<close> splits a string of tags at the commas, \<open>getMyNotes\<close> takes
  it as one name. The text index is a pair of parameters: \<open>text_match search note\<close> and
  the score \<open>text_score search note\<close>. Documents come sorted by \<open>createdAt\<close>, newest first,
  and by score within one \<open>createdAt\<close> when searching; the store rejects a negative
  \<open>skip\<close>, takes \<open>limit(0)\<close> as no limit and a negative limit by its absolute value. The
  page count, a rounded floating-point quotient, is left out of the response data.
\<close>

definition order_notes :: "(string \<Rightarrow> note_doc \<Rightarrow> int) \<Rightarrow> string option \<Rightarrow> note_doc list \<Rightarrow> note_doc list" where
  "order_notes text_score search ns =
     (let by_score = (if truthy search
                      then sort_key (\<lambda>n. - text_score (the search) n) ns
                      else ns)
      in sort_key (\<lambda>n. - note_createdAt n) by_score)"

definition paginate :: "int \<Rightarrow> int \<Rightarrow> 'a list \<Rightarrow> 'a list" where
  "paginate skip lim xs =
     (let rest = drop (nat skip) xs
      in if lim = 0 then rest else take (nat \<bar>lim\<bar>) rest)"

definition tag_names_of :: "bool \<Rightarrow> tags_param \<Rightarrow> string list" where
  "tag_names_of split_string tp =
     (case tp of
        Tags_array names \<Rightarrow> names
      | Tags_string str \<Rightarrow> if split_string then split_on CHR '','' str else [str])"

definition tags_truthy :: "tags_param option \<Rightarrow> bool" where
  "tags_truthy tp = (case tp of None \<Rightarrow> False | Some (Tags_string str) \<Rightarrow> str \<noteq> [] | Some (Tags_array names) \<Rightarrow> True)"

definition find_tags :: "String_prototype \<Rightarrow> ObjectId \<Rightarrow> bool \<Rightarrow> tags_param option \<Rightarrow> db \<Rightarrow> tag list" where
  "find_tags js account split_string tp s =
     (case tp of
        None \<Rightarrow> []
      | Some tags \<Rightarrow>
          filter (\<lambda>t. tag_account t = account
                     \<and> tag_tagName t \<in> set (map (toLowerCase js) (tag_names_of split_string tags)))
            (db_tags s))"

definition has_tag_in :: "tag list \<Rightarrow> note_doc \<Rightarrow> bool" where
  "has_tag_in tagObjects n = (\<exists>i \<in> set (note_tags n). i \<in> set (map tag_id tagObjects))"

text \<open>
  The query object of the list endpoints: the filter on account and owner,
  \<open>isDeleted: false\<close>, \<open>$text\<close> when \<open>search\<close> is given and \<open>tags: {$in: ...}\<close> when \<open>tags\<close> is
  given (an empty \<open>$in\<close> list matches nothing).
\<close>

definition notes_query ::
  "(string \<Rightarrow> note_doc \<Rightarrow> bool) \<Rightarrow> list_query \<Rightarrow> tenant_filter \<Rightarrow> tag list \<Rightarrow> note_doc \<Rightarrow> bool" where
  "notes_query text_match q f tagObjects n =
     (matches_filter f n \<and> \<not> note_isDeleted n
      \<and> (truthy (q_search q) \<longrightarrow> text_match (the (q_search q)) n)
      \<and> (tags_truthy (q_tags q) \<longrightarrow> has_tag_in tagObjects n))"

definition notes_page ::
  "(string \<Rightarrow> note_doc \<Rightarrow> int) \<Rightarrow> list_query \<Rightarrow> note_doc list \<Rightarrow> payload" where
  "notes_page text_score q found =
     NotesPage (paginate ((q_page q - 1) * q_limit q) (q_limit q)
                  (order_notes text_score (q_search q) found))
       (q_page q) (q_limit q) (int (length found))"

definition getNotes ::
  "String_prototype \<Rightarrow> (string \<Rightarrow> note_doc \<Rightarrow> bool) \<Rightarrow> (string \<Rightarrow> note_doc \<Rightarrow> int) \<Rightarrow> list_query \<Rightarrow> request_context \<Rightarrow> db
     \<Rightarrow> response \<times> db" where
  "getNotes js text_match text_score q ctx s =
     (let tenantFilter = tenantFilter_of ctx;
          tagObjects = find_tags js (acc_id (req_account ctx)) True (q_tags q) s;
          found = filter (notes_query text_match q tenantFilter tagObjects) (db_notes s);
          skip = (q_page q - 1) * q_limit q
      in if skip < 0 then (sendError 500 ''Failed to retrieve notes'', s)
         else (sendResponse 200 ''Notes retrieved successfully'' (notes_page text_score q found), s))"

definition getMyNotes ::
  "String_prototype \<Rightarrow> (string \<Rightarrow> note_doc \<Rightarrow> bool) \<Rightarrow> (string \<Rightarrow> note_doc \<Rightarrow> int) \<Rightarrow> list_query \<Rightarrow> request_context \<Rightarrow> db
     \<Rightarrow> response \<times> db" where
  "getMyNotes js text_match text_score q ctx s =
     (let user = req_user ctx;
          own = \<lparr>tf_account = Some (acc_id (req_account ctx)), tf_user = Some (usr_id user)\<rparr>;
          tagObjects = find_tags js (acc_id (req_account ctx)) False (q_tags q) s;
          found = filter (notes_query text_match q own tagObjects) (db_notes s);
          skip = (q_page q - 1) * q_limit q
      in if tags_truthy (q_tags q) \<and> tagObjects = []
         then (sendResponse 200 ''Your notes retrieved successfully''
                 (NotesPage [] (q_page q) (q_limit q) 0), s)
         else if skip < 0 then (sendError 500 ''Failed to retrieve your notes'', s)
         else (sendResponse 200 ''Your notes retrieved successfully''
                 (notes_page text_score q found), s))"

section \<open>Notes router (routes/notes.js)\<close>

datatype notes_request =
    POST_note create_note_body
  | GET_notes list_query
  | GET_my_notes list_query
  | GET_note id_param
  | PUT_note id_param update_note_body
  | DELETE_note id_param

text \<open>
  \<open>router.use(authenticate)\<close>, \<open>router.use(ensureTenantIsolation)\<close>,
  \<open>router.use(checkAccountStatus)\<close>: the three middlewares in front of every notes route.
\<close>

definition notes_prelude ::
  "(string \<Rightarrow> jwt_payload \<Rightarrow> string) \<Rightarrow> string \<Rightarrow> Date \<Rightarrow> headers \<Rightarrow> db \<Rightarrow> response + request_context" where
  "notes_prelude sign secret now hdrs s =
     (case authenticate sign secret now hdrs s of
        Inl r \<Rightarrow> Inl r
      | Inr ctx0 \<Rightarrow>
          (case ensureTenantIsolation (Some ctx0) of
             Inl r \<Rightarrow> Inl r
           | Inr ctx1 \<Rightarrow> checkAccountStatus (Some ctx1)))"

definition notes_router ::
  "String_prototype \<Rightarrow> (string \<Rightarrow> jwt_payload \<Rightarrow> string) \<Rightarrow> string \<Rightarrow> (string \<Rightarrow> note_doc \<Rightarrow> bool)
     \<Rightarrow> (string \<Rightarrow> note_doc \<Rightarrow> int) \<Rightarrow> Date \<Rightarrow> headers \<Rightarrow> notes_request \<Rightarrow> db \<Rightarrow> response \<times> db" where
  "notes_router js sign secret text_match text_score now hdrs request s =
     (case notes_prelude sign secret now hdrs s of
        Inl r \<Rightarrow> (r, s)
      | Inr ctx \<Rightarrow>
          (case requireMember (Some ctx) of
             Inl r \<Rightarrow> (r, s)
           | Inr ctx \<Rightarrow>
               (case request of
                  POST_note body \<Rightarrow>
                    (case checkNoteLimit (Some (req_account ctx)) of
                       Inl r \<Rightarrow> (r, s)
                     | Inr u \<Rightarrow> createNote js now body ctx s)
                | GET_notes q \<Rightarrow> getNotes js text_match text_score q ctx s
                | GET_my_notes q \<Rightarrow> getMyNotes js text_match text_score q ctx s
                | GET_note ident \<Rightarrow>
                    (case requireOwnershipOrAdmin (Some ctx) of
                       Inl r \<Rightarrow> (r, s)
                     | Inr ctx' \<Rightarrow> getNoteById ident ctx' s)
                | PUT_note ident body \<Rightarrow>
                    (case requireOwnershipOrAdmin (Some ctx) of
                       Inl r \<Rightarrow> (r, s)
                     | Inr ctx' \<Rightarrow> updateNote js ident body ctx' s)
                | DELETE_note ident \<Rightarrow>
                    (case requireOwnershipOrAdmin (Some ctx) of
                       Inl r \<Rightarrow> (r, s)
                     | Inr ctx' \<Rightarrow> deleteNote ident ctx' s))))"

text \<open>A sequence of requests to the notes routes, each with its clock reading and headers.\<close>

fun notes_requests ::
  "String_prototype \<Rightarrow> (string \<Rightarrow> jwt_payload \<Rightarrow> string) \<Rightarrow> string \<Rightarrow> (string \<Rightarrow> note_doc \<Rightarrow> bool)
     \<Rightarrow> (string \<Rightarrow> note_doc \<Rightarrow> int) \<Rightarrow> (Date \<times> headers \<times> notes_request) list \<Rightarrow> db \<Rightarrow> db" where
  "notes_requests js sign secret text_match text_score [] s = s"
| "notes_requests js sign secret text_match text_score ((now, hdrs, request) # rest) s =
     notes_requests js sign secret text_match text_score rest
       (snd (notes_router js sign secret text_match text_score now hdrs request s))"

section \<open>Tenant data\<close>

text \<open>
  The part of the store that does not belong to account \<open>A\<close>: every document whose account
  reference (for an account, its own id) differs from \<open>A\<close>.
\<close>

definition data_outside :: "ObjectId \<Rightarrow> db \<Rightarrow> db" where
  "data_outside A s =
     \<lparr>db_accounts = filter (\<lambda>a. acc_id a \<noteq> A) (db_accounts s),
      db_roles = filter (\<lambda>r. role_account r \<noteq> A) (db_roles s),
      db_users = filter (\<lambda>u. usr_account u \<noteq> A) (db_users s),
      db_notes = filter (\<lambda>n. note_account n \<noteq> A) (db_notes s),
      db_tags = filter (\<lambda>t. tag_account t \<noteq> A) (db_tags s),
      db_subscriptions = filter (\<lambda>x. sub_account x \<noteq> A) (db_subscriptions s),
      db_payments = filter (\<lambda>p. pay_account p \<noteq> A) (db_payments s)\<rparr>"

text \<open>The note id a request to \<open>/notes/:id\<close> names.\<close>

definition requested_id :: "notes_request \<Rightarrow> ObjectId option" where
  "requested_id request =
     (case request of
        GET_note (Valid_id i) \<Rightarrow> Some i
      | PUT_note (Valid_id i) body \<Rightarrow> Some i
      | DELETE_note (Valid_id i) \<Rightarrow> Some i
      | _ \<Rightarrow> None)"

text \<open>The answers of the ownership tests inside \<open>updateNote\<close> and \<open>deleteNote\<close>.\<close>

definition own_update_403 :: response where
  "own_update_403 = sendError 403 ''You can only update your own notes''"

definition own_delete_403 :: response where
  "own_delete_403 = sendError 403 ''You can only delete your own notes''"

text \<open>No stored account has a negative note count.\<close>

definition counts_nonneg :: "db \<Rightarrow> bool" where
  "counts_nonneg s = (\<forall>a \<in> set (db_accounts s). 0 \<le> acc_noteCount a)"

text \<open>
  The normalized names that the tag loop resolves, one for each string of the input that
  is not blank, in the order of the input.
\<close>

fun resolved_names :: "String_prototype \<Rightarrow> json_value list \<Rightarrow> string list" where
  "resolved_names js [] = []"
| "resolved_names js (JString tagName # rest) =
     (if trim js tagName \<noteq> [] then trim js (toLowerCase js (trim js tagName)) # resolved_names js rest
      else resolved_names js rest)"
| "resolved_names js (JOther # rest) = resolved_names js rest"

text \<open>The unique index of the tags collection: one tag per account and name.\<close>

definition tags_unique :: "db \<Rightarrow> bool" where
  "tags_unique s = distinct (map (\<lambda>t. (tag_account t, tag_tagName t)) (db_tags s))"

section \<open>Registration, login and invitation (controllers/authController.js, config/passport.js)\<close>

text \<open>The decimal digits of a counter, as a template literal prints it.\<close>

definition digit_char :: "nat \<Rightarrow> char" where
  "digit_char d = ''0123456789'' ! (d mod 10)"

function show_nat :: "nat \<Rightarrow> string" where
  "show_nat n = (if n < 10 then [digit_char n] else show_nat (n div 10) @ [digit_char (n mod 10)])"
  by pat_completeness auto
termination
  by (relation "measure id") auto

text \<open>
  The loop of \<open>register\<close> that looks for a slug no account has: \<open>baseSlug\<close>, then
  \<open>baseSlug-1\<close>, \<open>baseSlug-2\<close> and so on. The result is \<open>None\<close> when the loop does not end.
\<close>

partial_function (option) free_slug :: "account list \<Rightarrow> string \<Rightarrow> string \<Rightarrow> nat \<Rightarrow> string option" where
  "free_slug accs baseSlug slug counter =
     (if find (\<lambda>a. acc_slug a = slug) accs \<noteq> None
      then free_slug accs baseSlug (baseSlug @ ''-'' @ show_nat counter) (counter + 1)
      else Some slug)"

declare free_slug.simps [code]

record register_body =
  rg_email :: "string option"
  rg_password :: "string option"
  rg_name :: "string option"
  rg_accountName :: "string option"

text \<open>
  The validators of the User schema that \<open>user.save()\<close> runs on a new user: \<open>email\<close> and
  \<open>name\<close> are required after the \<open>trim\<close> setter, the plain password has at least six
  characters.
\<close>

definition user_valid :: "String_prototype \<Rightarrow> string \<Rightarrow> string \<Rightarrow> string \<Rightarrow> bool" where
  "user_valid js email name password =
     (trim js (toLowerCase js email) \<noteq> [] \<and> trim js name \<noteq> [] \<and> length password \<ge> 6)"

text \<open>
  The unique index \<open>{email, account}\<close> of the users collection: the insert of a user whose
  stored email and account another user document already has, deleted or not, is refused
  with a duplicate key error. The accounts collection has a unique index on \<open>slug\<close>.
\<close>

definition email_taken :: "db \<Rightarrow> string \<Rightarrow> ObjectId \<Rightarrow> bool" where
  "email_taken s email account =
     list_ex (\<lambda>u. usr_email u = email \<and> usr_account u = account) (db_users s)"

definition slug_taken :: "db \<Rightarrow> string \<Rightarrow> bool" where
  "slug_taken s slug = list_ex (\<lambda>a. acc_slug a = slug) (db_accounts s)"

text \<open>
  \<open>register\<close>. \<open>slugify\<close> is a parameter (the slugify library behind \<open>generateSlug\<close>), so is
  \<open>hashPassword\<close>. The account's slug goes through the \<open>lowercase\<close> and \<open>trim\<close> setters and
  is required.
\<close>

definition register ::
  "String_prototype \<Rightarrow> (string \<Rightarrow> string) \<Rightarrow> (string \<Rightarrow> string) \<Rightarrow> Date \<Rightarrow> register_body \<Rightarrow> db \<Rightarrow> (response \<times> db) option" where
  "register js slugify hashPassword now body s =
     (if \<not> truthy (rg_email body) \<or> \<not> truthy (rg_password body) \<or> \<not> truthy (rg_name body)
         \<or> \<not> truthy (rg_accountName body)
      then Some (sendError 400 ''All fields are required'', s)
      else
        let email = the (rg_email body); password = the (rg_password body);
            name = the (rg_name body); accountName = the (rg_accountName body)
        in if find (\<lambda>u. usr_email u = toLowerCase js email \<and> \<not> usr_isDeleted u) (db_users s) \<noteq> None
           then Some (sendError 409 ''User with this email already exists'', s)
           else
             (case free_slug (db_accounts s) (slugify accountName) (slugify accountName) 1 of
                None \<Rightarrow> None
              | Some slug \<Rightarrow>
                  if trim js (toLowerCase js slug) = [] \<or> slug_taken s (trim js (toLowerCase js slug))
                  then Some (sendError 500 ''Registration failed'', s)
                  else
                    let account = \<lparr>acc_id = new_ObjectId (map acc_id (db_accounts s)),
                                     acc_slug = trim js (toLowerCase js slug), acc_plan = FREE, acc_limit = 3,
                                     acc_noteCount = 0, acc_currentSubscription = None,
                                     acc_isActive = True, acc_isDeleted = False\<rparr>;
                        s1 = s\<lparr>db_accounts := db_accounts s @ [account]\<rparr>;
                        adminRole = \<lparr>role_id = new_ObjectId (map role_id (db_roles s1)),
                                       role_account = acc_id account, role_roleName = ADMIN\<rparr>;
                        s2 = s1\<lparr>db_roles := db_roles s1 @ [adminRole]\<rparr>
                    in if \<not> user_valid js email name password
                          \<or> email_taken s2 (trim js (toLowerCase js email)) (acc_id account)
                       then Some (sendError 500 ''Registration failed'', s2)
                       else
                         let user = \<lparr>usr_id = new_ObjectId (map usr_id (db_users s2)),
                                      usr_account = acc_id account,
                                      usr_email = trim js (toLowerCase js email),
                                      usr_password = hashPassword password,
                                      usr_name = trim js name, usr_role = role_id adminRole,
                                      usr_isActive = True, usr_isDeleted = False,
                                      usr_tokensInvalidBefore = now, usr_lastLogin = None,
                                      usr_lastIP = None\<rparr>
                         in Some (sendResponse 201 ''Account created successfully'' NoData,
                                  s2\<lparr>db_users := db_users s2 @ [user]\<rparr>)))"

text \<open>
  The verify callback of the local strategy: \<open>Inl\<close> is \<open>done(null, false, info)\<close> with the
  message of \<open>info\<close>, \<open>Inr\<close> is \<open>done(null, user)\<close>.
\<close>

definition LocalStrategy ::
  "String_prototype \<Rightarrow> (string \<Rightarrow> string \<Rightarrow> bool) \<Rightarrow> Date \<Rightarrow> string \<Rightarrow> string \<Rightarrow> db \<Rightarrow> (string + user) \<times> db" where
  "LocalStrategy js comparePassword now email password s =
     (case find (\<lambda>u. usr_email u = toLowerCase js email \<and> usr_isActive u \<and> \<not> usr_isDeleted u)
             (db_users s) of
        None \<Rightarrow> (Inl ''Invalid email or password'', s)
      | Some user \<Rightarrow>
          (case findById acc_id (usr_account user) (db_accounts s) of
             None \<Rightarrow> (Inl ''Account is inactive'', s)
           | Some account \<Rightarrow>
               if \<not> acc_isActive account \<or> acc_isDeleted account
               then (Inl ''Account is inactive'', s)
               else if \<not> comparePassword password (usr_password user)
               then (Inl ''Invalid email or password'', s)
               else
                 (let user1 = user\<lparr>usr_lastLogin := Some now\<rparr>
                  in (Inr user1, s\<lparr>db_users := save usr_id user1 (db_users s)\<rparr>))))"

record login_body =
  lg_email :: "string option"
  lg_password :: "string option"

text \<open>
  \<open>login\<close>. The passport-local strategy fails a request without an email or a password
  with the message "Missing credentials" before it calls the verify callback. Reading
  \<open>user.role.roleName\<close> throws when the user has no role document.
\<close>

definition login ::
  "String_prototype \<Rightarrow> (string \<Rightarrow> jwt_payload \<Rightarrow> string) \<Rightarrow> string \<Rightarrow> int \<Rightarrow> (string \<Rightarrow> string \<Rightarrow> bool) \<Rightarrow> Date
     \<Rightarrow> string option \<Rightarrow> login_body \<Rightarrow> db \<Rightarrow> response \<times> db" where
  "login js sign secret expiresIn comparePassword now ip body s =
     (if \<not> truthy (lg_email body) \<or> \<not> truthy (lg_password body)
      then (sendError 401 ''Missing credentials'', s)
      else
        (case LocalStrategy js comparePassword now (the (lg_email body)) (the (lg_password body)) s of
           (Inl info, s1) \<Rightarrow>
             (sendError 401 (if info \<noteq> [] then info else ''Invalid credentials''), s1)
         | (Inr user, s1) \<Rightarrow>
             let user1 = user\<lparr>usr_lastLogin := Some now, usr_lastIP := ip\<rparr>;
                 s2 = s1\<lparr>db_users := save usr_id user1 (db_users s1)\<rparr>
             in (case findById role_id (usr_role user1) (db_roles s) of
                   None \<Rightarrow> (sendError 500 ''Login failed'', s2)
                 | Some r \<Rightarrow>
                     (sendResponse 200 ''Login successful''
                        (TokenData (generateToken sign secret expiresIn now (usr_id user1)
                                      (usr_account user1) (role_roleName r))), s2))))"

definition getProfile :: "request_context \<Rightarrow> db \<Rightarrow> response \<times> db" where
  "getProfile ctx s =
     (case req_user_role ctx of
        None \<Rightarrow> (sendError 500 ''Failed to get profile'', s)
      | Some r \<Rightarrow>
          (sendResponse 200 ''Profile retrieved successfully''
             (ProfileData (req_user ctx) (req_account ctx) (role_roleName r)), s))"

record invite_body =
  iv_email :: "string option"
  iv_name :: "string option"
  iv_role :: "string option"

definition role_of_string :: "string \<Rightarrow> ROLES option" where
  "role_of_string str =
     (if str = ''admin'' then Some ADMIN else if str = ''member'' then Some MEMBER else None)"

text \<open>
  \<open>inviteUser\<close>. The temporary password is the value of \<open>generateRandomString(12)\<close>, a
  parameter. A role document created for the invitation stays when the user fails
  validation.
\<close>

definition inviteUser ::
  "String_prototype \<Rightarrow> (string \<Rightarrow> string) \<Rightarrow> string \<Rightarrow> Date \<Rightarrow> invite_body \<Rightarrow> request_context \<Rightarrow> db \<Rightarrow> response \<times> db" where
  "inviteUser js hashPassword tempPassword now body ctx s =
     (let account = acc_id (req_account ctx);
          role = (case iv_role body of None \<Rightarrow> ''member'' | Some str \<Rightarrow> str)
      in if \<not> truthy (iv_email body) \<or> \<not> truthy (iv_name body)
         then (sendError 400 ''Email and name are required'', s)
         else
           (case role_of_string role of
              None \<Rightarrow> (sendError 400 ''Invalid role'', s)
            | Some roleName \<Rightarrow>
                let email = the (iv_email body); name = the (iv_name body) in
                if find (\<lambda>u. usr_email u = toLowerCase js email \<and> usr_account u = account
                               \<and> \<not> usr_isDeleted u) (db_users s) \<noteq> None
                then (sendError 409 ''User already exists in this account'', s)
                else
                  let (userRole, s1) =
                        (case find (\<lambda>r. role_account r = account \<and> role_roleName r = roleName)
                                (db_roles s) of
                           Some r \<Rightarrow> (r, s)
                         | None \<Rightarrow>
                             (let r = \<lparr>role_id = new_ObjectId (map role_id (db_roles s)),
                                        role_account = account, role_roleName = roleName\<rparr>
                              in (r, s\<lparr>db_roles := db_roles s @ [r]\<rparr>)))
                  in if \<not> user_valid js email name tempPassword
                        \<or> email_taken s1 (trim js (toLowerCase js email)) account
                     then (sendError 500 ''Failed to invite user'', s1)
                     else
                       (let newUser = \<lparr>usr_id = new_ObjectId (map usr_id (db_users s1)),
                                        usr_account = account,
                                        usr_email = trim js (toLowerCase js email),
                                        usr_password = hashPassword tempPassword,
                                        usr_name = trim js name, usr_role = role_id userRole,
                                        usr_isActive = False, usr_isDeleted = False,
                                        usr_tokensInvalidBefore = now, usr_lastLogin = None,
                                        usr_lastIP = None\<rparr>
                        in (sendResponse 201 ''User invited successfully''
                              (InviteData (usr_email newUser) tempPassword),
                            s1\<lparr>db_users := db_users s1 @ [newUser]\<rparr>))))"

section \<open>Auth router (routes/auth.js)\<close>

datatype auth_request =
    POST_register register_body
  | POST_login login_body
  | GET_profile
  | POST_invite invite_body
  | POST_change_password change_password_body
  | POST_logout

text \<open>
  What a request to the auth routes takes from its environment: the signing and hashing
  primitives, the slug function, the random temporary password and the client address.
\<close>

record environment =
  env_sign :: "string \<Rightarrow> jwt_payload \<Rightarrow> string"
  env_secret :: string
  env_expiresIn :: int
  env_hashPassword :: "string \<Rightarrow> string"
  env_comparePassword :: "string \<Rightarrow> string \<Rightarrow> bool"
  env_slugify :: "string \<Rightarrow> string"
  env_randomString :: string
  env_ip :: "string option"

text \<open>\<open>authenticate\<close>, \<open>ensureTenantIsolation\<close>, \<open>checkAccountStatus\<close> in front of a handler.\<close>

definition protected ::
  "environment \<Rightarrow> Date \<Rightarrow> headers \<Rightarrow> db \<Rightarrow> response + request_context" where
  "protected env now hdrs s = notes_prelude (env_sign env) (env_secret env) now hdrs s"

definition auth_router ::
  "String_prototype \<Rightarrow> environment \<Rightarrow> Date \<Rightarrow> headers \<Rightarrow> auth_request \<Rightarrow> db \<Rightarrow> (response \<times> db) option" where
  "auth_router js env now hdrs request s =
     (case request of
        POST_register body \<Rightarrow> register js (env_slugify env) (env_hashPassword env) now body s
      | POST_login body \<Rightarrow>
          Some (login js (env_sign env) (env_secret env) (env_expiresIn env) (env_comparePassword env)
                  now (env_ip env) body s)
      | GET_profile \<Rightarrow>
          (case protected env now hdrs s of
             Inl r \<Rightarrow> Some (r, s)
           | Inr ctx \<Rightarrow> Some (getProfile ctx s))
      | POST_invite body \<Rightarrow>
          (case protected env now hdrs s of
             Inl r \<Rightarrow> Some (r, s)
           | Inr ctx \<Rightarrow>
               (case requireAdmin (Some ctx) of
                  Inl r \<Rightarrow> Some (r, s)
                | Inr ctx' \<Rightarrow>
                    Some (inviteUser js (env_hashPassword env) (env_randomString env) now body ctx' s)))
      | POST_change_password body \<Rightarrow>
          (case protected env now hdrs s of
             Inl r \<Rightarrow> Some (r, s)
           | Inr ctx \<Rightarrow>
               Some (changePassword (env_hashPassword env) (env_comparePassword env) now body ctx s))
      | POST_logout \<Rightarrow>
          (case authenticate (env_sign env) (env_secret env) now hdrs s of
             Inl r \<Rightarrow> Some (r, s)
           | Inr ctx \<Rightarrow> Some (logout now ctx s)))"

section \<open>Payment orders (controllers/subscriptionController.js)\<close>

text \<open>
  \<open>createOrder\<close> asks the gateway for an order: the answer (the order id, or a failure) is a
  parameter \<open>orders amountInPaise currency receipt\<close>. The receipt ends in a random string,
  a parameter.
\<close>

definition createOrder ::
  "(int \<Rightarrow> string \<Rightarrow> string \<Rightarrow> string option) \<Rightarrow> int \<Rightarrow> string \<Rightarrow> string \<Rightarrow> string + string" where
  "createOrder orders amount currency receipt =
     (case orders (amount * 100) currency receipt of
        None \<Rightarrow> Inl ''Failed to create payment order''
      | Some order_id \<Rightarrow> Inr order_id)"

definition upgradeSubscription ::
  "(int \<Rightarrow> string \<Rightarrow> string \<Rightarrow> string option) \<Rightarrow> string \<Rightarrow> string option \<Rightarrow> account \<Rightarrow> db
     \<Rightarrow> response \<times> db" where
  "upgradeSubscription orders randomString paymentMethod account s =
     (let proMonthlyPrice = 999;
          receipt = ''upgrade_'' @ acc_slug account @ ''_'' @ randomString
      in case createOrder orders proMonthlyPrice ''INR'' receipt of
           Inl err \<Rightarrow> (sendError 500 ''Failed to initiate subscription upgrade'', s)
         | Inr order_id \<Rightarrow>
             (let payment = \<lparr>pay_id = new_ObjectId (map pay_id (db_payments s)),
                              pay_account = acc_id account, pay_subscription = None,
                              pay_razorpayPaymentId = None, pay_razorpayOrderId = Some order_id,
                              pay_amount = proMonthlyPrice, pay_currency = ''INR'',
                              pay_status = PENDING,
                              pay_method = Some (case paymentMethod of None \<Rightarrow> ''razorpay'' | Some m \<Rightarrow> m),
                              pay_errorCode = None, pay_errorDescription = None\<rparr>
              in (sendResponse 200 ''Payment order created successfully''
                    (OrderData order_id proMonthlyPrice (pay_id payment)),
                  s\<lparr>db_payments := db_payments s @ [payment]\<rparr>)))"

section \<open>Activation of users\<close>

text \<open>
  From one store to the next, every user of the first is still stored under its id with
  the same \<open>isActive\<close> flag.
\<close>

definition activation_kept :: "db \<Rightarrow> db \<Rightarrow> bool" where
  "activation_kept s s' =
     (\<forall>u \<in> set (db_users s).
        map_option usr_isActive (findById usr_id (usr_id u) (db_users s')) = Some (usr_isActive u))"

section \<open>Example data\<close>

text \<open>Concrete documents and environments at which the theorems are instantiated.\<close>

definition ex_account :: account where
  "ex_account = \<lparr>acc_id = 1, acc_slug = ''acme'', acc_plan = FREE, acc_limit = 3,
     acc_noteCount = 3, acc_currentSubscription = None, acc_isActive = True,
     acc_isDeleted = False\<rparr>"

definition ex_payment :: payment where
  "ex_payment = \<lparr>pay_id = 7, pay_account = 1, pay_subscription = None,
     pay_razorpayPaymentId = None, pay_razorpayOrderId = Some ''order_1'', pay_amount = 999,
     pay_currency = ''INR'', pay_status = PENDING, pay_method = Some ''razorpay'',
     pay_errorCode = None, pay_errorDescription = None\<rparr>"

definition ex_subscription :: subscription where
  "ex_subscription = \<lparr>sub_id = 4, sub_account = 1, sub_razorpaySubscriptionId = None,
     sub_plan = PRO, sub_status = Active, sub_startDate = 10, sub_endDate = Some 900000,
     sub_cancelledAt = None\<rparr>"

definition ex_db :: db where
  "ex_db = \<lparr>db_accounts = [ex_account], db_roles = [], db_users = [], db_notes = [],
     db_tags = [], db_subscriptions = [ex_subscription], db_payments = [ex_payment]\<rparr>"

definition ex_db_no_subscription :: db where
  "ex_db_no_subscription = ex_db\<lparr>db_subscriptions := []\<rparr>"

text \<open>
  The example account after an upgrade, a store in which a second Payment already carries
  the gateway payment id of the example request, and a store in which the account has two
  active Subscriptions.
\<close>

definition ex_account_pro :: account where
  "ex_account_pro = \<lparr>acc_id = 1, acc_slug = ''acme'', acc_plan = PRO, acc_limit = -1,
     acc_noteCount = 3, acc_currentSubscription = Some 4, acc_isActive = True,
     acc_isDeleted = False\<rparr>"

definition ex_db_pro :: db where
  "ex_db_pro = ex_db\<lparr>db_accounts := [ex_account_pro]\<rparr>"

definition ex_payment_settled :: payment where
  "ex_payment_settled = \<lparr>pay_id = 8, pay_account = 1, pay_subscription = None,
     pay_razorpayPaymentId = Some ''pay_1'', pay_razorpayOrderId = Some ''order_0'',
     pay_amount = 999, pay_currency = ''INR'', pay_status = SUCCESS, pay_method = Some ''card'',
     pay_errorCode = None, pay_errorDescription = None\<rparr>"

definition ex_db_duplicate :: db where
  "ex_db_duplicate = ex_db_no_subscription\<lparr>db_payments := [ex_payment, ex_payment_settled]\<rparr>"

definition ex_subscription_second :: subscription where
  "ex_subscription_second = \<lparr>sub_id = 5, sub_account = 1, sub_razorpaySubscriptionId = None,
     sub_plan = PRO, sub_status = Active, sub_startDate = 20, sub_endDate = Some 900010,
     sub_cancelledAt = None\<rparr>"

definition ex_db_two_active :: db where
  "ex_db_two_active = ex_db\<lparr>db_subscriptions := [ex_subscription, ex_subscription_second]\<rparr>"

text \<open>A stand-in for the keyed digest, and the signature it gives for the example order.\<close>

definition ex_hmac :: "string \<Rightarrow> string \<Rightarrow> string" where
  "ex_hmac secret body = secret @ ''#'' @ body"

definition ex_body :: verify_body where
  "ex_body = \<lparr>razorpay_order_id = Some ''order_1'', razorpay_payment_id = Some ''pay_1'',
     razorpay_signature = Some ''key#order_1|pay_1'', paymentId = Some 7\<rparr>"

definition ex_body_forged :: verify_body where
  "ex_body_forged = ex_body\<lparr>razorpay_signature := Some ''forged''\<rparr>"

definition gateway_up :: "string \<Rightarrow> payment_details option" where
  "gateway_up pid = Some \<lparr>pd_method = Some ''card''\<rparr>"

definition gateway_down :: "string \<Rightarrow> payment_details option" where
  "gateway_down pid = None"

definition ex_clock :: verify_clock where
  "ex_clock = \<lparr>at_cancel = 1000, at_start = 1001, at_end = 1002\<rparr>"

text \<open>A user of the example account, stand-ins for the signing and hashing primitives.\<close>

definition ex_role :: role where
  "ex_role = \<lparr>role_id = 21, role_account = 1, role_roleName = ADMIN\<rparr>"

definition ex_user :: user where
  "ex_user = \<lparr>usr_id = 11, usr_account = 1, usr_email = ''a@x.com'',
     usr_password = ''hash:secret1'', usr_name = ''Ann'', usr_role = 21, usr_isActive = True,
     usr_isDeleted = False, usr_tokensInvalidBefore = 1000, usr_lastLogin = None,
     usr_lastIP = None\<rparr>"

definition ex_db_auth :: db where
  "ex_db_auth = ex_db\<lparr>db_users := [ex_user], db_roles := [ex_role]\<rparr>"

definition ex_ctx :: request_context where
  "ex_ctx = \<lparr>req_user = ex_user, req_user_role = Some ex_role, req_account = ex_account,
     req_tenantFilter = None\<rparr>"

definition ex_sign :: "string \<Rightarrow> jwt_payload \<Rightarrow> string" where
  "ex_sign secret claims = secret"

definition ex_hash :: "string \<Rightarrow> string" where
  "ex_hash pw = ''hash:'' @ pw"

definition ex_compare :: "string \<Rightarrow> string \<Rightarrow> bool" where
  "ex_compare pw h = (h = ex_hash pw)"

definition ex_token :: token where
  "ex_token = generateToken ex_sign ''jwt'' 604800 5000 11 1 ADMIN"

definition ex_headers :: headers where
  "ex_headers = \<lparr>hdr_authorization = Some (Bearer ex_token), cookie_token = None\<rparr>"

definition ex_change_body :: change_password_body where
  "ex_change_body = \<lparr>currentPassword = Some ''secret1'', newPassword = Some ''secret2''\<rparr>"

text \<open>
  What \<open>toLowerCase()\<close> and \<open>trim()\<close> compute on strings of ASCII characters: the letters A to
  Z are lowered, and the six white space characters of ASCII are removed from both ends.
  The strings of the examples are ASCII strings.
\<close>

definition lower_char :: "char \<Rightarrow> char" where
  "lower_char c =
     (case map_of (zip ''ABCDEFGHIJKLMNOPQRSTUVWXYZ'' ''abcdefghijklmnopqrstuvwxyz'') c of
        Some l \<Rightarrow> l
      | None \<Rightarrow> c)"

definition isSpace :: "char \<Rightarrow> bool" where
  "isSpace c = (c \<in> set [CHR '' '', CHR 0x09, CHR 0x0A, CHR 0x0B, CHR 0x0C, CHR 0x0D])"

definition ex_js :: String_prototype where
  "ex_js = \<lparr>toLowerCase = map lower_char,
            trim = (\<lambda>str. rev (dropWhile isSpace (rev (dropWhile isSpace str))))\<rparr>"

text \<open>Two tenants with their users and notes, and the headers of three signed-in users.\<close>

definition ex_acc_a :: account where
  "ex_acc_a = \<lparr>acc_id = 1, acc_slug = ''acme'', acc_plan = FREE, acc_limit = 3,
     acc_noteCount = 1, acc_currentSubscription = None, acc_isActive = True,
     acc_isDeleted = False\<rparr>"

definition ex_acc_b :: account where
  "ex_acc_b = \<lparr>acc_id = 2, acc_slug = ''bolt'', acc_plan = FREE, acc_limit = 3,
     acc_noteCount = 1, acc_currentSubscription = None, acc_isActive = True,
     acc_isDeleted = False\<rparr>"

definition ex_member :: user where
  "ex_member = \<lparr>usr_id = 12, usr_account = 1, usr_email = ''m@x.com'',
     usr_password = ''hash:secret3'', usr_name = ''Max'', usr_role = 22, usr_isActive = True,
     usr_isDeleted = False, usr_tokensInvalidBefore = 1000, usr_lastLogin = None,
     usr_lastIP = None\<rparr>"

definition ex_user_b :: user where
  "ex_user_b = \<lparr>usr_id = 13, usr_account = 2, usr_email = ''b@y.com'',
     usr_password = ''hash:secret4'', usr_name = ''Bea'', usr_role = 23, usr_isActive = True,
     usr_isDeleted = False, usr_tokensInvalidBefore = 1000, usr_lastLogin = None,
     usr_lastIP = None\<rparr>"

definition ex_note :: "ObjectId \<Rightarrow> ObjectId \<Rightarrow> ObjectId \<Rightarrow> string \<Rightarrow> note_doc" where
  "ex_note i a u title = \<lparr>note_id = i, note_account = a, note_user = u, note_title = title,
     note_description = [], note_tags = [], note_isDeleted = False, note_createdAt = 2000\<rparr>"

definition ex_store :: db where
  "ex_store = \<lparr>db_accounts = [ex_acc_a, ex_acc_b],
     db_roles = [ex_role, \<lparr>role_id = 22, role_account = 1, role_roleName = MEMBER\<rparr>,
                 \<lparr>role_id = 23, role_account = 2, role_roleName = ADMIN\<rparr>],
     db_users = [ex_user, ex_member, ex_user_b],
     db_notes = [ex_note 31 1 11 ''alpha'', ex_note 32 1 12 ''beta'', ex_note 33 2 13 ''gamma''],
     db_tags = [], db_subscriptions = [], db_payments = []\<rparr>"

definition ex_member_headers :: headers where
  "ex_member_headers =
     \<lparr>hdr_authorization = Some (Bearer (generateToken ex_sign ''jwt'' 604800 5000 12 1 MEMBER)),
      cookie_token = None\<rparr>"

definition ex_text_match :: "string \<Rightarrow> note_doc \<Rightarrow> bool" where
  "ex_text_match search n = (search = note_title n)"

definition ex_text_score :: "string \<Rightarrow> note_doc \<Rightarrow> int" where
  "ex_text_score search n = 1"

definition ex_create_body :: create_note_body where
  "ex_create_body = \<lparr>cn_title = Some ''Plan'', cn_description = None,
     cn_tags = [JString ''Work'', JString '' work '', JString ''WORK'']\<rparr>"

definition ex_update_body :: update_note_body where
  "ex_update_body = \<lparr>un_title = Some ''mine now'', un_description = None, un_tags = None\<rparr>"

definition ex_member_ctx :: request_context where
  "ex_member_ctx = \<lparr>req_user = ex_member,
     req_user_role = Some \<lparr>role_id = 22, role_account = 1, role_roleName = MEMBER\<rparr>,
     req_account = ex_acc_a, req_tenantFilter = None\<rparr>"

definition ex_list_query :: list_query where
  "ex_list_query = \<lparr>q_page = 1, q_limit = 10, q_search = None, q_tags = None\<rparr>"

text \<open>
  The environment of the auth routes, an invitation sent by the admin of the first tenant,
  and two logins: one with the credentials the invitation returns, one of the admin.
\<close>

definition ex_env :: environment where
  "ex_env = \<lparr>env_sign = ex_sign, env_secret = ''jwt'', env_expiresIn = 604800,
     env_hashPassword = ex_hash, env_comparePassword = ex_compare, env_slugify = (\<lambda>name. name),
     env_randomString = ''Zk3Qp8Lm2Xy7'', env_ip = Some ''10.0.0.1''\<rparr>"

definition ex_invite_body :: invite_body where
  "ex_invite_body = \<lparr>iv_email = Some ''New@x.com'', iv_name = Some ''Nia'', iv_role = None\<rparr>"

definition ex_invited_login :: login_body where
  "ex_invited_login = \<lparr>lg_email = Some ''new@x.com'', lg_password = Some ''Zk3Qp8Lm2Xy7''\<rparr>"

definition ex_admin_login :: login_body where
  "ex_admin_login = \<lparr>lg_email = Some ''a@x.com'', lg_password = Some ''secret1''\<rparr>"

text \<open>
  A store in which the user of the second tenant has the password that the invitation
  will draw, an invitation of that user's email into the first tenant, and the login with
  the credentials this invitation returns.
\<close>

definition ex_store_shared :: db where
  "ex_store_shared =
     ex_store\<lparr>db_users := [ex_user, ex_member, ex_user_b\<lparr>usr_password := ex_hash ''Zk3Qp8Lm2Xy7''\<rparr>]\<rparr>"

definition ex_invite_shared :: invite_body where
  "ex_invite_shared = \<lparr>iv_email = Some ''b@y.com'', iv_name = Some ''Bea'', iv_role = None\<rparr>"

definition ex_shared_login :: login_body where
  "ex_shared_login = \<lparr>lg_email = Some ''b@y.com'', lg_password = Some ''Zk3Qp8Lm2Xy7''\<rparr>"

text \<open>The request context of the admin's invitation, and the stores after the two invitations.\<close>

definition ex_admin_ctx :: request_context where
  "ex_admin_ctx = \<lparr>req_user = ex_user, req_user_role = Some ex_role, req_account = ex_acc_a,
     req_tenantFilter = Some \<lparr>tf_account = Some 1, tf_user = None\<rparr>\<rparr>"

definition ex_after_invite :: db where
  "ex_after_invite =
     snd (inviteUser ex_js ex_hash ''Zk3Qp8Lm2Xy7'' 6000 ex_invite_body ex_admin_ctx ex_store)"

definition ex_after_invite_shared :: db where
  "ex_after_invite_shared =
     snd (the (auth_router ex_js ex_env 6000 ex_headers (POST_invite ex_invite_shared) ex_store_shared))"

section \<open>Facts about the store\<close>

lemma foldr_max_ge: "x \<in> set ids \<Longrightarrow> x \<le> foldr max ids (0::nat)"
  by (induction ids) auto

lemma new_ObjectId_fresh: "new_ObjectId ids \<notin> set ids"
  using foldr_max_ge [of "new_ObjectId ids" ids] by (auto simp: new_ObjectId_def)

lemma map_id_save: "id_of doc = i \<Longrightarrow> map id_of (save id_of doc docs) = map id_of docs"
  by (induction docs) (auto simp: save_def)

lemma save_save: "id_of b = id_of a \<Longrightarrow> save id_of b (save id_of a xs) = save id_of b xs"
  by (induction xs) (auto simp: save_def)

lemma find_SomeD: "find P xs = Some x \<Longrightarrow> x \<in> set xs \<and> P x"
  by (induction xs) (auto split: if_splits)

lemma find_None_filter: "find P xs = None \<Longrightarrow> filter P xs = []"
  by (induction xs) (auto split: if_splits)

lemma findById_mem: "x \<in> set xs \<Longrightarrow> \<exists>y. findById id_of (id_of x) xs = Some y"
  by (induction xs) (auto simp: findById_def)

lemma findById_append:
  "findById id_of i xs = Some y \<Longrightarrow> findById id_of i (xs @ ys) = Some y"
  by (induction xs) (auto simp: findById_def split: if_splits)

lemma findById_save_same:
  "findById id_of (id_of doc) docs = Some doc0 \<Longrightarrow>
   findById id_of (id_of doc) (save id_of doc docs) = Some doc"
  by (induction docs) (auto simp: save_def findById_def split: if_splits)

lemma findById_save_other:
  "i \<noteq> id_of doc \<Longrightarrow> findById id_of i (save id_of doc docs) = findById id_of i docs"
  by (induction docs) (auto simp: save_def findById_def)

lemma filter_le1_find:
  "length (filter P xs) \<le> 1 \<Longrightarrow> find P xs = Some x \<Longrightarrow> filter P xs = [x]"
  by (induction xs) (auto split: if_splits simp: filter_empty_conv dest: find_SomeD)

lemma filter_save_none:
  assumes "filter P xs = [x]" "id_of doc = id_of x" "\<not> P doc"
  shows "filter P (save id_of doc xs) = []"
proof -
  have "set (filter P xs) = {x}" using assms(1) by simp
  then have "\<forall>y \<in> set xs. P y \<longrightarrow> y = x" by auto
  then show ?thesis using assms(2,3)
    by (auto simp: save_def filter_empty_conv)
qed

lemma length_filter_save_le:
  "\<not> P doc \<Longrightarrow> length (filter P (save id_of doc xs)) \<le> length (filter P xs)"
  by (induction xs) (auto simp: save_def)

lemma set_save_same: "u \<in> set (save id_of d xs) \<Longrightarrow> id_of u = id_of d \<Longrightarrow> u = d"
  by (auto simp: save_def split: if_splits)

lemma findById_save_watermark:
  assumes "findById id_of (id_of d) (save id_of d xs) = Some u"
  shows "u = d"
  using find_SomeD [OF assms [unfolded findById_def]] set_save_same [of u id_of d xs] by blast

lemma findById_SomeD: "findById id_of i xs = Some x \<Longrightarrow> x \<in> set xs \<and> id_of x = i"
  unfolding findById_def by (rule find_SomeD)

lemma filter_save_outside:
  "(\<And>d. P d \<Longrightarrow> id_of d \<noteq> id_of doc) \<Longrightarrow> filter P (save id_of doc xs) = filter P xs"
  by (induction xs) (auto simp: save_def)

lemma filter_save_distinct:
  "distinct (map id_of xs) \<Longrightarrow> n \<in> set xs \<Longrightarrow> id_of n' = id_of n \<Longrightarrow> \<not> P n \<Longrightarrow> \<not> P n'
   \<Longrightarrow> filter P (save id_of n' xs) = filter P xs"
proof (induction xs)
  case Nil
  then show ?case by simp
next
  case (Cons x xs)
  show ?case
  proof (cases "x = n")
    case True
    have "\<And>d. d \<in> set xs \<Longrightarrow> id_of d \<noteq> id_of n'"
      using Cons.prems(1,3) True by (auto simp: image_iff)
    then have "save id_of n' xs = xs"
      by (simp add: save_def map_idI)
    then show ?thesis using True Cons.prems(3,4,5) by (simp add: save_def)
  next
    case False
    then have "n \<in> set xs" using Cons.prems(2) by simp
    moreover have "id_of x \<noteq> id_of n'"
      using Cons.prems(1,3) \<open>n \<in> set xs\<close> by auto
    ultimately show ?thesis using Cons by (simp add: save_def)
  qed
qed

lemma set_save_subset: "set (save id_of doc xs) \<subseteq> insert doc (set xs)"
  by (auto simp: save_def)

lemma find_append_Some: "find P xs = Some x \<Longrightarrow> find P (xs @ ys) = Some x"
  by (induction xs) (auto split: if_splits)

lemma find_append_None: "find P xs = None \<Longrightarrow> find P (xs @ ys) = find P ys"
  by (induction xs) (auto split: if_splits)

lemma distinct_key_filter_le1:
  "distinct (map f xs) \<Longrightarrow> length (filter (\<lambda>x. f x = k) xs) \<le> 1"
  by (induction xs) (auto simp: filter_empty_conv image_iff)

section \<open>Cancelling the active subscription\<close>

lemma cancel_existing_active:
  assumes "length (filter (active_for aid) (db_subscriptions s)) \<le> 1"
  shows "filter (active_for aid) (db_subscriptions (cancel_existing s aid now)) = []"
proof (cases "find_active_subscription s aid")
  case None
  then show ?thesis
    by (simp add: cancel_existing_def find_active_subscription_def find_None_filter)
next
  case (Some e)
  then have f: "find (active_for aid) (db_subscriptions s) = Some e"
    by (simp add: find_active_subscription_def)
  have "filter (active_for aid) (db_subscriptions s) = [e]"
    using filter_le1_find [OF assms f] .
  then have "filter (active_for aid)
      (save sub_id (e\<lparr>sub_status := Cancelled, sub_cancelledAt := Some now\<rparr>) (db_subscriptions s)) = []"
    by (rule filter_save_none) (simp_all add: active_for_def)
  then show ?thesis using Some by (simp add: cancel_existing_def)
qed

lemma cancel_existing_ids:
  "map sub_id (db_subscriptions (cancel_existing s aid now)) = map sub_id (db_subscriptions s)"
  by (simp add: cancel_existing_def map_id_save split: option.splits)

lemma cancel_existing_other:
  "db_payments (cancel_existing s aid now) = db_payments s"
  "db_accounts (cancel_existing s aid now) = db_accounts s"
  by (simp_all add: cancel_existing_def split: option.splits)

lemma cancel_existing_cancels:
  assumes "length (filter (active_for aid) (db_subscriptions s)) \<le> 1"
    and "x \<in> set (db_subscriptions s)" and "active_for aid x"
  shows "\<exists>y. findById sub_id (sub_id x) (db_subscriptions (cancel_existing s aid now)) = Some y
       \<and> sub_status y = Cancelled \<and> sub_cancelledAt y = Some now"
proof -
  have m: "x \<in> set (filter (active_for aid) (db_subscriptions s))" using assms(2,3) by simp
  obtain e where e: "find (active_for aid) (db_subscriptions s) = Some e"
    using find_None_filter [of "active_for aid" "db_subscriptions s"] m
    by (cases "find (active_for aid) (db_subscriptions s)") auto
  have "filter (active_for aid) (db_subscriptions s) = [e]"
    using filter_le1_find [OF assms(1) e] .
  with m have xe: "x = e" by simp
  obtain y0 where "findById sub_id (sub_id e) (db_subscriptions s) = Some y0"
    using findById_mem [OF assms(2), of sub_id] xe by auto
  then have "findById sub_id (sub_id (e\<lparr>sub_status := Cancelled, sub_cancelledAt := Some now\<rparr>))
      (db_subscriptions s) = Some y0" by simp
  from findById_save_same [OF this] show ?thesis
    using e xe by (simp add: cancel_existing_def find_active_subscription_def)
qed

lemma cancelSubscription_none:
  "find_active_subscription s (acc_id account) = None \<Longrightarrow>
   cancelSubscription now account s = (sendError 404 ''No active subscription found'', s)"
  by (simp add: cancelSubscription_def)

lemma cancelSubscription_some:
  assumes f: "find_active_subscription s (acc_id account) = Some sub"
    and a: "findById acc_id (acc_id account) (db_accounts s) = Some account"
  shows "\<exists>r s'. cancelSubscription now account s = (r, s') \<and> status r = 200
     \<and> map_option (\<lambda>x. (sub_status x, sub_cancelledAt x))
          (findById sub_id (sub_id sub) (db_subscriptions s')) = Some (Cancelled, Some now)
     \<and> map_option (\<lambda>x. (acc_plan x, acc_limit x, acc_currentSubscription x))
          (findById acc_id (acc_id account) (db_accounts s')) = Some (FREE, 3, None)"
proof -
  let ?sub1 = "sub\<lparr>sub_status := Cancelled, sub_cancelledAt := Some now\<rparr>"
  let ?acc1 = "account\<lparr>acc_plan := FREE, acc_limit := 3, acc_currentSubscription := None\<rparr>"
  have "sub \<in> set (db_subscriptions s)"
    using f by (auto simp: find_active_subscription_def dest: find_SomeD)
  then obtain y where "findById sub_id (sub_id ?sub1) (db_subscriptions s) = Some y"
    using findById_mem [of sub "db_subscriptions s" sub_id] by auto
  then have s1: "findById sub_id (sub_id sub) (save sub_id ?sub1 (db_subscriptions s)) = Some ?sub1"
    using findById_save_same [of sub_id ?sub1 "db_subscriptions s" y] by simp
  have "findById acc_id (acc_id ?acc1) (db_accounts s) = Some account" using a by simp
  then have a1: "findById acc_id (acc_id account) (save acc_id ?acc1 (db_accounts s)) = Some ?acc1"
    using findById_save_same [of acc_id ?acc1 "db_accounts s" account] by simp
  show ?thesis
    using f s1 a1 by (simp add: cancelSubscription_def sendResponse_def Let_def)
qed

text \<open>
  Claim C7. When the account has an active Subscription, \<open>cancelSubscription\<close> answers 200,
  the stored Subscription is \<open>cancelled\<close> with \<open>cancelledAt\<close> the time of the call, and the
  stored Account has plan \<open>free\<close>, limit 3 and no current subscription, whatever the
  Subscription's \<open>endDate\<close> is. When the account has no active Subscription the handler
  answers 404 and the store is unchanged. \<open>req.account\<close> is the stored account document.
\<close>

theorem cancelSubscription_downgrades_immediately:
  "(find_active_subscription s (acc_id account) = None \<longrightarrow>
      cancelSubscription now account s = (sendError 404 ''No active subscription found'', s))
   \<and> (\<forall>sub. find_active_subscription s (acc_id account) = Some sub
          \<and> findById acc_id (acc_id account) (db_accounts s) = Some account \<longrightarrow>
        (\<exists>r s'. cancelSubscription now account s = (r, s') \<and> status r = 200
          \<and> map_option (\<lambda>x. (sub_status x, sub_cancelledAt x))
               (findById sub_id (sub_id sub) (db_subscriptions s')) = Some (Cancelled, Some now)
          \<and> map_option (\<lambda>x. (acc_plan x, acc_limit x, acc_currentSubscription x))
               (findById acc_id (acc_id account) (db_accounts s')) = Some (FREE, 3, None)))"
  using cancelSubscription_none cancelSubscription_some by blast

theorem cancelSubscription_downgrades_immediately_witness:
  "find_active_subscription ex_db_pro (acc_id ex_account_pro) = Some ex_subscription
   \<and> findById acc_id (acc_id ex_account_pro) (db_accounts ex_db_pro) = Some ex_account_pro
   \<and> (acc_plan ex_account_pro, acc_limit ex_account_pro, acc_currentSubscription ex_account_pro)
        = (PRO, -1, Some 4)
   \<and> (sub_status ex_subscription, sub_cancelledAt ex_subscription, sub_endDate ex_subscription)
        = (Active, None, Some 900000)
   \<and> status (fst (cancelSubscription 5000 ex_account_pro ex_db_pro)) = 200
   \<and> map_option (\<lambda>x. (sub_status x, sub_cancelledAt x))
        (findById sub_id 4 (db_subscriptions (snd (cancelSubscription 5000 ex_account_pro ex_db_pro))))
        = Some (Cancelled, Some 5000)
   \<and> map_option (\<lambda>x. (acc_plan x, acc_limit x, acc_currentSubscription x))
        (findById acc_id 1 (db_accounts (snd (cancelSubscription 5000 ex_account_pro ex_db_pro))))
        = Some (FREE, 3, None)
   \<and> find_active_subscription (ex_db_pro\<lparr>db_subscriptions := []\<rparr>) (acc_id ex_account_pro) = None
   \<and> cancelSubscription 5000 ex_account_pro (ex_db_pro\<lparr>db_subscriptions := []\<rparr>)
        = (sendError 404 ''No active subscription found'', ex_db_pro\<lparr>db_subscriptions := []\<rparr>)"
proof -
  have f: "find_active_subscription ex_db_pro (acc_id ex_account_pro) = Some ex_subscription"
    by (simp add: find_active_subscription_def ex_db_pro_def ex_db_def ex_account_pro_def
        ex_subscription_def active_for_def)
  have a: "findById acc_id (acc_id ex_account_pro) (db_accounts ex_db_pro) = Some ex_account_pro"
    by (simp add: findById_def ex_db_pro_def)
  have n: "find_active_subscription (ex_db_pro\<lparr>db_subscriptions := []\<rparr>) (acc_id ex_account_pro) = None"
    by (simp add: find_active_subscription_def)
  have i: "sub_id ex_subscription = 4" "acc_id ex_account_pro = 1"
      "(acc_plan ex_account_pro, acc_limit ex_account_pro, acc_currentSubscription ex_account_pro)
        = (PRO, -1, Some 4)"
      "(sub_status ex_subscription, sub_cancelledAt ex_subscription, sub_endDate ex_subscription)
        = (Active, None, Some 900000)"
    by (simp_all add: ex_subscription_def ex_account_pro_def)
  show ?thesis
    using cancelSubscription_downgrades_immediately [of ex_db_pro ex_account_pro 5000] f a i
      cancelSubscription_downgrades_immediately
        [of "ex_db_pro\<lparr>db_subscriptions := []\<rparr>" ex_account_pro 5000] n
    by auto
qed

section \<open>Payment verification\<close>

lemma verify_forged:
  assumes b: "truthy (razorpay_order_id body)" "truthy (razorpay_payment_id body)"
      "truthy (razorpay_signature body)" "paymentId body = Some pid"
    and f: "find_pending_payment s pid (acc_id account) (the (razorpay_order_id body)) = Some p"
    and sg: "the (razorpay_signature body) \<noteq>
         hmac secret (the (razorpay_order_id body) @ ''|'' @ the (razorpay_payment_id body))"
  shows "verifyPaymentAndUpgrade hmac secret fetch clock body account s =
      (sendError 400 ''Payment verification failed'',
       s\<lparr>db_payments := save pay_id
           (p\<lparr>pay_status := FAILED, pay_errorDescription := Some ''Invalid payment signature''\<rparr>)
           (db_payments s)\<rparr>)"
  using b f sg
  by (auto simp: verifyPaymentAndUpgrade_def verifyPaymentSignature_def Let_def)

text \<open>
  Claim C2. The request carries its four fields, the lookup finds the pending Payment of
  the account, and the supplied signature differs from the HMAC of \<open>orderId|paymentId\<close>
  under the shared secret. Then the handler answers 400 "Payment verification failed",
  the stored Payment is \<open>failed\<close> with the error description "Invalid payment signature",
  and the accounts and subscriptions collections are unchanged: plan, limit, noteCount
  and currentSubscription stay as they were and no Subscription is created or cancelled.
\<close>

theorem forged_signature_fails_payment:
  assumes b: "truthy (razorpay_order_id body)" "truthy (razorpay_payment_id body)"
      "truthy (razorpay_signature body)" "paymentId body = Some pid"
    and f: "find_pending_payment s pid (acc_id account) (the (razorpay_order_id body)) = Some p"
    and sg: "the (razorpay_signature body) \<noteq>
         hmac secret (the (razorpay_order_id body) @ ''|'' @ the (razorpay_payment_id body))"
  shows "\<exists>r s'. verifyPaymentAndUpgrade hmac secret fetch clock body account s = (r, s')
      \<and> r = sendError 400 ''Payment verification failed''
      \<and> map_option (\<lambda>x. (pay_status x, pay_errorDescription x))
           (findById pay_id pid (db_payments s')) = Some (FAILED, Some ''Invalid payment signature'')
      \<and> db_accounts s' = db_accounts s
      \<and> db_subscriptions s' = db_subscriptions s"
proof -
  let ?p1 = "p\<lparr>pay_status := FAILED, pay_errorDescription := Some ''Invalid payment signature''\<rparr>"
  have pm: "p \<in> set (db_payments s)" and pid: "pay_id p = pid"
    using f by (auto simp: find_pending_payment_def dest: find_SomeD)
  obtain y where "findById pay_id (pay_id ?p1) (db_payments s) = Some y"
    using findById_mem [OF pm, of pay_id] by auto
  then have "findById pay_id pid (save pay_id ?p1 (db_payments s)) = Some ?p1"
    using findById_save_same [of pay_id ?p1 "db_payments s" y] pid by simp
  then show ?thesis
    using verify_forged [where hmac=hmac and secret=secret, OF assms] by simp
qed

lemma ex_body_truthy:
  "truthy (razorpay_order_id ex_body)" "truthy (razorpay_payment_id ex_body)"
  "truthy (razorpay_signature ex_body)" "paymentId ex_body = Some 7"
  "truthy (razorpay_order_id ex_body_forged)" "truthy (razorpay_payment_id ex_body_forged)"
  "truthy (razorpay_signature ex_body_forged)" "paymentId ex_body_forged = Some 7"
  by (simp_all add: ex_body_def ex_body_forged_def truthy_def)

lemma ex_find_pending:
  "find_pending_payment ex_db 7 (acc_id ex_account) (the (razorpay_order_id ex_body)) = Some ex_payment"
  "find_pending_payment ex_db 7 (acc_id ex_account) (the (razorpay_order_id ex_body_forged)) = Some ex_payment"
  by (simp_all add: find_pending_payment_def ex_db_def ex_account_def ex_payment_def ex_body_def
      ex_body_forged_def)

theorem forged_signature_fails_payment_witness:
  "find_pending_payment ex_db 7 (acc_id ex_account) ''order_1'' = Some ex_payment
   \<and> \<not> verifyPaymentSignature ex_hmac ''key'' ''order_1'' ''pay_1'' ''forged''
   \<and> fst (verifyPaymentAndUpgrade ex_hmac ''key'' gateway_up ex_clock ex_body_forged ex_account ex_db)
       = sendError 400 ''Payment verification failed''
   \<and> map_option (\<lambda>x. (pay_status x, pay_errorDescription x))
        (findById pay_id 7 (db_payments
           (snd (verifyPaymentAndUpgrade ex_hmac ''key'' gateway_up ex_clock ex_body_forged ex_account ex_db))))
       = Some (FAILED, Some ''Invalid payment signature'')
   \<and> db_accounts (snd (verifyPaymentAndUpgrade ex_hmac ''key'' gateway_up ex_clock ex_body_forged ex_account ex_db))
       = [ex_account]"
proof -
  have sg: "the (razorpay_signature ex_body_forged) \<noteq>
      ex_hmac ''key'' (the (razorpay_order_id ex_body_forged) @ ''|'' @ the (razorpay_payment_id ex_body_forged))"
    by (simp add: ex_body_forged_def ex_body_def ex_hmac_def)
  have v: "\<not> verifyPaymentSignature ex_hmac ''key'' ''order_1'' ''pay_1'' ''forged''"
    by (simp add: verifyPaymentSignature_def ex_hmac_def)
  have o: "the (razorpay_order_id ex_body_forged) = ''order_1''"
    by (simp add: ex_body_forged_def ex_body_def)
  have d: "db_accounts ex_db = [ex_account]" by (simp add: ex_db_def)
  show ?thesis
    using forged_signature_fails_payment [where hmac=ex_hmac and secret="''key''"
        and fetch=gateway_up and clock=ex_clock,
        OF ex_body_truthy(5-8) ex_find_pending(2) sg] v o d ex_find_pending(2)
    by auto
qed

lemma verify_success_eq:
  assumes b: "truthy (razorpay_order_id body)" "truthy (razorpay_payment_id body)"
      "truthy (razorpay_signature body)" "paymentId body = Some pid"
    and f: "find_pending_payment s pid (acc_id account) (the (razorpay_order_id body)) = Some p"
    and sg: "the (razorpay_signature body) =
         hmac secret (the (razorpay_order_id body) @ ''|'' @ the (razorpay_payment_id body))"
    and gw: "fetch (the (razorpay_payment_id body)) = Some pd"
    and uq: "\<not> razorpayPaymentId_taken s pid (the (razorpay_payment_id body))"
  shows "verifyPaymentAndUpgrade hmac secret fetch clock body account s =
     (let payment1 = p\<lparr>pay_razorpayPaymentId := Some (the (razorpay_payment_id body)),
              pay_status := SUCCESS, pay_method := pd_method pd\<rparr>;
          s1 = s\<lparr>db_payments := save pay_id payment1 (db_payments s)\<rparr>;
          s2 = cancel_existing s1 (acc_id account) (at_cancel clock);
          subscription = new_pro_subscription s2 (acc_id account) clock;
          payment2 = payment1\<lparr>pay_subscription := Some (sub_id subscription)\<rparr>;
          account2 = account\<lparr>acc_plan := PRO, acc_limit := -1,
              acc_currentSubscription := Some (sub_id subscription)\<rparr>
      in (sendResponse 200 ''Subscription upgraded successfully''
            (UpgradeData account2 subscription payment2),
          s2\<lparr>db_subscriptions := db_subscriptions s2 @ [subscription],
             db_payments := save pay_id payment2 (db_payments s2),
             db_accounts := save acc_id account2
                (save acc_id (account\<lparr>acc_plan := PRO, acc_limit := -1\<rparr>) (db_accounts s2))\<rparr>))"
proof -
  have "pay_id p = pid"
    using f by (auto simp: find_pending_payment_def dest: find_SomeD)
  then show ?thesis
    using b f sg gw uq
    by (auto simp: verifyPaymentAndUpgrade_def verifyPaymentSignature_def getPaymentDetails_def
        upgradeToPro_def Let_def)
qed

lemma verify_refused:
  assumes b: "truthy (razorpay_order_id body)" "truthy (razorpay_payment_id body)"
      "truthy (razorpay_signature body)" "paymentId body = Some pid"
    and f: "find_pending_payment s pid (acc_id account) (the (razorpay_order_id body)) = Some p"
    and sg: "the (razorpay_signature body) =
         hmac secret (the (razorpay_order_id body) @ ''|'' @ the (razorpay_payment_id body))"
    and no: "fetch (the (razorpay_payment_id body)) = None
         \<or> razorpayPaymentId_taken s pid (the (razorpay_payment_id body))"
  shows "verifyPaymentAndUpgrade hmac secret fetch clock body account s =
     (sendError 500 ''Failed to verify payment and upgrade subscription'', s)"
proof -
  have "pay_id p = pid"
    using f by (auto simp: find_pending_payment_def dest: find_SomeD)
  then show ?thesis
    using b f sg no
    by (auto simp: verifyPaymentAndUpgrade_def verifyPaymentSignature_def getPaymentDetails_def
        Let_def split: option.splits)
qed

lemma verify_success_post:
  assumes b: "truthy (razorpay_order_id body)" "truthy (razorpay_payment_id body)"
      "truthy (razorpay_signature body)" "paymentId body = Some pid"
    and f: "find_pending_payment s pid (acc_id account) (the (razorpay_order_id body)) = Some p"
    and sg: "the (razorpay_signature body) =
         hmac secret (the (razorpay_order_id body) @ ''|'' @ the (razorpay_payment_id body))"
    and gw: "fetch (the (razorpay_payment_id body)) = Some pd"
    and uq: "\<not> razorpayPaymentId_taken s pid (the (razorpay_payment_id body))"
    and one: "length (filter (active_for (acc_id account)) (db_subscriptions s)) \<le> 1"
    and acc: "findById acc_id (acc_id account) (db_accounts s) = Some account"
  shows "\<exists>r s' new. verifyPaymentAndUpgrade hmac secret fetch clock body account s = (r, s')
      \<and> status r = 200
      \<and> map_option (\<lambda>x. (pay_status x, pay_subscription x))
           (findById pay_id pid (db_payments s')) = Some (SUCCESS, Some (sub_id new))
      \<and> (\<forall>x \<in> set (db_subscriptions s). active_for (acc_id account) x \<longrightarrow>
            map_option (\<lambda>y. (sub_status y, sub_cancelledAt y))
              (findById sub_id (sub_id x) (db_subscriptions s')) = Some (Cancelled, Some (at_cancel clock)))
      \<and> filter (active_for (acc_id account)) (db_subscriptions s') = [new]
      \<and> sub_id new \<notin> set (map sub_id (db_subscriptions s))
      \<and> sub_plan new = PRO \<and> sub_startDate new = at_start clock
      \<and> sub_endDate new = Some (at_end clock + 365 * 24 * 60 * 60 * 1000)
      \<and> map_option (\<lambda>x. (acc_plan x, acc_limit x, acc_currentSubscription x))
           (findById acc_id (acc_id account) (db_accounts s')) = Some (PRO, -1, Some (sub_id new))"
proof -
  define aid where "aid = acc_id account"
  define payment1 where "payment1 = p\<lparr>pay_razorpayPaymentId := Some (the (razorpay_payment_id body)),
              pay_status := SUCCESS, pay_method := pd_method pd\<rparr>"
  define s1 where "s1 = s\<lparr>db_payments := save pay_id payment1 (db_payments s)\<rparr>"
  define s2 where "s2 = cancel_existing s1 aid (at_cancel clock)"
  define new where "new = new_pro_subscription s2 aid clock"
  define payment2 where "payment2 = payment1\<lparr>pay_subscription := Some (sub_id new)\<rparr>"
  define account2 where "account2 = account\<lparr>acc_plan := PRO, acc_limit := -1,
              acc_currentSubscription := Some (sub_id new)\<rparr>"
  define s' where "s' = s2\<lparr>db_subscriptions := db_subscriptions s2 @ [new],
             db_payments := save pay_id payment2 (db_payments s2),
             db_accounts := save acc_id account2
                (save acc_id (account\<lparr>acc_plan := PRO, acc_limit := -1\<rparr>) (db_accounts s2))\<rparr>"
  have eq: "verifyPaymentAndUpgrade hmac secret fetch clock body account s =
      (sendResponse 200 ''Subscription upgraded successfully'' (UpgradeData account2 new payment2), s')"
    using verify_success_eq [where hmac=hmac and secret=secret and fetch=fetch and body=body and clock=clock, OF b f sg gw uq]
    by (simp add: Let_def s'_def account2_def payment2_def new_def s2_def s1_def payment1_def aid_def)
  have subs1: "db_subscriptions s1 = db_subscriptions s" and accs1: "db_accounts s1 = db_accounts s"
    by (simp_all add: s1_def)
  have pm: "p \<in> set (db_payments s)" and pid: "pay_id p = pid"
    using f by (auto simp: find_pending_payment_def dest: find_SomeD)
  \<comment> \<open>payment\<close>
  have pays2: "db_payments s2 = save pay_id payment1 (db_payments s)"
    by (simp add: s2_def cancel_existing_other s1_def)
  have "save pay_id payment2 (db_payments s2) = save pay_id payment2 (db_payments s)"
    unfolding pays2 by (rule save_save) (simp add: payment2_def)
  moreover obtain y where "findById pay_id (pay_id payment2) (db_payments s) = Some y"
    using findById_mem [OF pm, of pay_id] by (auto simp: payment2_def payment1_def)
  ultimately have c_pay: "findById pay_id pid (db_payments s') = Some payment2"
    using findById_save_same [of pay_id payment2 "db_payments s" y] pid
    by (simp add: s'_def payment2_def payment1_def)
  \<comment> \<open>subscriptions\<close>
  have one1: "length (filter (active_for aid) (db_subscriptions s1)) \<le> 1"
    using one by (simp add: subs1 aid_def)
  have ids2: "map sub_id (db_subscriptions s2) = map sub_id (db_subscriptions s)"
    by (simp add: s2_def cancel_existing_ids subs1)
  have new_id: "sub_id new = new_ObjectId (map sub_id (db_subscriptions s))"
    by (simp add: new_def new_pro_subscription_def ids2)
  have fresh: "sub_id new \<notin> set (map sub_id (db_subscriptions s))"
    unfolding new_id by (rule new_ObjectId_fresh)
  have act_new: "active_for aid new"
    by (simp add: new_def new_pro_subscription_def active_for_def)
  have c_one: "filter (active_for aid) (db_subscriptions s') = [new]"
    using cancel_existing_active [OF one1, of "at_cancel clock"] act_new
    by (simp add: s'_def s2_def)
  have c_old: "\<forall>x \<in> set (db_subscriptions s). active_for aid x \<longrightarrow>
      map_option (\<lambda>y. (sub_status y, sub_cancelledAt y))
        (findById sub_id (sub_id x) (db_subscriptions s')) = Some (Cancelled, Some (at_cancel clock))"
  proof (intro ballI impI)
    fix x assume x: "x \<in> set (db_subscriptions s)" "active_for aid x"
    then obtain y where "findById sub_id (sub_id x) (db_subscriptions s2) = Some y"
        "sub_status y = Cancelled" "sub_cancelledAt y = Some (at_cancel clock)"
      using cancel_existing_cancels [OF one1, of x "at_cancel clock"] by (auto simp: subs1 s2_def)
    then show "map_option (\<lambda>y. (sub_status y, sub_cancelledAt y))
        (findById sub_id (sub_id x) (db_subscriptions s')) = Some (Cancelled, Some (at_cancel clock))"
      using findById_append [of sub_id "sub_id x" "db_subscriptions s2" y "[new]"]
      by (simp add: s'_def)
  qed
  \<comment> \<open>account\<close>
  have accs2: "db_accounts s2 = db_accounts s"
    by (simp add: s2_def cancel_existing_other accs1)
  have "save acc_id account2 (save acc_id (account\<lparr>acc_plan := PRO, acc_limit := -1\<rparr>) (db_accounts s2))
      = save acc_id account2 (db_accounts s)"
    unfolding accs2 by (rule save_save) (simp add: account2_def)
  moreover have "findById acc_id (acc_id account2) (db_accounts s) = Some account"
    using acc by (simp add: account2_def)
  ultimately have c_acc: "findById acc_id (acc_id account) (db_accounts s') = Some account2"
    using findById_save_same [of acc_id account2 "db_accounts s" account]
    by (simp add: s'_def account2_def)
  have props: "sub_plan new = PRO" "sub_startDate new = at_start clock"
      "sub_endDate new = Some (at_end clock + 365 * 24 * 60 * 60 * 1000)"
    by (simp_all add: new_def new_pro_subscription_def one_year_ms_def)
  show ?thesis
    apply (rule exI [of _ "sendResponse 200 ''Subscription upgraded successfully'' (UpgradeData account2 new payment2)"])
    apply (rule exI [of _ s'])
    apply (rule exI [of _ new])
    using eq c_pay c_old c_one fresh props c_acc
    by (simp add: sendResponse_def payment2_def payment1_def account2_def aid_def)
qed

text \<open>
  Claim C1, as amended. The request carries its four fields, the lookup finds the pending
  Payment of the account, the signature equals the HMAC of \<open>orderId|paymentId\<close>, and
  \<open>req.account\<close> is the stored account document.

  If the gateway returns the payment's details, no other Payment carries the supplied gateway
  payment id, and the account has at most one active Subscription before the call, then the
  handler answers 200 and afterwards: the stored Payment is \<open>success\<close> and references the
  new Subscription; every Subscription of the account that was active is \<open>cancelled\<close> with
  \<open>cancelledAt\<close> the clock reading at the cancellation; the new Subscription is the only
  active one of the account, its id is new, its plan is \<open>pro\<close>, its \<open>startDate\<close> is the clock
  reading at its creation and its \<open>endDate\<close> the clock reading plus 365 days; the stored
  Account has plan \<open>pro\<close>, limit -1 and \<open>currentSubscription\<close> the new Subscription.

  If the gateway does not return the payment's details (\<open>getPaymentDetails\<close> throws), or
  another Payment already carries the supplied gateway payment id, then the handler answers
  500 "Failed to verify payment and upgrade subscription" and the store is unchanged.
\<close>

theorem verified_payment_upgrades:
  assumes b: "truthy (razorpay_order_id body)" "truthy (razorpay_payment_id body)"
      "truthy (razorpay_signature body)" "paymentId body = Some pid"
    and f: "find_pending_payment s pid (acc_id account) (the (razorpay_order_id body)) = Some p"
    and sg: "the (razorpay_signature body) =
         hmac secret (the (razorpay_order_id body) @ ''|'' @ the (razorpay_payment_id body))"
    and acc: "findById acc_id (acc_id account) (db_accounts s) = Some account"
  shows "(fetch (the (razorpay_payment_id body)) \<noteq> None
          \<and> \<not> razorpayPaymentId_taken s pid (the (razorpay_payment_id body))
          \<and> length (filter (active_for (acc_id account)) (db_subscriptions s)) \<le> 1 \<longrightarrow>
        (\<exists>r s' new. verifyPaymentAndUpgrade hmac secret fetch clock body account s = (r, s')
          \<and> status r = 200
          \<and> map_option (\<lambda>x. (pay_status x, pay_subscription x))
               (findById pay_id pid (db_payments s')) = Some (SUCCESS, Some (sub_id new))
          \<and> (\<forall>x \<in> set (db_subscriptions s). active_for (acc_id account) x \<longrightarrow>
                map_option (\<lambda>y. (sub_status y, sub_cancelledAt y))
                  (findById sub_id (sub_id x) (db_subscriptions s'))
                  = Some (Cancelled, Some (at_cancel clock)))
          \<and> filter (active_for (acc_id account)) (db_subscriptions s') = [new]
          \<and> sub_id new \<notin> set (map sub_id (db_subscriptions s))
          \<and> sub_plan new = PRO \<and> sub_startDate new = at_start clock
          \<and> sub_endDate new = Some (at_end clock + 365 * 24 * 60 * 60 * 1000)
          \<and> map_option (\<lambda>x. (acc_plan x, acc_limit x, acc_currentSubscription x))
               (findById acc_id (acc_id account) (db_accounts s'))
               = Some (PRO, -1, Some (sub_id new))))
     \<and> (fetch (the (razorpay_payment_id body)) = None
          \<or> razorpayPaymentId_taken s pid (the (razorpay_payment_id body)) \<longrightarrow>
        verifyPaymentAndUpgrade hmac secret fetch clock body account s =
          (sendError 500 ''Failed to verify payment and upgrade subscription'', s))"
proof (intro conjI impI)
  assume h: "fetch (the (razorpay_payment_id body)) \<noteq> None
      \<and> \<not> razorpayPaymentId_taken s pid (the (razorpay_payment_id body))
      \<and> length (filter (active_for (acc_id account)) (db_subscriptions s)) \<le> 1"
  then obtain pd where gw: "fetch (the (razorpay_payment_id body)) = Some pd" by auto
  show "\<exists>r s' new. verifyPaymentAndUpgrade hmac secret fetch clock body account s = (r, s')
          \<and> status r = 200
          \<and> map_option (\<lambda>x. (pay_status x, pay_subscription x))
               (findById pay_id pid (db_payments s')) = Some (SUCCESS, Some (sub_id new))
          \<and> (\<forall>x \<in> set (db_subscriptions s). active_for (acc_id account) x \<longrightarrow>
                map_option (\<lambda>y. (sub_status y, sub_cancelledAt y))
                  (findById sub_id (sub_id x) (db_subscriptions s'))
                  = Some (Cancelled, Some (at_cancel clock)))
          \<and> filter (active_for (acc_id account)) (db_subscriptions s') = [new]
          \<and> sub_id new \<notin> set (map sub_id (db_subscriptions s))
          \<and> sub_plan new = PRO \<and> sub_startDate new = at_start clock
          \<and> sub_endDate new = Some (at_end clock + 365 * 24 * 60 * 60 * 1000)
          \<and> map_option (\<lambda>x. (acc_plan x, acc_limit x, acc_currentSubscription x))
               (findById acc_id (acc_id account) (db_accounts s'))
               = Some (PRO, -1, Some (sub_id new))"
    using verify_success_post [where hmac=hmac and secret=secret and fetch=fetch and body=body
        and clock=clock, OF b f sg gw _ _ acc] h by blast
next
  assume "fetch (the (razorpay_payment_id body)) = None
      \<or> razorpayPaymentId_taken s pid (the (razorpay_payment_id body))"
  then show "verifyPaymentAndUpgrade hmac secret fetch clock body account s =
      (sendError 500 ''Failed to verify payment and upgrade subscription'', s)"
    using verify_refused [where hmac=hmac and secret=secret and fetch=fetch and body=body,
        OF b f sg] by blast
qed

theorem verified_payment_upgrades_witness:
  "find_pending_payment ex_db 7 (acc_id ex_account) ''order_1'' = Some ex_payment
   \<and> verifyPaymentSignature ex_hmac ''key'' ''order_1'' ''pay_1'' ''key#order_1|pay_1''
   \<and> gateway_up ''pay_1'' = Some \<lparr>pd_method = Some ''card''\<rparr>
   \<and> \<not> razorpayPaymentId_taken ex_db 7 ''pay_1''
   \<and> filter (active_for 1) (db_subscriptions ex_db) = [ex_subscription]
   \<and> (\<exists>r s' new.
        verifyPaymentAndUpgrade ex_hmac ''key'' gateway_up ex_clock ex_body ex_account ex_db = (r, s')
      \<and> status r = 200
      \<and> map_option (\<lambda>x. (pay_status x, pay_subscription x)) (findById pay_id 7 (db_payments s'))
          = Some (SUCCESS, Some (sub_id new))
      \<and> map_option (\<lambda>y. (sub_status y, sub_cancelledAt y)) (findById sub_id 4 (db_subscriptions s'))
          = Some (Cancelled, Some 1000)
      \<and> filter (active_for 1) (db_subscriptions s') = [new]
      \<and> sub_id new \<noteq> 4
      \<and> sub_plan new = PRO \<and> sub_startDate new = 1001
      \<and> sub_endDate new = Some (1002 + 365 * 24 * 60 * 60 * 1000)
      \<and> map_option (\<lambda>x. (acc_plan x, acc_limit x, acc_currentSubscription x))
           (findById acc_id 1 (db_accounts s')) = Some (PRO, -1, Some (sub_id new)))
   \<and> gateway_down ''pay_1'' = None
   \<and> verifyPaymentAndUpgrade ex_hmac ''key'' gateway_down ex_clock ex_body ex_account ex_db
        = (sendError 500 ''Failed to verify payment and upgrade subscription'', ex_db)
   \<and> find_pending_payment ex_db_duplicate 7 (acc_id ex_account) ''order_1'' = Some ex_payment
   \<and> razorpayPaymentId_taken ex_db_duplicate 7 ''pay_1''
   \<and> verifyPaymentAndUpgrade ex_hmac ''key'' gateway_up ex_clock ex_body ex_account ex_db_duplicate
        = (sendError 500 ''Failed to verify payment and upgrade subscription'', ex_db_duplicate)"
proof -
  have sg: "the (razorpay_signature ex_body) =
      ex_hmac ''key'' (the (razorpay_order_id ex_body) @ ''|'' @ the (razorpay_payment_id ex_body))"
    by (simp add: ex_body_def ex_hmac_def)
  have gw: "gateway_up (the (razorpay_payment_id ex_body)) \<noteq> None"
    by (simp add: gateway_up_def)
  have uq: "\<not> razorpayPaymentId_taken ex_db 7 ''pay_1''"
    by (simp add: razorpayPaymentId_taken_def ex_db_def ex_payment_def)
  have fl: "filter (active_for 1) (db_subscriptions ex_db) = [ex_subscription]"
    by (simp add: ex_db_def ex_subscription_def active_for_def)
  have one: "length (filter (active_for (acc_id ex_account)) (db_subscriptions ex_db)) \<le> 1"
    using fl by (simp add: ex_account_def)
  have acc: "findById acc_id (acc_id ex_account) (db_accounts ex_db) = Some ex_account"
    by (simp add: findById_def ex_db_def)
  have v: "verifyPaymentSignature ex_hmac ''key'' ''order_1'' ''pay_1'' ''key#order_1|pay_1''"
    by (simp add: verifyPaymentSignature_def ex_hmac_def)
  have i: "acc_id ex_account = 1" "sub_id ex_subscription = 4"
      "the (razorpay_order_id ex_body) = ''order_1''" "at_cancel ex_clock = 1000"
      "at_start ex_clock = 1001" "at_end ex_clock = 1002"
      "ex_subscription \<in> set (db_subscriptions ex_db)" "active_for 1 ex_subscription"
      "the (razorpay_payment_id ex_body) = ''pay_1''"
    by (simp_all add: ex_account_def ex_subscription_def ex_body_def ex_clock_def ex_db_def
        active_for_def)
  have up: "gateway_up (the (razorpay_payment_id ex_body)) \<noteq> None
      \<and> \<not> razorpayPaymentId_taken ex_db 7 (the (razorpay_payment_id ex_body))
      \<and> length (filter (active_for (acc_id ex_account)) (db_subscriptions ex_db)) \<le> 1"
    using gw uq one i(9) by simp
  note thm_up = verified_payment_upgrades [where hmac=ex_hmac and secret="''key''"
      and fetch=gateway_up and clock=ex_clock and body=ex_body,
      OF ex_body_truthy(1-4) ex_find_pending(1) sg acc]
  note thm_down = verified_payment_upgrades [where hmac=ex_hmac and secret="''key''"
      and fetch=gateway_down and clock=ex_clock and body=ex_body,
      OF ex_body_truthy(1-4) ex_find_pending(1) sg acc]
  from thm_up up
  obtain r s' new where
    "verifyPaymentAndUpgrade ex_hmac ''key'' gateway_up ex_clock ex_body ex_account ex_db = (r, s')"
    "status r = 200"
    "map_option (\<lambda>x. (pay_status x, pay_subscription x)) (findById pay_id 7 (db_payments s'))
       = Some (SUCCESS, Some (sub_id new))"
    "\<forall>x \<in> set (db_subscriptions ex_db). active_for (acc_id ex_account) x \<longrightarrow>
       map_option (\<lambda>y. (sub_status y, sub_cancelledAt y))
         (findById sub_id (sub_id x) (db_subscriptions s')) = Some (Cancelled, Some (at_cancel ex_clock))"
    "filter (active_for (acc_id ex_account)) (db_subscriptions s') = [new]"
    "sub_id new \<notin> set (map sub_id (db_subscriptions ex_db))"
    "sub_plan new = PRO" "sub_startDate new = at_start ex_clock"
    "sub_endDate new = Some (at_end ex_clock + 365 * 24 * 60 * 60 * 1000)"
    "map_option (\<lambda>x. (acc_plan x, acc_limit x, acc_currentSubscription x))
       (findById acc_id (acc_id ex_account) (db_accounts s')) = Some (PRO, -1, Some (sub_id new))"
    by blast
  note r = this
  have old: "map_option (\<lambda>y. (sub_status y, sub_cancelledAt y)) (findById sub_id 4 (db_subscriptions s'))
      = Some (Cancelled, Some 1000)"
    using r(4) i by auto
  have fresh: "sub_id new \<noteq> 4"
    using r(6) i(2,7) by auto
  have ex: "\<exists>r s' new.
        verifyPaymentAndUpgrade ex_hmac ''key'' gateway_up ex_clock ex_body ex_account ex_db = (r, s')
      \<and> status r = 200
      \<and> map_option (\<lambda>x. (pay_status x, pay_subscription x)) (findById pay_id 7 (db_payments s'))
          = Some (SUCCESS, Some (sub_id new))
      \<and> map_option (\<lambda>y. (sub_status y, sub_cancelledAt y)) (findById sub_id 4 (db_subscriptions s'))
          = Some (Cancelled, Some 1000)
      \<and> filter (active_for 1) (db_subscriptions s') = [new]
      \<and> sub_id new \<noteq> 4
      \<and> sub_plan new = PRO \<and> sub_startDate new = 1001
      \<and> sub_endDate new = Some (1002 + 365 * 24 * 60 * 60 * 1000)
      \<and> map_option (\<lambda>x. (acc_plan x, acc_limit x, acc_currentSubscription x))
           (findById acc_id 1 (db_accounts s')) = Some (PRO, -1, Some (sub_id new))"
    apply (rule exI [of _ r], rule exI [of _ s'], rule exI [of _ new])
    using r(1,2,3,5,7,8,9,10) old fresh i(1,4,5,6) by simp
  have gw': "gateway_up ''pay_1'' = Some \<lparr>pd_method = Some ''card''\<rparr>"
    by (simp add: gateway_up_def)
  have f': "find_pending_payment ex_db 7 (acc_id ex_account) ''order_1'' = Some ex_payment"
    using ex_find_pending(1) i(3) by simp
  have dn: "gateway_down ''pay_1'' = None"
    by (simp add: gateway_down_def)
  have down: "verifyPaymentAndUpgrade ex_hmac ''key'' gateway_down ex_clock ex_body ex_account ex_db
        = (sendError 500 ''Failed to verify payment and upgrade subscription'', ex_db)"
    using thm_down dn i(9) by simp
  have fd: "find_pending_payment ex_db_duplicate 7 (acc_id ex_account)
      (the (razorpay_order_id ex_body)) = Some ex_payment"
    by (simp add: find_pending_payment_def ex_db_duplicate_def ex_db_no_subscription_def ex_db_def
        ex_account_def ex_payment_def ex_body_def)
  have fd': "find_pending_payment ex_db_duplicate 7 (acc_id ex_account) ''order_1'' = Some ex_payment"
    using fd i(3) by simp
  have accd: "findById acc_id (acc_id ex_account) (db_accounts ex_db_duplicate) = Some ex_account"
    by (simp add: findById_def ex_db_duplicate_def ex_db_no_subscription_def ex_db_def)
  have tk: "razorpayPaymentId_taken ex_db_duplicate 7 ''pay_1''"
    by (simp add: razorpayPaymentId_taken_def ex_db_duplicate_def ex_payment_def
        ex_payment_settled_def)
  have dup: "verifyPaymentAndUpgrade ex_hmac ''key'' gateway_up ex_clock ex_body ex_account
        ex_db_duplicate
        = (sendError 500 ''Failed to verify payment and upgrade subscription'', ex_db_duplicate)"
    using verified_payment_upgrades [where hmac=ex_hmac and secret="''key''"
      and fetch=gateway_up and clock=ex_clock and body=ex_body,
      OF ex_body_truthy(1-4) fd sg accd] tk i(9) by simp
  from f' v gw' uq fl ex dn down fd' tk dup show ?thesis by (intro conjI)
qed

text \<open>
  The claim as stated fails at three stores, each with the pending Payment found and the
  signature matching. When the gateway does not return the payment's details the handler
  answers 500, the Payment stays \<open>pending\<close>, no Subscription is created and the Account stays
  on \<open>free\<close>. When another Payment already carries the gateway payment id the handler
  answers 500 and the Payment stays \<open>pending\<close>. When the account has two active Subscriptions
  the handler answers 200 and cancels the first; the second stays \<open>active\<close> without
  \<open>cancelledAt\<close>, so that two Subscriptions of the account are active afterwards.
\<close>

theorem verified_payment_not_upgraded_counterexample:
  "find_pending_payment ex_db_no_subscription 7 (acc_id ex_account) ''order_1'' = Some ex_payment
   \<and> verifyPaymentSignature ex_hmac ''key'' ''order_1'' ''pay_1'' ''key#order_1|pay_1''
   \<and> status (fst (verifyPaymentAndUpgrade ex_hmac ''key'' gateway_down ex_clock ex_body ex_account
        ex_db_no_subscription)) = 500
   \<and> map_option pay_status (findById pay_id 7 (db_payments
        (snd (verifyPaymentAndUpgrade ex_hmac ''key'' gateway_down ex_clock ex_body ex_account
           ex_db_no_subscription)))) = Some PENDING
   \<and> db_subscriptions (snd (verifyPaymentAndUpgrade ex_hmac ''key'' gateway_down ex_clock ex_body
        ex_account ex_db_no_subscription)) = []
   \<and> map_option acc_plan (findById acc_id 1 (db_accounts
        (snd (verifyPaymentAndUpgrade ex_hmac ''key'' gateway_down ex_clock ex_body ex_account
           ex_db_no_subscription)))) = Some FREE
   \<and> find_pending_payment ex_db_duplicate 7 (acc_id ex_account) ''order_1'' = Some ex_payment
   \<and> status (fst (verifyPaymentAndUpgrade ex_hmac ''key'' gateway_up ex_clock ex_body ex_account
        ex_db_duplicate)) = 500
   \<and> map_option pay_status (findById pay_id 7 (db_payments
        (snd (verifyPaymentAndUpgrade ex_hmac ''key'' gateway_up ex_clock ex_body ex_account
           ex_db_duplicate)))) = Some PENDING
   \<and> map_option acc_plan (findById acc_id 1 (db_accounts
        (snd (verifyPaymentAndUpgrade ex_hmac ''key'' gateway_up ex_clock ex_body ex_account
           ex_db_duplicate)))) = Some FREE
   \<and> find_pending_payment ex_db_two_active 7 (acc_id ex_account) ''order_1'' = Some ex_payment
   \<and> map sub_id (filter (active_for 1) (db_subscriptions ex_db_two_active)) = [4, 5]
   \<and> status (fst (verifyPaymentAndUpgrade ex_hmac ''key'' gateway_up ex_clock ex_body ex_account
        ex_db_two_active)) = 200
   \<and> map sub_id (filter (active_for 1) (db_subscriptions
        (snd (verifyPaymentAndUpgrade ex_hmac ''key'' gateway_up ex_clock ex_body ex_account
           ex_db_two_active)))) = [5, 6]
   \<and> map_option (\<lambda>y. (sub_status y, sub_cancelledAt y)) (findById sub_id 5 (db_subscriptions
        (snd (verifyPaymentAndUpgrade ex_hmac ''key'' gateway_up ex_clock ex_body ex_account
           ex_db_two_active)))) = Some (Active, None)"
  by code_simp

text \<open>
  At most one active Subscription per account is an invariant of the two handlers that write
  subscriptions.
\<close>

lemma verifyPaymentAndUpgrade_keeps_one_active:
  assumes "length (filter (active_for aid) (db_subscriptions s)) \<le> 1"
    and "length (filter (active_for (acc_id account)) (db_subscriptions s)) \<le> 1"
  shows "length (filter (active_for aid)
     (db_subscriptions (snd (verifyPaymentAndUpgrade hmac secret fetch clock body account s)))) \<le> 1"
proof -
  have c: "length (filter (active_for aid) (db_subscriptions (cancel_existing t a now)))
      \<le> length (filter (active_for aid) (db_subscriptions t))" for t a now
    by (auto simp: cancel_existing_def active_for_def split: option.splits
        intro!: length_filter_save_le)
  have z: "filter (active_for (acc_id account))
      (db_subscriptions (cancel_existing (s\<lparr>db_payments := ps\<rparr>) (acc_id account) now)) = []" for ps now
    using cancel_existing_active [of "acc_id account" "s\<lparr>db_payments := ps\<rparr>" now] assms(2) by simp
  show ?thesis
  proof (cases "aid = acc_id account")
    case True
    then show ?thesis
      using assms(2) z
      by (auto simp: verifyPaymentAndUpgrade_def upgradeToPro_def Let_def active_for_def
          new_pro_subscription_def split: option.splits sum.splits)
  next
    case False
    have "length (filter (active_for aid)
        (db_subscriptions (cancel_existing (s\<lparr>db_payments := ps\<rparr>) (acc_id account) now))) \<le> 1" for ps now
      using c [of "s\<lparr>db_payments := ps\<rparr>" "acc_id account" now] assms(1) by simp
    then show ?thesis
      using assms(1) False
      by (auto simp: verifyPaymentAndUpgrade_def upgradeToPro_def Let_def active_for_def
          new_pro_subscription_def split: option.splits sum.splits)
  qed
qed

lemma cancelSubscription_keeps_one_active:
  assumes "length (filter (active_for aid) (db_subscriptions s)) \<le> 1"
  shows "length (filter (active_for aid)
     (db_subscriptions (snd (cancelSubscription now account s)))) \<le> 1"
proof -
  have "length (filter (active_for aid) (save sub_id (x\<lparr>sub_status := Cancelled,
      sub_cancelledAt := Some now\<rparr>) (db_subscriptions s))) \<le> length (filter (active_for aid) (db_subscriptions s))" for x
    by (rule length_filter_save_le) (simp add: active_for_def)
  then show ?thesis
    using assms
    by (auto simp: cancelSubscription_def Let_def split: option.splits intro: order_trans)
qed

section \<open>The note-creation gate\<close>

lemma checkNoteLimit_pro: "acc_plan a = PRO \<Longrightarrow> checkNoteLimit (Some a) = Inr ()"
  by (simp add: checkNoteLimit_def)

lemma checkNoteLimit_free:
  "acc_plan a = FREE \<Longrightarrow> checkNoteLimit (Some a) =
     (if acc_noteCount a \<ge> 20
      then Inl (Response 403 (NoteLimitExceeded ''Note limit exceeded for your current plan''
                  FREE (acc_noteCount a) 20 True) NoData)
      else Inr ())"
  by (simp add: checkNoteLimit_def SUBSCRIPTION_LIMITS_def)

text \<open>
  Claim C3. The gate compares \<open>noteCount\<close> with the plan table's cap
  (\<open>SUBSCRIPTION_LIMITS.free.maxNotes = 20\<close>) and never reads the cap attached to the account
  (\<open>account.limit\<close>, 3 for a free account). For a free account with limit 3 and three notes
  the model's \<open>canCreateNote\<close> is false, yet the gate calls \<open>next()\<close>.
\<close>

theorem checkNoteLimit_passes_at_account_limit:
  "acc_plan ex_account = FREE \<and> acc_limit ex_account = 3 \<and> acc_noteCount ex_account = 3
   \<and> \<not> canCreateNote ex_account
   \<and> checkNoteLimit (Some ex_account) = Inr ()"
  by (simp add: checkNoteLimit_def SUBSCRIPTION_LIMITS_def canCreateNote_def ex_account_def)

section \<open>Token invalidation\<close>

lemma iat_le: "(t::int) div 1000 * 1000 \<le> t"
  by presburger

lemma authenticate_Inl:
  "authenticate sign secret now req s = Inl r \<Longrightarrow> status r = 401 \<and> payload r = NoData"
  by (auto simp: authenticate_def sendError_def split: option.splits if_splits sum.splits jwt_error.splits)

lemma authenticate_status_401:
  "authenticate sign secret now req s = Inl r \<Longrightarrow> status r = 401"
  by (simp add: authenticate_Inl)

lemma authenticate_stale:
  assumes tok: "extractToken req = Some (generateToken sign secret ttl t uid aid rn)"
    and u: "findById usr_id uid (db_users s) = Some u"
    and w: "t < usr_tokensInvalidBefore u"
  shows "\<exists>r. authenticate sign secret now req s = Inl r \<and> status r = 401"
proof -
  have "t div 1000 * 1000 < usr_tokensInvalidBefore u"
    using iat_le [of t] w by linarith
  then have "\<exists>r. authenticate sign secret now req s = Inl r"
    using tok u
    by (auto simp: authenticate_def generateToken_def jwt_sign_def jwt_verify_def Let_def
        split: jwt_error.splits)
  then show ?thesis using authenticate_status_401 by blast
qed

lemma authenticate_accepts_only:
  assumes a: "authenticate sign secret now req s = Inr ctx"
  shows "\<exists>claims sg. extractToken req = Some (Signed claims sg) \<and> sg = sign secret claims
      \<and> now div 1000 < jwt_exp claims
      \<and> findById usr_id (jwt_userId claims) (db_users s) = Some (req_user ctx)
      \<and> usr_tokensInvalidBefore (req_user ctx) \<le> jwt_iat claims * 1000"
proof -
  obtain tok where t: "extractToken req = Some tok"
    using a by (cases "extractToken req") (auto simp: authenticate_def)
  have ne: "tok \<noteq> Malformed []"
    using a t by (auto simp: authenticate_def)
  obtain claims where v: "jwt_verify sign secret now tok = Inr claims"
    using a t ne
    by (cases "jwt_verify sign secret now tok") (auto simp: authenticate_def split: jwt_error.splits)
  obtain sg where tk: "tok = Signed claims sg" "sg = sign secret claims" "now div 1000 < jwt_exp claims"
    using v by (auto simp: jwt_verify_def split: token.splits if_splits)
  obtain user where u: "findById usr_id (jwt_userId claims) (db_users s) = Some user"
    using a t ne v
    by (cases "findById usr_id (jwt_userId claims) (db_users s)") (auto simp: authenticate_def)
  have e: "authenticate sign secret now req s =
      (if \<not> usr_isActive user \<or> usr_isDeleted user
       then Inl (sendError 401 ''Invalid token - user not found or inactive'')
       else if jwt_iat claims * 1000 < usr_tokensInvalidBefore user
       then Inl (sendError 401 ''Token has been invalidated'')
       else (case findById acc_id (usr_account user) (db_accounts s) of
               None \<Rightarrow> Inl (sendError 401 ''Account inactive or not found'')
             | Some account \<Rightarrow>
                 if \<not> acc_isActive account \<or> acc_isDeleted account
                 then Inl (sendError 401 ''Account inactive or not found'')
                 else Inr \<lparr>req_user = user,
                           req_user_role = findById role_id (usr_role user) (db_roles s),
                           req_account = account, req_tenantFilter = None\<rparr>))"
    by (simp add: authenticate_def t ne v u)
  have w: "usr_tokensInvalidBefore user \<le> jwt_iat claims * 1000"
  proof (rule ccontr)
    assume "\<not> usr_tokensInvalidBefore user \<le> jwt_iat claims * 1000"
    then have "\<exists>r. authenticate sign secret now req s = Inl r"
      unfolding e by simp
    with a show False by simp
  qed
  have act: "\<not> (\<not> usr_isActive user \<or> usr_isDeleted user)"
  proof
    assume "\<not> usr_isActive user \<or> usr_isDeleted user"
    then have "\<exists>r. authenticate sign secret now req s = Inl r"
      unfolding e by simp
    with a show False by simp
  qed
  have "req_user ctx = user"
  proof (cases "findById acc_id (usr_account user) (db_accounts s)")
    case None
    then have "\<exists>r. authenticate sign secret now req s = Inl r"
      unfolding e by simp
    with a show ?thesis by simp
  next
    case (Some account)
    show ?thesis
    proof (cases "\<not> acc_isActive account \<or> acc_isDeleted account")
      case True
      then have "\<exists>r. authenticate sign secret now req s = Inl r"
        unfolding e using Some by simp
      with a show ?thesis by simp
    next
      case False
      then have "authenticate sign secret now req s = Inr \<lparr>req_user = user,
           req_user_role = findById role_id (usr_role user) (db_roles s),
           req_account = account, req_tenantFilter = None\<rparr>"
        unfolding e using Some act w by simp
      then have "(Inr ctx :: response + request_context) = Inr \<lparr>req_user = user,
           req_user_role = findById role_id (usr_role user) (db_roles s),
           req_account = account, req_tenantFilter = None\<rparr>"
        unfolding a .
      then show ?thesis by simp
    qed
  qed
  then show ?thesis using t tk u w by simp
qed

lemma changePassword_then_stale:
  assumes c: "changePassword hp cp w body ctx s = (r, s')" and ok: "status r = 200"
    and tw: "t < w"
    and tok: "extractToken req = Some (generateToken sign secret ttl t (usr_id (req_user ctx)) aid rn)"
  shows "\<exists>r'. authenticate sign secret now req s' = Inl r' \<and> status r' = 401"
proof (cases "findById usr_id (usr_id (req_user ctx)) (db_users s')")
  case None
  then have "\<exists>r'. authenticate sign secret now req s' = Inl r'"
    using tok
    by (auto simp: authenticate_def generateToken_def jwt_sign_def jwt_verify_def Let_def
        split: jwt_error.splits)
  then show ?thesis using authenticate_status_401 by blast
next
  case (Some u)
  let ?u1 = "(req_user ctx)\<lparr>usr_password := hp (the (newPassword body)), usr_tokensInvalidBefore := w\<rparr>"
  have s': "db_users s' = save usr_id ?u1 (db_users s)"
    using c ok by (auto simp: changePassword_def sendError_def Let_def split: if_splits)
  have "u = ?u1"
    using Some findById_save_watermark [of usr_id ?u1 "db_users s" u] unfolding s' by simp
  then have "t < usr_tokensInvalidBefore u" using tw by simp
  from authenticate_stale [OF tok Some this] show ?thesis .
qed

lemma logout_then_stale:
  assumes c: "logout w ctx s = (r, s')"
    and tw: "t < w"
    and tok: "extractToken req = Some (generateToken sign secret ttl t (usr_id (req_user ctx)) aid rn)"
  shows "\<exists>r'. authenticate sign secret now req s' = Inl r' \<and> status r' = 401"
proof (cases "findById usr_id (usr_id (req_user ctx)) (db_users s')")
  case None
  then have "\<exists>r'. authenticate sign secret now req s' = Inl r'"
    using tok
    by (auto simp: authenticate_def generateToken_def jwt_sign_def jwt_verify_def Let_def
        split: jwt_error.splits)
  then show ?thesis using authenticate_status_401 by blast
next
  case (Some u)
  let ?u1 = "(req_user ctx)\<lparr>usr_tokensInvalidBefore := w\<rparr>"
  have s': "db_users s' = save usr_id ?u1 (db_users s)"
    using c by (auto simp: logout_def Let_def)
  have "u = ?u1"
    using Some findById_save_watermark [of usr_id ?u1 "db_users s" u] unfolding s' by simp
  then have "t < usr_tokensInvalidBefore u" using tw by simp
  from authenticate_stale [OF tok Some this] show ?thesis .
qed

text \<open>
  Claim C6. A token issued to a user at time \<open>t\<close> is rejected with 401 by \<open>authenticate\<close>, at
  every later clock reading and so also before its expiry, in every store in which the
  user's \<open>tokensInvalidBefore\<close> is after \<open>t\<close>; a successful \<open>changePassword\<close> and a \<open>logout\<close>
  at a time after \<open>t\<close> produce such a store. A request is accepted only with a token whose
  signature verifies, whose expiry is not reached and whose \<open>iat\<close> is not before the
  watermark of the user it names.
\<close>

theorem token_before_watermark_rejected:
  "(\<forall>u. extractToken req = Some (generateToken sign secret ttl t uid aid rn)
        \<and> findById usr_id uid (db_users s) = Some u \<and> t < usr_tokensInvalidBefore u
      \<longrightarrow> (\<exists>r. authenticate sign secret now req s = Inl r \<and> status r = 401))
   \<and> (\<forall>r s'. changePassword hp cp w body ctx s = (r, s') \<and> status r = 200 \<and> t < w
        \<and> extractToken req = Some (generateToken sign secret ttl t (usr_id (req_user ctx)) aid rn)
      \<longrightarrow> (\<exists>r'. authenticate sign secret now req s' = Inl r' \<and> status r' = 401))
   \<and> (\<forall>r s'. logout w ctx s = (r, s') \<and> t < w
        \<and> extractToken req = Some (generateToken sign secret ttl t (usr_id (req_user ctx)) aid rn)
      \<longrightarrow> (\<exists>r'. authenticate sign secret now req s' = Inl r' \<and> status r' = 401))
   \<and> (\<forall>c. authenticate sign secret now req s = Inr c
      \<longrightarrow> (\<exists>claims sg. extractToken req = Some (Signed claims sg) \<and> sg = sign secret claims
            \<and> now div 1000 < jwt_exp claims
            \<and> findById usr_id (jwt_userId claims) (db_users s) = Some (req_user c)
            \<and> usr_tokensInvalidBefore (req_user c) \<le> jwt_iat claims * 1000))"
proof (intro conjI allI impI)
  fix u
  assume "extractToken req = Some (generateToken sign secret ttl t uid aid rn)
        \<and> findById usr_id uid (db_users s) = Some u \<and> t < usr_tokensInvalidBefore u"
  then show "\<exists>r. authenticate sign secret now req s = Inl r \<and> status r = 401"
    using authenticate_stale by blast
next
  fix r s'
  assume "changePassword hp cp w body ctx s = (r, s') \<and> status r = 200 \<and> t < w
        \<and> extractToken req = Some (generateToken sign secret ttl t (usr_id (req_user ctx)) aid rn)"
  then show "\<exists>r'. authenticate sign secret now req s' = Inl r' \<and> status r' = 401"
    using changePassword_then_stale by blast
next
  fix r s'
  assume "logout w ctx s = (r, s') \<and> t < w
        \<and> extractToken req = Some (generateToken sign secret ttl t (usr_id (req_user ctx)) aid rn)"
  then show "\<exists>r'. authenticate sign secret now req s' = Inl r' \<and> status r' = 401"
    using logout_then_stale by blast
next
  fix c
  assume "authenticate sign secret now req s = Inr c"
  then show "\<exists>claims sg. extractToken req = Some (Signed claims sg) \<and> sg = sign secret claims
            \<and> now div 1000 < jwt_exp claims
            \<and> findById usr_id (jwt_userId claims) (db_users s) = Some (req_user c)
            \<and> usr_tokensInvalidBefore (req_user c) \<le> jwt_iat claims * 1000"
    by (rule authenticate_accepts_only)
qed

theorem token_before_watermark_rejected_witness:
  "extractToken ex_headers = Some (generateToken ex_sign ''jwt'' 604800 5000 (usr_id (req_user ex_ctx)) 1 ADMIN)
   \<and> (\<exists>c. authenticate ex_sign ''jwt'' 8000 ex_headers ex_db_auth = Inr c
          \<and> usr_tokensInvalidBefore (req_user c) = 1000)
   \<and> status (fst (changePassword ex_hash ex_compare 9000 ex_change_body ex_ctx ex_db_auth)) = 200
   \<and> (5000::int) < 9000
   \<and> (\<exists>r'. authenticate ex_sign ''jwt'' 10000 ex_headers
          (snd (changePassword ex_hash ex_compare 9000 ex_change_body ex_ctx ex_db_auth)) = Inl r'
        \<and> status r' = 401)"
proof -
  have tok: "extractToken ex_headers =
      Some (generateToken ex_sign ''jwt'' 604800 5000 (usr_id (req_user ex_ctx)) 1 ADMIN)"
    by (simp add: extractToken_def ex_headers_def ex_token_def ex_ctx_def ex_user_def)
  have before: "\<exists>c. authenticate ex_sign ''jwt'' 8000 ex_headers ex_db_auth = Inr c
          \<and> usr_tokensInvalidBefore (req_user c) = 1000"
    by (simp add: authenticate_def extractToken_def generateToken_def jwt_sign_def jwt_verify_def
        findById_def Let_def ex_headers_def ex_token_def ex_db_auth_def ex_db_def ex_user_def ex_role_def
        ex_account_def ex_ctx_def ex_sign_def ex_hash_def ex_compare_def ex_change_body_def)
  have ok: "status (fst (changePassword ex_hash ex_compare 9000 ex_change_body ex_ctx ex_db_auth)) = 200"
    by (simp add: changePassword_def truthy_def sendResponse_def Let_def ex_headers_def ex_token_def ex_db_auth_def ex_db_def ex_user_def ex_role_def
        ex_account_def ex_ctx_def ex_sign_def ex_hash_def ex_compare_def ex_change_body_def)
  have "\<exists>r'. authenticate ex_sign ''jwt'' 10000 ex_headers
          (snd (changePassword ex_hash ex_compare 9000 ex_change_body ex_ctx ex_db_auth)) = Inl r'
        \<and> status r' = 401"
  proof -
    obtain r s' where c: "changePassword ex_hash ex_compare 9000 ex_change_body ex_ctx ex_db_auth = (r, s')"
      by (cases "changePassword ex_hash ex_compare 9000 ex_change_body ex_ctx ex_db_auth")
    have "changePassword ex_hash ex_compare 9000 ex_change_body ex_ctx ex_db_auth = (r, s')
        \<and> status r = 200 \<and> (5000::int) < 9000
        \<and> extractToken ex_headers =
          Some (generateToken ex_sign ''jwt'' 604800 5000 (usr_id (req_user ex_ctx)) 1 ADMIN)"
      using c ok tok by simp
    then have "\<exists>r'. authenticate ex_sign ''jwt'' 10000 ex_headers s' = Inl r' \<and> status r' = 401"
      using token_before_watermark_rejected [where req=ex_headers and sign=ex_sign
          and secret="''jwt''" and ttl=604800 and t=5000 and aid=1 and rn=ADMIN and hp=ex_hash
          and cp=ex_compare and w=9000 and body=ex_change_body and ctx=ex_ctx and s=ex_db_auth
          and now=10000]
      by blast
    then show ?thesis using c by simp
  qed
  then show ?thesis using tok before ok by simp
qed

section \<open>The notes routes: what each handler reads and writes\<close>

lemma authenticate_ctx:
  assumes a: "authenticate sign secret now hdrs s = Inr ctx"
  shows "findById acc_id (usr_account (req_user ctx)) (db_accounts s) = Some (req_account ctx)
     \<and> req_user_role ctx = findById role_id (usr_role (req_user ctx)) (db_roles s)
     \<and> req_tenantFilter ctx = None
     \<and> acc_isActive (req_account ctx) \<and> \<not> acc_isDeleted (req_account ctx)
     \<and> (\<exists>i. findById usr_id i (db_users s) = Some (req_user ctx))"
proof -
  obtain tok where t: "extractToken hdrs = Some tok"
    using a by (cases "extractToken hdrs") (auto simp: authenticate_def)
  have ne: "tok \<noteq> Malformed []"
    using a t by (auto simp: authenticate_def)
  obtain claims where v: "jwt_verify sign secret now tok = Inr claims"
    using a t ne
    by (cases "jwt_verify sign secret now tok") (auto simp: authenticate_def split: jwt_error.splits)
  obtain user where u: "findById usr_id (jwt_userId claims) (db_users s) = Some user"
    using a t ne v
    by (cases "findById usr_id (jwt_userId claims) (db_users s)") (auto simp: authenticate_def)
  have e: "authenticate sign secret now hdrs s =
      (if \<not> usr_isActive user \<or> usr_isDeleted user
       then Inl (sendError 401 ''Invalid token - user not found or inactive'')
       else if jwt_iat claims * 1000 < usr_tokensInvalidBefore user
       then Inl (sendError 401 ''Token has been invalidated'')
       else (case findById acc_id (usr_account user) (db_accounts s) of
               None \<Rightarrow> Inl (sendError 401 ''Account inactive or not found'')
             | Some account \<Rightarrow>
                 if \<not> acc_isActive account \<or> acc_isDeleted account
                 then Inl (sendError 401 ''Account inactive or not found'')
                 else Inr \<lparr>req_user = user,
                           req_user_role = findById role_id (usr_role user) (db_roles s),
                           req_account = account, req_tenantFilter = None\<rparr>))"
    by (simp add: authenticate_def t ne v u)
  have c1: "\<not> (\<not> usr_isActive user \<or> usr_isDeleted user)"
  proof
    assume "\<not> usr_isActive user \<or> usr_isDeleted user"
    then have "\<exists>r. authenticate sign secret now hdrs s = Inl r" unfolding e by simp
    with a show False by simp
  qed
  have c2: "\<not> jwt_iat claims * 1000 < usr_tokensInvalidBefore user"
  proof
    assume "jwt_iat claims * 1000 < usr_tokensInvalidBefore user"
    then have "\<exists>r. authenticate sign secret now hdrs s = Inl r" unfolding e using c1 by simp
    with a show False by simp
  qed
  obtain account where ac: "findById acc_id (usr_account user) (db_accounts s) = Some account"
  proof (cases "findById acc_id (usr_account user) (db_accounts s)")
    case None
    then have "\<exists>r. authenticate sign secret now hdrs s = Inl r" unfolding e by simp
    with a show ?thesis by simp
  next
    case (Some account)
    then show ?thesis using that by simp
  qed
  have c3: "\<not> (\<not> acc_isActive account \<or> acc_isDeleted account)"
  proof
    assume "\<not> acc_isActive account \<or> acc_isDeleted account"
    then have "\<exists>r. authenticate sign secret now hdrs s = Inl r" unfolding e using ac by simp
    with a show False by simp
  qed
  have "authenticate sign secret now hdrs s = Inr \<lparr>req_user = user,
           req_user_role = findById role_id (usr_role user) (db_roles s),
           req_account = account, req_tenantFilter = None\<rparr>"
    unfolding e using ac c1 c2 c3 by simp
  then have "(Inr ctx :: response + request_context) = Inr \<lparr>req_user = user,
           req_user_role = findById role_id (usr_role user) (db_roles s),
           req_account = account, req_tenantFilter = None\<rparr>"
    unfolding a .
  then have ctx: "ctx = \<lparr>req_user = user,
           req_user_role = findById role_id (usr_role user) (db_roles s),
           req_account = account, req_tenantFilter = None\<rparr>"
    by (rule Inr_inject)
  show ?thesis
    unfolding ctx using ac c3 u by auto
qed

lemma findOrCreate_frame:
  assumes "findOrCreate js account tagName s = (res, s')"
  shows "db_accounts s' = db_accounts s \<and> db_notes s' = db_notes s \<and> db_users s' = db_users s
     \<and> db_roles s' = db_roles s \<and> db_subscriptions s' = db_subscriptions s
     \<and> db_payments s' = db_payments s
     \<and> (\<exists>new. db_tags s' = db_tags s @ new \<and> (\<forall>t \<in> set new. tag_account t = account))"
  using assms
  by (auto simp: findOrCreate_def tag_named_def Let_def split: option.splits if_splits)

lemma process_tags_frame:
  "process_tags js account ts ids s = (res, s') \<Longrightarrow>
   db_accounts s' = db_accounts s \<and> db_notes s' = db_notes s \<and> db_users s' = db_users s
     \<and> db_roles s' = db_roles s \<and> db_subscriptions s' = db_subscriptions s
     \<and> db_payments s' = db_payments s
     \<and> (\<exists>new. db_tags s' = db_tags s @ new \<and> (\<forall>t \<in> set new. tag_account t = account))"
proof (induction js account ts ids s arbitrary: res s' rule: process_tags.induct)
  case (1 js account tagIds s)
  then show ?case by simp
next
  case (2 js account tagName rest tagIds s)
  show ?case
  proof (cases "trim js tagName \<noteq> []")
    case False
    then show ?thesis using 2 by simp
  next
    case True
    obtain fr s1 where f: "findOrCreate js account (trim js tagName) s = (fr, s1)"
      by (cases "findOrCreate js account (trim js tagName) s")
    note ff = findOrCreate_frame [OF f]
    show ?thesis
    proof (cases fr)
      case None
      then show ?thesis using 2(3) True f ff by simp
    next
      case (Some tag)
      then have "process_tags js account rest (tagIds @ [tag_id tag]) s1 = (res, s')"
        using 2(3) True f by simp
      from 2(1) [OF True f [symmetric] Some this] ff show ?thesis
        by (metis (no_types, lifting) Un_iff append.assoc set_append)
    qed
  qed
next
  case (3 js account rest tagIds s)
  then show ?case by simp
qed

lemma incrementNoteCount_frame:
  "incrementNoteCount a s = (a', s') \<Longrightarrow>
   data_outside (acc_id a) s' = data_outside (acc_id a) s \<and> db_notes s' = db_notes s
   \<and> db_accounts s' = save acc_id (a\<lparr>acc_noteCount := acc_noteCount a + 1\<rparr>) (db_accounts s)"
  by (auto simp: incrementNoteCount_def Let_def data_outside_def intro!: filter_save_outside)

lemma decrementNoteCount_frame:
  "decrementNoteCount a s = (a', s') \<Longrightarrow>
   data_outside (acc_id a) s' = data_outside (acc_id a) s \<and> db_notes s' = db_notes s
   \<and> (db_accounts s' = db_accounts s \<or> (0 < acc_noteCount a
        \<and> db_accounts s' = save acc_id (a\<lparr>acc_noteCount := acc_noteCount a - 1\<rparr>) (db_accounts s)))"
  by (auto simp: decrementNoteCount_def Let_def data_outside_def split: if_splits
      intro!: filter_save_outside)

lemma process_tags_outside:
  assumes "process_tags js A ts ids s = (res, s')"
  shows "data_outside A s' = data_outside A s"
proof -
  from process_tags_frame [OF assms] obtain new where
    "db_accounts s' = db_accounts s" "db_notes s' = db_notes s" "db_users s' = db_users s"
    "db_roles s' = db_roles s" "db_subscriptions s' = db_subscriptions s"
    "db_payments s' = db_payments s" "db_tags s' = db_tags s @ new"
    "\<forall>t \<in> set new. tag_account t = A" by blast
  then show ?thesis by (simp add: data_outside_def)
qed

lemma createNote_frame:
  assumes c: "createNote js now body ctx s = (r, s')"
  shows "data_outside (acc_id (req_account ctx)) s' = data_outside (acc_id (req_account ctx)) s
     \<and> (\<forall>n \<in> set (db_notes s'). n \<notin> set (db_notes s) \<longrightarrow> note_account n = acc_id (req_account ctx))
     \<and> payload r = NoData"
proof (cases "truthy (cn_title body)")
  case False
  then show ?thesis using c by (auto simp: createNote_def sendError_def)
next
  case True
  obtain res s1 where p: "process_tags js (acc_id (req_account ctx)) (cn_tags body) [] s = (res, s1)"
    by (cases "process_tags js (acc_id (req_account ctx)) (cn_tags body) [] s")
  note o1 = process_tags_outside [OF p]
  have n1: "db_notes s1 = db_notes s" using process_tags_frame [OF p] by simp
  show ?thesis
  proof (cases res)
    case None
    then show ?thesis using c True p o1 n1 by (auto simp: createNote_def sendError_def)
  next
    case (Some tagIds)
    define nn where "nn = \<lparr>note_id = new_ObjectId (map note_id (db_notes s1)),
                       note_account = acc_id (req_account ctx),
                       note_user = usr_id (req_user ctx),
                       note_title = trim js (the (cn_title body)),
                       note_description =
                         (if truthy (cn_description body) then trim js (the (cn_description body)) else []),
                       note_tags = tagIds,
                       note_isDeleted = False,
                       note_createdAt = now\<rparr>"
    show ?thesis
    proof (cases "note_valid nn")
      case False
      then show ?thesis using c True p Some o1 n1
        by (auto simp: createNote_def sendError_def Let_def nn_def)
    next
      case v: True
      obtain a' s3 where i: "incrementNoteCount (req_account ctx) (s1\<lparr>db_notes := db_notes s1 @ [nn]\<rparr>) = (a', s3)"
        by (cases "incrementNoteCount (req_account ctx) (s1\<lparr>db_notes := db_notes s1 @ [nn]\<rparr>)")
      have e: "r = sendResponse 201 ''Note created successfully'' NoData" "s' = s3"
        using c True p Some v i by (simp_all add: createNote_def Let_def nn_def)
      have "data_outside (acc_id (req_account ctx)) (s1\<lparr>db_notes := db_notes s1 @ [nn]\<rparr>)
          = data_outside (acc_id (req_account ctx)) s1"
        by (simp add: data_outside_def nn_def)
      moreover note incrementNoteCount_frame [OF i]
      ultimately show ?thesis using e o1 n1 by (auto simp: sendResponse_def nn_def)
    qed
  qed
qed

lemma find_note_SomeD:
  "find_note i f s = Some n \<Longrightarrow>
   n \<in> set (db_notes s) \<and> note_id n = i \<and> matches_filter f n \<and> \<not> note_isDeleted n"
  unfolding find_note_def by (drule find_SomeD) simp

lemma find_note_foreign:
  assumes "distinct (map note_id (db_notes s))" "n0 \<in> set (db_notes s)" "note_id n0 = i"
    and "\<not> matches_filter f n0"
  shows "find_note i f s = None"
proof (cases "find_note i f s")
  case None
  then show ?thesis .
next
  case (Some n)
  from find_note_SomeD [OF Some] have "n \<in> set (db_notes s)" "note_id n = i" "matches_filter f n"
    by simp_all
  with assms have "n = n0" by (metis (mono_tags, lifting) distinct_map inj_on_def)
  with \<open>matches_filter f n\<close> assms(4) show ?thesis by simp
qed

lemma matches_account: "tf_account f = Some A \<Longrightarrow> matches_filter f n \<Longrightarrow> note_account n = A"
  by (simp add: matches_filter_def)

lemma matches_user: "tf_user f = Some u \<Longrightarrow> matches_filter f n \<Longrightarrow> note_user n = u"
  by (simp add: matches_filter_def)

lemma getNoteById_frame:
  assumes "getNoteById ident ctx s = (r, s')"
  shows "s' = s \<and> (\<forall>n. payload r = NoteData n \<longrightarrow>
      n \<in> set (db_notes s) \<and> matches_filter (tenantFilter_of ctx) n \<and> \<not> note_isDeleted n)
    \<and> (\<forall>ns p l t. payload r \<noteq> NotesPage ns p l t)"
  using assms
  by (auto simp: getNoteById_def sendError_def sendResponse_def
      split: id_param.splits option.splits dest: find_note_SomeD)

lemma set_paginate: "set (paginate skip lim xs) \<subseteq> set xs"
  by (auto simp: paginate_def Let_def dest: in_set_takeD in_set_dropD)

lemma set_order_notes: "set (order_notes sc search xs) = set xs"
  by (simp add: order_notes_def Let_def)

lemma in_page:
  "n \<in> set (paginate skip lim (order_notes sc search (filter Q xs))) \<Longrightarrow> n \<in> set xs \<and> Q n"
  using set_paginate [of skip lim "order_notes sc search (filter Q xs)"]
  by (auto simp: set_order_notes)

lemma notes_page_sound:
  "notes_page sc q (filter Q xs) = NotesPage ns p l t \<Longrightarrow> n \<in> set ns \<Longrightarrow> n \<in> set xs \<and> Q n"
  by (auto simp: notes_page_def dest: in_page)

lemma notes_page_not_note: "notes_page sc q found \<noteq> NoteData n"
  by (simp add: notes_page_def)

lemma getNotes_frame:
  assumes g: "getNotes js tm sc q ctx s = (r, s')"
  shows "s' = s \<and> (\<forall>ns p l t. payload r = NotesPage ns p l t \<longrightarrow>
      (\<forall>n \<in> set ns. n \<in> set (db_notes s) \<and> matches_filter (tenantFilter_of ctx) n \<and> \<not> note_isDeleted n))
    \<and> (\<forall>n. payload r \<noteq> NoteData n)"
  using g
  by (auto simp: getNotes_def sendError_def sendResponse_def Let_def notes_page_not_note
      notes_query_def split: if_splits dest!: notes_page_sound)

lemma getMyNotes_frame:
  assumes g: "getMyNotes js tm sc q ctx s = (r, s')"
  shows "s' = s \<and> (\<forall>ns p l t. payload r = NotesPage ns p l t \<longrightarrow>
      (\<forall>n \<in> set ns. n \<in> set (db_notes s) \<and> note_account n = acc_id (req_account ctx)
          \<and> note_user n = usr_id (req_user ctx) \<and> \<not> note_isDeleted n))
    \<and> (\<forall>n. payload r \<noteq> NoteData n)"
  using g
  by (auto simp: getMyNotes_def sendError_def sendResponse_def Let_def notes_page_not_note
      notes_query_def matches_filter_def split: if_splits dest!: notes_page_sound)

lemma update_fields_keys:
  "note_id (update_fields js body ids n) = note_id n"
  "note_account (update_fields js body ids n) = note_account n"
  "note_user (update_fields js body ids n) = note_user n"
  by (simp_all add: update_fields_def)

lemma save_updated_frame:
  assumes u: "save_updated n' s1 = (r, s')"
    and n: "n \<in> set (db_notes s1)" "note_id n' = note_id n" "note_account n' = A" "note_account n = A"
    and d: "distinct (map note_id (db_notes s1))"
  shows "data_outside A s' = data_outside A s1
     \<and> (\<forall>m \<in> set (db_notes s'). m \<notin> set (db_notes s1) \<longrightarrow> note_account m = A)
     \<and> (\<forall>m. payload r = NoteData m \<longrightarrow> note_account m = A)
     \<and> (\<forall>ns p l t. payload r \<noteq> NotesPage ns p l t)
     \<and> db_accounts s' = db_accounts s1"
proof (cases "note_valid n'")
  case False
  then show ?thesis using u by (auto simp: save_updated_def sendError_def)
next
  case True
  then have e: "r = sendResponse 200 ''Note updated successfully'' (NoteData n')"
      "s' = s1\<lparr>db_notes := save note_id n' (db_notes s1)\<rparr>"
    using u by (auto simp: save_updated_def)
  have f: "filter (\<lambda>m. note_account m \<noteq> A) (save note_id n' (db_notes s1))
      = filter (\<lambda>m. note_account m \<noteq> A) (db_notes s1)"
    by (rule filter_save_distinct [OF d n(1,2)]) (simp_all add: n)
  have "\<forall>m \<in> set (save note_id n' (db_notes s1)). m \<notin> set (db_notes s1) \<longrightarrow> note_account m = A"
    using set_save_subset [of note_id n' "db_notes s1"] n(3) by auto
  then show ?thesis unfolding e using f n(3)
    by (simp add: data_outside_def sendResponse_def)
qed

lemma updateNote_frame:
  assumes u: "updateNote js ident body ctx s = (r, s')"
    and tf: "tf_account (tenantFilter_of ctx) = Some (acc_id (req_account ctx))"
    and d: "distinct (map note_id (db_notes s))"
  shows "data_outside (acc_id (req_account ctx)) s' = data_outside (acc_id (req_account ctx)) s
     \<and> (\<forall>m \<in> set (db_notes s'). m \<notin> set (db_notes s) \<longrightarrow> note_account m = acc_id (req_account ctx))
     \<and> (\<forall>m. payload r = NoteData m \<longrightarrow> note_account m = acc_id (req_account ctx))
     \<and> (\<forall>ns p l t. payload r \<noteq> NotesPage ns p l t)
     \<and> db_accounts s' = db_accounts s"
proof (cases ident)
  case (Invalid_id str)
  then show ?thesis using u by (auto simp: updateNote_def sendError_def)
next
  case (Valid_id i)
  show ?thesis
  proof (cases "find_note i (tenantFilter_of ctx) s")
    case None
    then show ?thesis using u Valid_id by (auto simp: updateNote_def sendError_def)
  next
    case (Some n)
    note fn = find_note_SomeD [OF Some]
    have acc: "note_account n = acc_id (req_account ctx)"
      using fn tf by (auto dest: matches_account)
    consider (err) "req_user_role ctx = None \<or>
         (role_roleName (the (req_user_role ctx)) \<noteq> ADMIN \<and> note_user n \<noteq> usr_id (req_user ctx))
         \<or> (un_title body \<noteq> None \<and> trim js (the (un_title body)) = [])"
      | (go) "req_user_role ctx \<noteq> None"
          "role_roleName (the (req_user_role ctx)) = ADMIN \<or> note_user n = usr_id (req_user ctx)"
          "\<not> (un_title body \<noteq> None \<and> trim js (the (un_title body)) = [])"
      by blast
    then show ?thesis
    proof cases
      case err
      have "\<exists>m msg. updateNote js ident body ctx s = (sendError m msg, s)"
        using err Valid_id Some by (auto simp: updateNote_def Let_def)
      then show ?thesis using u by (auto simp: sendError_def)
    next
      case go
      obtain res s1 where p: "(case un_tags body of
                          None \<Rightarrow> (Some (note_tags n), s)
                        | Some tags \<Rightarrow> process_tags js (acc_id (req_account ctx)) tags [] s) = (res, s1)"
        by (cases "(case un_tags body of
                          None \<Rightarrow> (Some (note_tags n), s)
                        | Some tags \<Rightarrow> process_tags js (acc_id (req_account ctx)) tags [] s)")
      have e: "updateNote js ident body ctx s =
          (case res of None \<Rightarrow> (sendError 500 ''Failed to update note'', s1)
           | Some tagIds \<Rightarrow> save_updated (update_fields js body tagIds n) s1)"
        using go Valid_id Some p by (auto simp: updateNote_def Let_def)
      have s1: "data_outside (acc_id (req_account ctx)) s1 = data_outside (acc_id (req_account ctx)) s
          \<and> db_notes s1 = db_notes s \<and> db_accounts s1 = db_accounts s"
      proof (cases "un_tags body")
        case None
        then show ?thesis using p by simp
      next
        case (Some tags)
        then have pp: "process_tags js (acc_id (req_account ctx)) tags [] s = (res, s1)" using p by simp
        show ?thesis using process_tags_outside [OF pp] process_tags_frame [OF pp] by simp
      qed
      show ?thesis
      proof (cases res)
        case None
        then show ?thesis using u e s1 by (auto simp: sendError_def)
      next
        case (Some tagIds)
        then have su: "save_updated (update_fields js body tagIds n) s1 = (r, s')" using u e by simp
        have "n \<in> set (db_notes s1)" "distinct (map note_id (db_notes s1))"
          using fn d s1 by simp_all
        from save_updated_frame [OF su this(1) _ _ acc this(2)] s1 acc
        show ?thesis by (simp add: update_fields_keys)
      qed
    qed
  qed
qed

lemma deleteNote_frame:
  assumes u: "deleteNote ident ctx s = (r, s')"
    and tf: "tf_account (tenantFilter_of ctx) = Some (acc_id (req_account ctx))"
    and d: "distinct (map note_id (db_notes s))"
  shows "data_outside (acc_id (req_account ctx)) s' = data_outside (acc_id (req_account ctx)) s
     \<and> (\<forall>m \<in> set (db_notes s'). m \<notin> set (db_notes s) \<longrightarrow> note_account m = acc_id (req_account ctx))
     \<and> payload r = NoData
     \<and> (db_accounts s' = db_accounts s \<or> (0 < acc_noteCount (req_account ctx)
          \<and> db_accounts s' = save acc_id
               ((req_account ctx)\<lparr>acc_noteCount := acc_noteCount (req_account ctx) - 1\<rparr>)
               (db_accounts s)))"
proof (cases ident)
  case (Invalid_id str)
  then show ?thesis using u by (auto simp: deleteNote_def sendError_def)
next
  case (Valid_id i)
  show ?thesis
  proof (cases "find_note i (tenantFilter_of ctx) s")
    case None
    then show ?thesis using u Valid_id by (auto simp: deleteNote_def sendError_def)
  next
    case (Some n)
    note fn = find_note_SomeD [OF Some]
    have acc: "note_account n = acc_id (req_account ctx)"
      using fn tf by (auto dest: matches_account)
    consider (err) "req_user_role ctx = None \<or>
         (role_roleName (the (req_user_role ctx)) \<noteq> ADMIN \<and> note_user n \<noteq> usr_id (req_user ctx))"
      | (go) "req_user_role ctx \<noteq> None"
          "role_roleName (the (req_user_role ctx)) = ADMIN \<or> note_user n = usr_id (req_user ctx)"
      by blast
    then show ?thesis
    proof cases
      case err
      have "\<exists>m msg. deleteNote ident ctx s = (sendError m msg, s)"
        using err Valid_id Some by (auto simp: deleteNote_def Let_def)
      then show ?thesis using u by (auto simp: sendError_def)
    next
      case go
      define s1 where "s1 = s\<lparr>db_notes := save note_id (n\<lparr>note_isDeleted := True\<rparr>) (db_notes s)\<rparr>"
      obtain a' s2 where dc: "decrementNoteCount (req_account ctx) s1 = (a', s2)"
        by (cases "decrementNoteCount (req_account ctx) s1")
      have e: "r = sendResponse 200 ''Note deleted successfully'' NoData" "s' = s2"
        using u go Valid_id Some dc by (auto simp: deleteNote_def Let_def s1_def)
      have f: "filter (\<lambda>m. note_account m \<noteq> acc_id (req_account ctx))
            (save note_id (n\<lparr>note_isDeleted := True\<rparr>) (db_notes s))
          = filter (\<lambda>m. note_account m \<noteq> acc_id (req_account ctx)) (db_notes s)"
        by (rule filter_save_distinct [OF d, of n]) (simp_all add: fn acc)
      have o1: "data_outside (acc_id (req_account ctx)) s1 = data_outside (acc_id (req_account ctx)) s"
        using f by (simp add: data_outside_def s1_def)
      have w: "\<forall>m \<in> set (db_notes s1). m \<notin> set (db_notes s) \<longrightarrow> note_account m = acc_id (req_account ctx)"
        using set_save_subset [of note_id "n\<lparr>note_isDeleted := True\<rparr>" "db_notes s"] acc
        by (auto simp: s1_def)
      have a1: "db_accounts s1 = db_accounts s" by (simp add: s1_def)
      from decrementNoteCount_frame [OF dc] o1 w a1 show ?thesis
        unfolding e by (auto simp: sendResponse_def)
    qed
  qed
qed

lemma notes_prelude_ctx:
  assumes p: "notes_prelude sign secret now hdrs s = Inr ctx"
  shows "\<exists>ctx0. authenticate sign secret now hdrs s = Inr ctx0
     \<and> ctx = ctx0\<lparr>req_tenantFilter := Some \<lparr>tf_account = Some (acc_id (req_account ctx0)), tf_user = None\<rparr>\<rparr>"
proof (cases "authenticate sign secret now hdrs s")
  case (Inl r)
  then show ?thesis using p by (simp add: notes_prelude_def)
next
  case (Inr ctx0)
  then have "checkAccountStatus (Some (ctx0\<lparr>req_tenantFilter :=
      Some \<lparr>tf_account = Some (acc_id (req_account ctx0)), tf_user = None\<rparr>\<rparr>)) = Inr ctx"
    using p by (simp add: notes_prelude_def ensureTenantIsolation_def)
  then have "ctx = ctx0\<lparr>req_tenantFilter :=
      Some \<lparr>tf_account = Some (acc_id (req_account ctx0)), tf_user = None\<rparr>\<rparr>"
    by (auto simp: checkAccountStatus_def Let_def split: if_splits)
  then show ?thesis using Inr by simp
qed

lemma notes_prelude_facts:
  assumes p: "notes_prelude sign secret now hdrs s = Inr ctx"
  shows "findById acc_id (usr_account (req_user ctx)) (db_accounts s) = Some (req_account ctx)"
    and "req_tenantFilter ctx = Some \<lparr>tf_account = Some (acc_id (req_account ctx)), tf_user = None\<rparr>"
    and "req_account ctx \<in> set (db_accounts s)"
    and "acc_id (req_account ctx) = usr_account (req_user ctx)"
proof -
  from notes_prelude_ctx [OF p] obtain ctx0 where
    a: "authenticate sign secret now hdrs s = Inr ctx0" and
    c: "ctx = ctx0\<lparr>req_tenantFilter := Some \<lparr>tf_account = Some (acc_id (req_account ctx0)), tf_user = None\<rparr>\<rparr>"
    by blast
  note f = authenticate_ctx [OF a]
  show 1: "findById acc_id (usr_account (req_user ctx)) (db_accounts s) = Some (req_account ctx)"
    using f c by simp
  show "req_tenantFilter ctx = Some \<lparr>tf_account = Some (acc_id (req_account ctx)), tf_user = None\<rparr>"
    using c by simp
  show "req_account ctx \<in> set (db_accounts s)" "acc_id (req_account ctx) = usr_account (req_user ctx)"
    using findById_SomeD [OF 1] by simp_all
qed

lemma requireMember_cases:
  "requireMember (Some ctx) = Inr ctx' \<Longrightarrow> ctx' = ctx \<and> req_user_role ctx \<noteq> None"
  "requireMember (Some ctx) = Inl r \<Longrightarrow> payload r = NoData \<and> (status r = 401 \<or>
      r = sendError 403 ''Access denied - member access required'')"
  by (auto simp: requireMember_def sendError_def split: option.splits if_splits)

lemma requireOwnershipOrAdmin_Inr:
  assumes "requireOwnershipOrAdmin (Some ctx) = Inr ctx'"
  shows "req_account ctx' = req_account ctx \<and> req_user ctx' = req_user ctx
     \<and> req_user_role ctx' = req_user_role ctx \<and> req_user_role ctx \<noteq> None
     \<and> tf_account (tenantFilter_of ctx') = tf_account (tenantFilter_of ctx)
     \<and> (role_roleName (the (req_user_role ctx)) \<noteq> ADMIN \<longrightarrow>
          tf_user (tenantFilter_of ctx') = Some (usr_id (req_user ctx)))"
proof (cases "req_user_role ctx")
  case None
  then show ?thesis using assms by (simp add: requireOwnershipOrAdmin_def)
next
  case (Some r)
  show ?thesis
  proof (cases "role_roleName r = ADMIN")
    case True
    then have "ctx' = ctx" using assms Some by (simp add: requireOwnershipOrAdmin_def)
    then show ?thesis using Some True by simp
  next
    case False
    then have "ctx' = ctx\<lparr>req_tenantFilter :=
        Some ((tenantFilter_of ctx)\<lparr>tf_user := Some (usr_id (req_user ctx))\<rparr>)\<rparr>"
      using assms Some by (simp add: requireOwnershipOrAdmin_def tenantFilter_of_def Let_def)
    then show ?thesis using Some by (simp add: tenantFilter_of_def)
  qed
qed

lemma requireOwnershipOrAdmin_Inl:
  "requireOwnershipOrAdmin (Some ctx) = Inl r \<Longrightarrow> payload r = NoData \<and> status r = 401"
  by (auto simp: requireOwnershipOrAdmin_def sendError_def Let_def split: option.splits if_splits)

lemma checkNoteLimit_Inl:
  "checkNoteLimit a = Inl r \<Longrightarrow> payload r = NoData"
  by (auto simp: checkNoteLimit_def sendError_def split: option.splits if_splits)

lemma notes_prelude_Inl:
  "notes_prelude sign secret now hdrs s = Inl r \<Longrightarrow> payload r = NoData"
  by (auto simp: notes_prelude_def ensureTenantIsolation_def checkAccountStatus_def Let_def
      sendError_def split: sum.splits if_splits dest: authenticate_Inl)

section \<open>The notes router\<close>

lemma authenticate_prelude:
  assumes a: "authenticate sign secret now hdrs s = Inr ctx"
  shows "notes_prelude sign secret now hdrs s =
     Inr (ctx\<lparr>req_tenantFilter := Some \<lparr>tf_account = Some (acc_id (req_account ctx)), tf_user = None\<rparr>\<rparr>)"
  using authenticate_ctx [OF a] a
  by (simp add: notes_prelude_def ensureTenantIsolation_def checkAccountStatus_def Let_def)

lemma notes_router_frame:
  assumes p: "notes_prelude sign secret now hdrs s = Inr ctx"
    and d: "distinct (map note_id (db_notes s))"
    and run: "notes_router js sign secret tm sc now hdrs request s = (r, s')"
  shows "(\<forall>ns p l t. payload r = NotesPage ns p l t \<longrightarrow>
            (\<forall>n \<in> set ns. n \<in> set (db_notes s) \<and> note_account n = acc_id (req_account ctx)))
     \<and> (\<forall>n. payload r = NoteData n \<longrightarrow> note_account n = acc_id (req_account ctx))
     \<and> (\<forall>n \<in> set (db_notes s'). n \<notin> set (db_notes s) \<longrightarrow> note_account n = acc_id (req_account ctx))
     \<and> data_outside (acc_id (req_account ctx)) s' = data_outside (acc_id (req_account ctx)) s"
proof -
  note pf = notes_prelude_facts [OF p]
  have tf: "tf_account (tenantFilter_of ctx) = Some (acc_id (req_account ctx))"
    using pf(2) by (simp add: tenantFilter_of_def)
  show ?thesis
  proof (cases "requireMember (Some ctx)")
    case (Inl e)
    then have "r = e" "s' = s" using run p by (simp_all add: notes_router_def)
    then show ?thesis using requireMember_cases(2) [OF Inl] by simp
  next
    case (Inr c)
    then have c: "c = ctx" using requireMember_cases(1) by blast
    show ?thesis
    proof (cases request)
      case (POST_note body)
      show ?thesis
      proof (cases "checkNoteLimit (Some (req_account ctx))")
        case (Inl e)
        then have "r = e" "s' = s" using run p Inr c POST_note by (simp_all add: notes_router_def)
        then show ?thesis using checkNoteLimit_Inl [OF Inl] by simp
      next
        case (Inr u)
        then have "createNote js now body ctx s = (r, s')"
          using run p \<open>requireMember (Some ctx) = Inr c\<close> c POST_note by (simp add: notes_router_def)
        from createNote_frame [OF this] show ?thesis by simp
      qed
    next
      case (GET_notes q)
      then have "getNotes js tm sc q ctx s = (r, s')"
        using run p Inr c by (simp add: notes_router_def)
      from getNotes_frame [OF this] tf show ?thesis by (auto simp: matches_filter_def)
    next
      case (GET_my_notes q)
      then have "getMyNotes js tm sc q ctx s = (r, s')"
        using run p Inr c by (simp add: notes_router_def)
      from getMyNotes_frame [OF this] show ?thesis by auto
    next
      case (GET_note ident)
      show ?thesis
      proof (cases "requireOwnershipOrAdmin (Some ctx)")
        case (Inl e)
        then have "r = e" "s' = s" using run p Inr c GET_note by (simp_all add: notes_router_def)
        then show ?thesis using requireOwnershipOrAdmin_Inl [OF Inl] by simp
      next
        case (Inr ctx')
        note o = requireOwnershipOrAdmin_Inr [OF Inr]
        have "getNoteById ident ctx' s = (r, s')"
          using run p \<open>requireMember (Some ctx) = Inr c\<close> c GET_note Inr by (simp add: notes_router_def)
        from getNoteById_frame [OF this] tf o show ?thesis by (auto simp: matches_filter_def)
      qed
    next
      case (PUT_note ident body)
      show ?thesis
      proof (cases "requireOwnershipOrAdmin (Some ctx)")
        case (Inl e)
        then have "r = e" "s' = s" using run p Inr c PUT_note by (simp_all add: notes_router_def)
        then show ?thesis using requireOwnershipOrAdmin_Inl [OF Inl] by simp
      next
        case (Inr ctx')
        note o = requireOwnershipOrAdmin_Inr [OF Inr]
        have tf': "tf_account (tenantFilter_of ctx') = Some (acc_id (req_account ctx'))"
          using tf o by simp
        have "updateNote js ident body ctx' s = (r, s')"
          using run p \<open>requireMember (Some ctx) = Inr c\<close> c PUT_note Inr by (simp add: notes_router_def)
        from updateNote_frame [OF this tf' d] o show ?thesis by simp
      qed
    next
      case (DELETE_note ident)
      show ?thesis
      proof (cases "requireOwnershipOrAdmin (Some ctx)")
        case (Inl e)
        then have "r = e" "s' = s" using run p Inr c DELETE_note by (simp_all add: notes_router_def)
        then show ?thesis using requireOwnershipOrAdmin_Inl [OF Inl] by simp
      next
        case (Inr ctx')
        note o = requireOwnershipOrAdmin_Inr [OF Inr]
        have tf': "tf_account (tenantFilter_of ctx') = Some (acc_id (req_account ctx'))"
          using tf o by simp
        have "deleteNote ident ctx' s = (r, s')"
          using run p \<open>requireMember (Some ctx) = Inr c\<close> c DELETE_note Inr by (simp add: notes_router_def)
        from deleteNote_frame [OF this tf' d] o show ?thesis by simp
      qed
    qed
  qed
qed

lemma requireMember_Some:
  "req_user_role ctx = Some rl \<Longrightarrow> requireMember (Some ctx) = Inr ctx"
  by (cases "role_roleName rl") (simp_all add: requireMember_def)

lemma requireOwnershipOrAdmin_Some:
  "req_user_role ctx = Some rl \<Longrightarrow> \<exists>ctx'. requireOwnershipOrAdmin (Some ctx) = Inr ctx'"
  by (simp add: requireOwnershipOrAdmin_def Let_def)

lemma by_id_not_found:
  assumes p: "notes_prelude sign secret now hdrs s = Inr ctx"
    and role: "req_user_role ctx = Some rl"
    and d: "distinct (map note_id (db_notes s))"
    and n0: "n0 \<in> set (db_notes s)" "note_id n0 = i"
    and rq: "requested_id request = Some i"
    and foreign: "note_account n0 \<noteq> acc_id (req_account ctx)
        \<or> (role_roleName rl \<noteq> ADMIN \<and> note_user n0 \<noteq> usr_id (req_user ctx))"
  shows "notes_router js sign secret tm sc now hdrs request s = (sendError 404 ''Note not found'', s)"
proof -
  note pf = notes_prelude_facts [OF p]
  have tf: "tf_account (tenantFilter_of ctx) = Some (acc_id (req_account ctx))"
    using pf(2) by (simp add: tenantFilter_of_def)
  have m: "requireMember (Some ctx) = Inr ctx" using requireMember_Some [OF role] .
  obtain ctx' where o: "requireOwnershipOrAdmin (Some ctx) = Inr ctx'"
    using requireOwnershipOrAdmin_Some [OF role] by blast
  note oo = requireOwnershipOrAdmin_Inr [OF o]
  have "\<not> matches_filter (tenantFilter_of ctx') n0"
    using foreign oo tf role by (auto simp: matches_filter_def)
  from find_note_foreign [OF d n0 this] have fn: "find_note i (tenantFilter_of ctx') s = None" .
  show ?thesis
  proof (cases request)
    case (GET_note ident)
    then have "ident = Valid_id i" using rq by (cases ident) (simp_all add: requested_id_def)
    then show ?thesis using GET_note p m o fn by (simp add: notes_router_def getNoteById_def)
  next
    case (PUT_note ident body)
    then have "ident = Valid_id i" using rq by (cases ident) (simp_all add: requested_id_def)
    then show ?thesis using PUT_note p m o fn by (simp add: notes_router_def updateNote_def)
  next
    case (DELETE_note ident)
    then have "ident = Valid_id i" using rq by (cases ident) (simp_all add: requested_id_def)
    then show ?thesis using DELETE_note p m o fn by (simp add: notes_router_def deleteNote_def)
  qed (use rq in \<open>simp_all add: requested_id_def\<close>)
qed

lemma save_updated_status: "status (fst (save_updated n s)) \<in> {500, 200}"
  by (simp add: save_updated_def sendError_def sendResponse_def)

lemma updateNote_status:
  assumes role: "req_user_role ctx \<noteq> None"
    and own: "role_roleName (the (req_user_role ctx)) \<noteq> ADMIN \<longrightarrow>
        tf_user (tenantFilter_of ctx) = Some (usr_id (req_user ctx))"
  shows "status (fst (updateNote js ident body ctx s)) \<in> {400, 404, 500, 200}"
proof (cases ident)
  case (Invalid_id str)
  then show ?thesis by (simp add: updateNote_def sendError_def)
next
  case (Valid_id i)
  show ?thesis
  proof (cases "find_note i (tenantFilter_of ctx) s")
    case None
    then show ?thesis using Valid_id by (simp add: updateNote_def sendError_def)
  next
    case (Some n)
    note fn = find_note_SomeD [OF Some]
    have no403: "\<not> (role_roleName (the (req_user_role ctx)) \<noteq> ADMIN \<and> note_user n \<noteq> usr_id (req_user ctx))"
      using own fn by (auto simp: matches_filter_def)
    show ?thesis
    proof (cases "un_title body \<noteq> None \<and> trim js (the (un_title body)) = []")
      case True
      then show ?thesis using Valid_id Some role no403
        by (auto simp: updateNote_def Let_def sendError_def)
    next
      case False
      obtain res s1 where p: "(case un_tags body of
                          None \<Rightarrow> (Some (note_tags n), s)
                        | Some tags \<Rightarrow> process_tags js (acc_id (req_account ctx)) tags [] s) = (res, s1)"
        by (cases "(case un_tags body of
                          None \<Rightarrow> (Some (note_tags n), s)
                        | Some tags \<Rightarrow> process_tags js (acc_id (req_account ctx)) tags [] s)")
      have e: "updateNote js ident body ctx s =
          (case res of None \<Rightarrow> (sendError 500 ''Failed to update note'', s1)
           | Some tagIds \<Rightarrow> save_updated (update_fields js body tagIds n) s1)"
        using False Valid_id Some p role no403 by (auto simp: updateNote_def Let_def)
      show ?thesis
        unfolding e using save_updated_status by (cases res) (simp_all add: sendError_def)
    qed
  qed
qed

lemma deleteNote_status:
  assumes role: "req_user_role ctx \<noteq> None"
    and own: "role_roleName (the (req_user_role ctx)) \<noteq> ADMIN \<longrightarrow>
        tf_user (tenantFilter_of ctx) = Some (usr_id (req_user ctx))"
  shows "status (fst (deleteNote ident ctx s)) \<in> {400, 404, 200}"
proof (cases ident)
  case (Invalid_id str)
  then show ?thesis by (simp add: deleteNote_def sendError_def)
next
  case (Valid_id i)
  show ?thesis
  proof (cases "find_note i (tenantFilter_of ctx) s")
    case None
    then show ?thesis using Valid_id by (simp add: deleteNote_def sendError_def)
  next
    case (Some n)
    note fn = find_note_SomeD [OF Some]
    have no403: "\<not> (role_roleName (the (req_user_role ctx)) \<noteq> ADMIN \<and> note_user n \<noteq> usr_id (req_user ctx))"
      using own fn by (auto simp: matches_filter_def)
    show ?thesis using Valid_id Some role no403
      by (auto simp: deleteNote_def Let_def sendResponse_def split: prod.splits)
  qed
qed

lemma createNote_status: "status (fst (createNote js now body ctx s)) \<in> {400, 500, 201}"
  by (auto simp: createNote_def Let_def sendError_def sendResponse_def split: prod.splits option.splits)

lemma getNotes_status: "status (fst (getNotes js tm sc q ctx s)) \<in> {500, 200}"
  by (simp add: getNotes_def Let_def sendError_def sendResponse_def)

lemma getMyNotes_status: "status (fst (getMyNotes js tm sc q ctx s)) \<in> {500, 200}"
  by (simp add: getMyNotes_def Let_def sendError_def sendResponse_def)

lemma getNoteById_status: "status (fst (getNoteById ident ctx s)) \<in> {400, 404, 200}"
  by (simp add: getNoteById_def sendError_def sendResponse_def split: id_param.splits option.splits)

lemma notes_prelude_Inl_kind:
  "notes_prelude sign secret now hdrs s = Inl r \<Longrightarrow>
   status r = 401 \<or> r = sendError 403 ''Account is suspended''
     \<or> r = sendError 403 ''Account has been deleted''"
  by (auto simp: notes_prelude_def ensureTenantIsolation_def checkAccountStatus_def Let_def
      split: sum.splits if_splits dest: authenticate_Inl)

lemma checkNoteLimit_Inl_kind:
  "checkNoteLimit a = Inl r \<Longrightarrow> status r \<noteq> 403 \<or> (\<forall>m. message r \<noteq> Msg m)"
  by (auto simp: checkNoteLimit_def sendError_def split: option.splits if_splits)

lemma not_ownership_by_status:
  "status r \<noteq> 403 \<Longrightarrow> r \<noteq> own_update_403 \<and> r \<noteq> own_delete_403"
  by (auto simp: own_update_403_def own_delete_403_def sendError_def)

lemma not_ownership_by_message:
  "\<forall>m. message r \<noteq> Msg m \<Longrightarrow> r \<noteq> own_update_403 \<and> r \<noteq> own_delete_403"
  by (auto simp: own_update_403_def own_delete_403_def sendError_def)

lemma not_ownership_other:
  "sendError 403 ''Account is suspended'' \<noteq> own_update_403"
  "sendError 403 ''Account is suspended'' \<noteq> own_delete_403"
  "sendError 403 ''Account has been deleted'' \<noteq> own_update_403"
  "sendError 403 ''Account has been deleted'' \<noteq> own_delete_403"
  "sendError 403 ''Access denied - member access required'' \<noteq> own_update_403"
  "sendError 403 ''Access denied - member access required'' \<noteq> own_delete_403"
  by (simp_all add: own_update_403_def own_delete_403_def sendError_def)

lemma notes_router_never_ownership_403:
  "fst (notes_router js sign secret tm sc now hdrs request s) \<noteq> own_update_403
   \<and> fst (notes_router js sign secret tm sc now hdrs request s) \<noteq> own_delete_403"
proof (cases "notes_prelude sign secret now hdrs s")
  case (Inl r)
  then have "fst (notes_router js sign secret tm sc now hdrs request s) = r"
    by (simp add: notes_router_def)
  then show ?thesis
    using notes_prelude_Inl_kind [OF Inl] not_ownership_by_status [of r] not_ownership_other
    by auto
next
  case (Inr ctx)
  show ?thesis
  proof (cases "requireMember (Some ctx)")
    case (Inl r)
    then have "fst (notes_router js sign secret tm sc now hdrs request s) = r"
      using Inr by (simp add: notes_router_def)
    then show ?thesis
      using requireMember_cases(2) [OF Inl] not_ownership_by_status [of r] not_ownership_other
      by auto
  next
    case m: (Inr c)
    then have c: "c = ctx" using requireMember_cases(1) by blast
    have st: "status (fst (notes_router js sign secret tm sc now hdrs request s)) \<noteq> 403
        \<or> (\<forall>m. message (fst (notes_router js sign secret tm sc now hdrs request s)) \<noteq> Msg m)"
    proof (cases request)
      case (POST_note body)
      show ?thesis
      proof (cases "checkNoteLimit (Some (req_account ctx))")
        case (Inl r)
        then have "fst (notes_router js sign secret tm sc now hdrs request s) = r"
          using Inr m c POST_note by (simp add: notes_router_def)
        then show ?thesis using checkNoteLimit_Inl_kind [OF Inl] by simp
      next
        case (Inr u)
        then have "notes_router js sign secret tm sc now hdrs request s = createNote js now body ctx s"
          using \<open>notes_prelude sign secret now hdrs s = Inr ctx\<close> m c POST_note
          by (simp add: notes_router_def)
        then show ?thesis using createNote_status [of js now body ctx s] by auto
      qed
    next
      case (GET_notes q)
      then have "notes_router js sign secret tm sc now hdrs request s = getNotes js tm sc q ctx s"
        using Inr m c by (simp add: notes_router_def)
      then show ?thesis using getNotes_status [of js tm sc q ctx s] by auto
    next
      case (GET_my_notes q)
      then have "notes_router js sign secret tm sc now hdrs request s = getMyNotes js tm sc q ctx s"
        using Inr m c by (simp add: notes_router_def)
      then show ?thesis using getMyNotes_status [of js tm sc q ctx s] by auto
    next
      case (GET_note ident)
      show ?thesis
      proof (cases "requireOwnershipOrAdmin (Some ctx)")
        case (Inl r)
        then have "fst (notes_router js sign secret tm sc now hdrs request s) = r"
          using Inr m c GET_note by (simp add: notes_router_def)
        then show ?thesis using requireOwnershipOrAdmin_Inl [OF Inl] by simp
      next
        case o: (Inr ctx')
        then have "notes_router js sign secret tm sc now hdrs request s = getNoteById ident ctx' s"
          using Inr m c GET_note by (simp add: notes_router_def)
        then show ?thesis using getNoteById_status [of ident ctx' s] by auto
      qed
    next
      case (PUT_note ident body)
      show ?thesis
      proof (cases "requireOwnershipOrAdmin (Some ctx)")
        case (Inl r)
        then have "fst (notes_router js sign secret tm sc now hdrs request s) = r"
          using Inr m c PUT_note by (simp add: notes_router_def)
        then show ?thesis using requireOwnershipOrAdmin_Inl [OF Inl] by simp
      next
        case o: (Inr ctx')
        note oo = requireOwnershipOrAdmin_Inr [OF o]
        have "notes_router js sign secret tm sc now hdrs request s = updateNote js ident body ctx' s"
          using Inr m c PUT_note o by (simp add: notes_router_def)
        moreover have "status (fst (updateNote js ident body ctx' s)) \<in> {400, 404, 500, 200}"
          by (rule updateNote_status) (use oo in simp_all)
        ultimately show ?thesis by auto
      qed
    next
      case (DELETE_note ident)
      show ?thesis
      proof (cases "requireOwnershipOrAdmin (Some ctx)")
        case (Inl r)
        then have "fst (notes_router js sign secret tm sc now hdrs request s) = r"
          using Inr m c DELETE_note by (simp add: notes_router_def)
        then show ?thesis using requireOwnershipOrAdmin_Inl [OF Inl] by simp
      next
        case o: (Inr ctx')
        note oo = requireOwnershipOrAdmin_Inr [OF o]
        have "notes_router js sign secret tm sc now hdrs request s = deleteNote ident ctx' s"
          using Inr m c DELETE_note o by (simp add: notes_router_def)
        moreover have "status (fst (deleteNote ident ctx' s)) \<in> {400, 404, 200}"
          by (rule deleteNote_status) (use oo in simp_all)
        ultimately show ?thesis by auto
      qed
    qed
    then show ?thesis
      using not_ownership_by_status not_ownership_by_message by blast
  qed
qed

lemma createNote_accounts:
  assumes c: "createNote js now body ctx s = (r, s')"
  shows "db_accounts s' = db_accounts s
     \<or> db_accounts s' = save acc_id
          ((req_account ctx)\<lparr>acc_noteCount := acc_noteCount (req_account ctx) + 1\<rparr>) (db_accounts s)"
proof (cases "truthy (cn_title body)")
  case False
  then show ?thesis using c by (auto simp: createNote_def)
next
  case True
  obtain res s1 where p: "process_tags js (acc_id (req_account ctx)) (cn_tags body) [] s = (res, s1)"
    by (cases "process_tags js (acc_id (req_account ctx)) (cn_tags body) [] s")
  have a1: "db_accounts s1 = db_accounts s" using process_tags_frame [OF p] by simp
  show ?thesis
  proof (cases res)
    case None
    then show ?thesis using c True p a1 by (auto simp: createNote_def)
  next
    case (Some tagIds)
    then show ?thesis using c True p a1
      by (auto simp: createNote_def Let_def incrementNoteCount_def split: if_splits)
  qed
qed

lemma counts_nonneg_save:
  "counts_nonneg s \<Longrightarrow> 0 \<le> acc_noteCount a' \<Longrightarrow> db_accounts s' = save acc_id a' (db_accounts s)
   \<Longrightarrow> counts_nonneg s'"
  using set_save_subset [of acc_id a' "db_accounts s"] by (auto simp: counts_nonneg_def)

lemma counts_nonneg_same:
  "counts_nonneg s \<Longrightarrow> db_accounts s' = db_accounts s \<Longrightarrow> counts_nonneg s'"
  by (simp add: counts_nonneg_def)

lemma notes_router_counts:
  assumes inv: "counts_nonneg s"
  shows "counts_nonneg (snd (notes_router js sign secret tm sc now hdrs request s))"
proof (cases "notes_prelude sign secret now hdrs s")
  case (Inl r)
  then show ?thesis using inv by (simp add: notes_router_def)
next
  case (Inr ctx)
  note pf = notes_prelude_facts [OF Inr]
  have nn: "0 \<le> acc_noteCount (req_account ctx)"
    using pf(3) inv by (simp add: counts_nonneg_def)
  show ?thesis
  proof (cases "requireMember (Some ctx)")
    case (Inl r)
    then show ?thesis using inv Inr by (simp add: notes_router_def)
  next
    case m: (Inr c)
    then have c: "c = ctx" using requireMember_cases(1) by blast
    show ?thesis
    proof (cases request)
      case (POST_note body)
      show ?thesis
      proof (cases "checkNoteLimit (Some (req_account ctx))")
        case (Inl r)
        then show ?thesis using inv Inr m c POST_note by (simp add: notes_router_def)
      next
        case (Inr u)
        then have e: "notes_router js sign secret tm sc now hdrs request s = createNote js now body ctx s"
          using \<open>notes_prelude sign secret now hdrs s = Inr ctx\<close> m c POST_note
          by (simp add: notes_router_def)
        obtain r s' where cr: "createNote js now body ctx s = (r, s')"
          by (cases "createNote js now body ctx s")
        from createNote_accounts [OF cr] show ?thesis
          unfolding e cr using inv nn
          by (auto intro: counts_nonneg_same counts_nonneg_save
              [of s "(req_account ctx)\<lparr>acc_noteCount := acc_noteCount (req_account ctx) + 1\<rparr>"])
      qed
    next
      case (GET_notes q)
      then have e: "notes_router js sign secret tm sc now hdrs request s = getNotes js tm sc q ctx s"
        using Inr m c by (simp add: notes_router_def)
      obtain r s' where g: "getNotes js tm sc q ctx s = (r, s')" by (cases "getNotes js tm sc q ctx s")
      from getNotes_frame [OF g] show ?thesis unfolding e g using inv by simp
    next
      case (GET_my_notes q)
      then have e: "notes_router js sign secret tm sc now hdrs request s = getMyNotes js tm sc q ctx s"
        using Inr m c by (simp add: notes_router_def)
      obtain r s' where g: "getMyNotes js tm sc q ctx s = (r, s')" by (cases "getMyNotes js tm sc q ctx s")
      from getMyNotes_frame [OF g] show ?thesis unfolding e g using inv by simp
    next
      case (GET_note ident)
      show ?thesis
      proof (cases "requireOwnershipOrAdmin (Some ctx)")
        case (Inl r)
        then show ?thesis using inv Inr m c GET_note by (simp add: notes_router_def)
      next
        case o: (Inr ctx')
        then have e: "notes_router js sign secret tm sc now hdrs request s = getNoteById ident ctx' s"
          using Inr m c GET_note by (simp add: notes_router_def)
        obtain r s' where g: "getNoteById ident ctx' s = (r, s')" by (cases "getNoteById ident ctx' s")
        from getNoteById_frame [OF g] show ?thesis unfolding e g using inv by simp
      qed
    next
      case (PUT_note ident body)
      show ?thesis
      proof (cases "requireOwnershipOrAdmin (Some ctx)")
        case (Inl r)
        then show ?thesis using inv Inr m c PUT_note by (simp add: notes_router_def)
      next
        case o: (Inr ctx')
        then have e: "notes_router js sign secret tm sc now hdrs request s = updateNote js ident body ctx' s"
          using Inr m c PUT_note by (simp add: notes_router_def)
        have "db_accounts (snd (updateNote js ident body ctx' s)) = db_accounts s"
          by (auto simp: updateNote_def Let_def save_updated_def
              split: id_param.splits option.splits prod.splits dest: process_tags_frame)
        then show ?thesis unfolding e using inv by (rule counts_nonneg_same [rotated])
      qed
    next
      case (DELETE_note ident)
      show ?thesis
      proof (cases "requireOwnershipOrAdmin (Some ctx)")
        case (Inl r)
        then show ?thesis using inv Inr m c DELETE_note by (simp add: notes_router_def)
      next
        case o: (Inr ctx')
        note oo = requireOwnershipOrAdmin_Inr [OF o]
        have e: "notes_router js sign secret tm sc now hdrs request s = deleteNote ident ctx' s"
          using Inr m c DELETE_note o by (simp add: notes_router_def)
        have "db_accounts (snd (deleteNote ident ctx' s)) = db_accounts s
           \<or> (0 < acc_noteCount (req_account ctx') \<and>
               db_accounts (snd (deleteNote ident ctx' s)) = save acc_id
                 ((req_account ctx')\<lparr>acc_noteCount := acc_noteCount (req_account ctx') - 1\<rparr>)
                 (db_accounts s))"
          by (auto simp: deleteNote_def Let_def decrementNoteCount_def
              split: id_param.splits option.splits)
        then show ?thesis
          unfolding e using inv
          by (auto intro: counts_nonneg_same counts_nonneg_save
              [of s "(req_account ctx')\<lparr>acc_noteCount := acc_noteCount (req_account ctx') - 1\<rparr>"])
      qed
    qed
  qed
qed

lemma notes_requests_counts:
  "counts_nonneg s \<Longrightarrow> counts_nonneg (notes_requests js sign secret tm sc reqs s)"
proof (induction reqs arbitrary: s)
  case Nil
  then show ?case by simp
next
  case (Cons x reqs)
  obtain now hdrs request where x: "x = (now, hdrs, request)" by (cases x)
  show ?case unfolding x
    using Cons.IH [OF notes_router_counts [OF Cons.prems]] by simp
qed

section \<open>Tenant isolation, ownership and the note count\<close>

text \<open>
  Claim C4. A request to a notes route carries a token that \<open>authenticate\<close> accepts for a
  user of account \<open>A\<close>; note ids are unique in the store. Then every note in a returned
  page is a stored note of \<open>A\<close>, a returned single note belongs to \<open>A\<close>, every note
  document the request writes belongs to \<open>A\<close>, and the documents of all other accounts
  (accounts, roles, users, notes, tags, subscriptions, payments) are unchanged. A request
  to \<open>/notes/:id\<close> with the id of a note of another account is answered 404 "Note not
  found" and leaves the store unchanged (the user's role document exists).
\<close>

theorem notes_routes_stay_in_tenant:
  assumes a: "authenticate sign secret now hdrs s = Inr ctx"
    and d: "distinct (map note_id (db_notes s))"
    and run: "notes_router js sign secret tm sc now hdrs request s = (r, s')"
  shows "(\<forall>ns p l t. payload r = NotesPage ns p l t \<longrightarrow>
            (\<forall>n \<in> set ns. n \<in> set (db_notes s) \<and> note_account n = acc_id (req_account ctx)))
     \<and> (\<forall>n. payload r = NoteData n \<longrightarrow> note_account n = acc_id (req_account ctx))
     \<and> (\<forall>n \<in> set (db_notes s'). n \<notin> set (db_notes s) \<longrightarrow> note_account n = acc_id (req_account ctx))
     \<and> data_outside (acc_id (req_account ctx)) s' = data_outside (acc_id (req_account ctx)) s
     \<and> (\<forall>n0 \<in> set (db_notes s). req_user_role ctx \<noteq> None
            \<and> requested_id request = Some (note_id n0)
            \<and> note_account n0 \<noteq> acc_id (req_account ctx)
          \<longrightarrow> r = sendError 404 ''Note not found'' \<and> s' = s)"
proof -
  let ?ctx = "ctx\<lparr>req_tenantFilter := Some \<lparr>tf_account = Some (acc_id (req_account ctx)), tf_user = None\<rparr>\<rparr>"
  have p: "notes_prelude sign secret now hdrs s = Inr ?ctx"
    using authenticate_prelude [OF a] .
  have frame: "(\<forall>ns p l t. payload r = NotesPage ns p l t \<longrightarrow>
            (\<forall>n \<in> set ns. n \<in> set (db_notes s) \<and> note_account n = acc_id (req_account ctx)))
     \<and> (\<forall>n. payload r = NoteData n \<longrightarrow> note_account n = acc_id (req_account ctx))
     \<and> (\<forall>n \<in> set (db_notes s'). n \<notin> set (db_notes s) \<longrightarrow> note_account n = acc_id (req_account ctx))
     \<and> data_outside (acc_id (req_account ctx)) s' = data_outside (acc_id (req_account ctx)) s"
    using notes_router_frame [OF p d run] by simp
  have nf: "\<forall>n0 \<in> set (db_notes s). req_user_role ctx \<noteq> None
            \<and> requested_id request = Some (note_id n0)
            \<and> note_account n0 \<noteq> acc_id (req_account ctx)
          \<longrightarrow> r = sendError 404 ''Note not found'' \<and> s' = s"
  proof (intro ballI impI)
    fix n0 assume n0: "n0 \<in> set (db_notes s)"
      and h: "req_user_role ctx \<noteq> None \<and> requested_id request = Some (note_id n0)
            \<and> note_account n0 \<noteq> acc_id (req_account ctx)"
    then obtain rl where rl: "req_user_role ?ctx = Some rl" by auto
    have "notes_router js sign secret tm sc now hdrs request s = (sendError 404 ''Note not found'', s)"
      by (rule by_id_not_found [OF p rl d n0 refl]) (use h in simp_all)
    with run show "r = sendError 404 ''Note not found'' \<and> s' = s" by simp
  qed
  from frame nf show ?thesis by blast
qed

theorem notes_routes_stay_in_tenant_witness:
  "authenticate ex_sign ''jwt'' 6000 ex_member_headers ex_store = Inr ex_member_ctx
   \<and> distinct (map note_id (db_notes ex_store))
   \<and> ex_note 33 2 13 ''gamma'' \<in> set (db_notes ex_store)
   \<and> note_account (ex_note 33 2 13 ''gamma'') \<noteq> acc_id (req_account ex_member_ctx)
   \<and> notes_router ex_js ex_sign ''jwt'' ex_text_match ex_text_score 6000 ex_member_headers
        (GET_note (Valid_id 33)) ex_store = (sendError 404 ''Note not found'', ex_store)"
proof -
  have a: "authenticate ex_sign ''jwt'' 6000 ex_member_headers ex_store = Inr ex_member_ctx"
    by code_simp
  have d: "distinct (map note_id (db_notes ex_store))" by code_simp
  have m: "ex_note 33 2 13 ''gamma'' \<in> set (db_notes ex_store)" by code_simp
  have f: "req_user_role ex_member_ctx \<noteq> None
      \<and> requested_id (GET_note (Valid_id 33)) = Some (note_id (ex_note 33 2 13 ''gamma''))
      \<and> note_account (ex_note 33 2 13 ''gamma'') \<noteq> acc_id (req_account ex_member_ctx)"
    by code_simp
  obtain r s' where run: "notes_router ex_js ex_sign ''jwt'' ex_text_match ex_text_score 6000
      ex_member_headers (GET_note (Valid_id 33)) ex_store = (r, s')"
    by (cases "notes_router ex_js ex_sign ''jwt'' ex_text_match ex_text_score 6000
      ex_member_headers (GET_note (Valid_id 33)) ex_store")
  from notes_routes_stay_in_tenant [OF a d run] m f
  have "r = sendError 404 ''Note not found'' \<and> s' = ex_store" by blast
  with run a d m f show ?thesis by simp
qed

text \<open>
  Claim C5. A member's get, update or delete of a note of the same tenant that another
  user owns is answered 404 "Note not found" and writes nothing. No request to the notes
  routes, whatever the store and the token, is answered with the 403 of the ownership
  tests inside \<open>updateNote\<close> and \<open>deleteNote\<close>.
\<close>

theorem member_foreign_note_not_found:
  "(\<forall>ctx rl. authenticate sign secret now hdrs s = Inr ctx
        \<and> req_user_role ctx = Some rl \<and> role_roleName rl = MEMBER
        \<and> distinct (map note_id (db_notes s))
        \<and> n0 \<in> set (db_notes s) \<and> requested_id request = Some (note_id n0)
        \<and> note_account n0 = acc_id (req_account ctx) \<and> note_user n0 \<noteq> usr_id (req_user ctx)
      \<longrightarrow> notes_router js sign secret tm sc now hdrs request s = (sendError 404 ''Note not found'', s))
   \<and> fst (notes_router js sign secret tm sc now hdrs request s) \<noteq> own_update_403
   \<and> fst (notes_router js sign secret tm sc now hdrs request s) \<noteq> own_delete_403"
proof -
  have "notes_router js sign secret tm sc now hdrs request s = (sendError 404 ''Note not found'', s)"
    if h: "authenticate sign secret now hdrs s = Inr ctx
        \<and> req_user_role ctx = Some rl \<and> role_roleName rl = MEMBER
        \<and> distinct (map note_id (db_notes s))
        \<and> n0 \<in> set (db_notes s) \<and> requested_id request = Some (note_id n0)
        \<and> note_account n0 = acc_id (req_account ctx) \<and> note_user n0 \<noteq> usr_id (req_user ctx)"
    for ctx rl
  proof -
    let ?ctx = "ctx\<lparr>req_tenantFilter := Some \<lparr>tf_account = Some (acc_id (req_account ctx)), tf_user = None\<rparr>\<rparr>"
    have p: "notes_prelude sign secret now hdrs s = Inr ?ctx"
      using authenticate_prelude h by blast
    have rl: "req_user_role ?ctx = Some rl" using h by simp
    show ?thesis
      by (rule by_id_not_found [OF p rl _ _ refl]) (use h in auto)
  qed
  then show ?thesis using notes_router_never_ownership_403 by blast
qed

theorem member_foreign_note_not_found_witness:
  "authenticate ex_sign ''jwt'' 6000 ex_member_headers ex_store = Inr ex_member_ctx
   \<and> map_option role_roleName (req_user_role ex_member_ctx) = Some MEMBER
   \<and> ex_note 31 1 11 ''alpha'' \<in> set (db_notes ex_store)
   \<and> note_account (ex_note 31 1 11 ''alpha'') = acc_id (req_account ex_member_ctx)
   \<and> note_user (ex_note 31 1 11 ''alpha'') \<noteq> usr_id (req_user ex_member_ctx)
   \<and> notes_router ex_js ex_sign ''jwt'' ex_text_match ex_text_score 6000 ex_member_headers
        (PUT_note (Valid_id 31) ex_update_body) ex_store = (sendError 404 ''Note not found'', ex_store)"
proof -
  have a: "authenticate ex_sign ''jwt'' 6000 ex_member_headers ex_store = Inr ex_member_ctx"
    by code_simp
  have rl: "req_user_role ex_member_ctx = Some \<lparr>role_id = 22, role_account = 1, role_roleName = MEMBER\<rparr>"
    "role_roleName \<lparr>role_id = 22, role_account = 1, role_roleName = MEMBER\<rparr> = MEMBER"
    by (simp_all add: ex_member_ctx_def)
  have d: "distinct (map note_id (db_notes ex_store))" by code_simp
  have m: "ex_note 31 1 11 ''alpha'' \<in> set (db_notes ex_store)" by code_simp
  have f: "requested_id (PUT_note (Valid_id 31) ex_update_body) = Some (note_id (ex_note 31 1 11 ''alpha''))"
    "note_account (ex_note 31 1 11 ''alpha'') = acc_id (req_account ex_member_ctx)"
    "note_user (ex_note 31 1 11 ''alpha'') \<noteq> usr_id (req_user ex_member_ctx)"
    by code_simp+
  have "notes_router ex_js ex_sign ''jwt'' ex_text_match ex_text_score 6000 ex_member_headers
        (PUT_note (Valid_id 31) ex_update_body) ex_store = (sendError 404 ''Note not found'', ex_store)"
    using member_foreign_note_not_found [where js=ex_js and sign=ex_sign and secret="''jwt''" and now=6000
        and hdrs=ex_member_headers and s=ex_store and ?n0.0="ex_note 31 1 11 ''alpha''"
        and request="PUT_note (Valid_id 31) ex_update_body" and tm=ex_text_match and sc=ex_text_score]
      a rl d m f by blast
  then show ?thesis using a rl m f by simp
qed

text \<open>
  Claim C9. \<open>incrementNoteCount\<close> adds one; \<open>decrementNoteCount\<close> subtracts one when the count
  is positive and leaves it otherwise, so a count of zero stays zero; any sequence of
  requests to the notes routes (creations, deletions and the others) keeps every
  account's count non-negative.
\<close>

theorem noteCount_never_negative:
  "acc_noteCount (fst (incrementNoteCount a s)) = acc_noteCount a + 1
   \<and> acc_noteCount (fst (decrementNoteCount a s))
       = (if 0 < acc_noteCount a then acc_noteCount a - 1 else acc_noteCount a)
   \<and> (0 \<le> acc_noteCount a \<longrightarrow> 0 \<le> acc_noteCount (fst (decrementNoteCount a s)))
   \<and> (counts_nonneg s \<longrightarrow> counts_nonneg (notes_requests js sign secret tm sc reqs s))"
  using notes_requests_counts [of s js sign secret tm sc reqs]
  by (simp add: incrementNoteCount_def decrementNoteCount_def Let_def)

theorem noteCount_never_negative_witness:
  "counts_nonneg ex_store
   \<and> counts_nonneg (notes_requests ex_js ex_sign ''jwt'' ex_text_match ex_text_score
        [(6000, ex_member_headers, DELETE_note (Valid_id 32)),
         (7000, ex_headers, DELETE_note (Valid_id 31))] ex_store)
   \<and> map acc_noteCount (db_accounts (notes_requests ex_js ex_sign ''jwt'' ex_text_match ex_text_score
        [(6000, ex_member_headers, DELETE_note (Valid_id 32)),
         (7000, ex_headers, DELETE_note (Valid_id 31))] ex_store)) = [0, 1]"
proof -
  have c: "counts_nonneg ex_store" by code_simp
  have v: "map acc_noteCount (db_accounts (notes_requests ex_js ex_sign ''jwt'' ex_text_match ex_text_score
        [(6000, ex_member_headers, DELETE_note (Valid_id 32)),
         (7000, ex_headers, DELETE_note (Valid_id 31))] ex_store)) = [0, 1]"
    by code_simp
  show ?thesis
    using noteCount_never_negative [of ex_acc_a ex_store ex_js ex_sign "''jwt''" ex_text_match ex_text_score
        "[(6000, ex_member_headers, DELETE_note (Valid_id 32)),
          (7000, ex_headers, DELETE_note (Valid_id 31))]"] c v
    by blast
qed


section \<open>Tags of a new note\<close>

lemma tag_named_mono:
  "tag_named A nm s = Some t \<Longrightarrow> db_tags s' = db_tags s @ new \<Longrightarrow> tag_named A nm s' = Some t"
  by (simp add: tag_named_def find_append_Some)

lemma tag_named_None_key:
  "tag_named A nm s = None \<Longrightarrow> (A, nm) \<notin> set (map (\<lambda>t. (tag_account t, tag_tagName t)) (db_tags s))"
  by (auto simp: tag_named_def find_None_iff)

lemma findOrCreate_Some:
  assumes f: "findOrCreate js A x s = (Some tg, s')"
  shows "tag_named A (trim js (toLowerCase js x)) s' = Some tg
     \<and> (\<exists>new. db_tags s' = db_tags s @ new)
     \<and> (tags_unique s \<longrightarrow> tags_unique s')"
proof (cases "tag_named A (trim js (toLowerCase js x)) s")
  case (Some t)
  then show ?thesis using f by (auto simp: findOrCreate_def Let_def)
next
  case None
  define tg' where "tg' = \<lparr>tag_id = new_ObjectId (map tag_id (db_tags s)), tag_account = A,
                         tag_tagName = trim js (toLowerCase js x)\<rparr>"
  have e: "tg = tg'" "s' = s\<lparr>db_tags := db_tags s @ [tg']\<rparr>"
    using f None by (auto simp: findOrCreate_def Let_def tg'_def split: if_splits)
  have "tag_named A (trim js (toLowerCase js x)) s' = Some tg'"
    using None unfolding e by (simp add: tag_named_def find_append_None tg'_def)
  moreover have "tags_unique s \<longrightarrow> tags_unique s'"
    using tag_named_None_key [OF None] unfolding e by (simp add: tags_unique_def tg'_def)
  ultimately show ?thesis unfolding e by simp
qed

lemma process_tags_ids:
  "process_tags js A ts ids s = (Some ids', s') \<Longrightarrow>
   map Some ids' = map Some ids @ map (\<lambda>nm. map_option tag_id (tag_named A nm s')) (resolved_names js ts)
   \<and> (\<exists>new. db_tags s' = db_tags s @ new)
   \<and> (tags_unique s \<longrightarrow> tags_unique s')"
proof (induction js A ts ids s arbitrary: ids' s' rule: process_tags.induct)
  case (1 js account tagIds s)
  then show ?case by simp
next
  case (2 js account tagName rest tagIds s)
  show ?case
  proof (cases "trim js tagName \<noteq> []")
    case False
    then show ?thesis using 2 by simp
  next
    case True
    obtain fr s1 where f: "findOrCreate js account (trim js tagName) s = (fr, s1)"
      by (cases "findOrCreate js account (trim js tagName) s")
    show ?thesis
    proof (cases fr)
      case None
      then show ?thesis using 2(3) True f by simp
    next
      case (Some tg)
      then have p: "process_tags js account rest (tagIds @ [tag_id tg]) s1 = (Some ids', s')"
        using 2(3) True f by simp
      note ih = 2(1) [OF True f [symmetric] Some p]
      note fc = findOrCreate_Some [OF f [unfolded Some]]
      from ih obtain new where new: "db_tags s' = db_tags s1 @ new" by blast
      have here: "tag_named account (trim js (toLowerCase js (trim js tagName))) s' = Some tg"
        using tag_named_mono [OF _ new] fc by blast
      have "map Some ids' = map Some tagIds
          @ map (\<lambda>nm. map_option tag_id (tag_named account nm s')) (resolved_names js (JString tagName # rest))"
        using ih True here by simp
      moreover have "\<exists>new. db_tags s' = db_tags s @ new"
        using fc new by (metis append.assoc)
      moreover have "tags_unique s \<longrightarrow> tags_unique s'" using ih fc by blast
      ultimately show ?thesis by blast
    qed
  qed
next
  case (3 js account rest tagIds s)
  then show ?case by simp
qed

lemma tag_named_once:
  assumes u: "tags_unique s" and t: "tag_named A nm s = Some tg"
  shows "length (filter (\<lambda>t. tag_account t = A \<and> tag_tagName t = nm) (db_tags s)) = 1"
proof -
  have "length (filter (\<lambda>t. (tag_account t, tag_tagName t) = (A, nm)) (db_tags s)) \<le> 1"
    using u unfolding tags_unique_def by (rule distinct_key_filter_le1)
  then have "length (filter (\<lambda>t. tag_account t = A \<and> tag_tagName t = nm) (db_tags s)) \<le> 1"
    by simp
  from filter_le1_find [OF this t [unfolded tag_named_def]] show ?thesis by simp
qed

text \<open>
  Claim C8, as amended. When \<open>createNote\<close> answers 201 in a store with one tag per account
  and name, the new note's tag list holds, for each string of the input that is not
  blank and in the order of the input, the id of the stored tag with the string's
  normalized name: a name that occurs several times is attached as many times. The store
  still has one tag per account and name, and each of the resolved names is stored once
  for the account.
\<close>

theorem createNote_resolves_each_tag_string:
  assumes c: "createNote js now body ctx s = (r, s')" and ok: "status r = 201"
    and u: "tags_unique s"
  shows "\<exists>n. db_notes s' = db_notes s @ [n]
     \<and> map Some (note_tags n)
         = map (\<lambda>nm. map_option tag_id (tag_named (acc_id (req_account ctx)) nm s'))
             (resolved_names js (cn_tags body))
     \<and> tags_unique s'
     \<and> (\<forall>nm \<in> set (resolved_names js (cn_tags body)).
           length (filter (\<lambda>t. tag_account t = acc_id (req_account ctx) \<and> tag_tagName t = nm)
                     (db_tags s')) = 1)"
proof -
  define A where "A = acc_id (req_account ctx)"
  have tr: "truthy (cn_title body)"
  proof (rule ccontr)
    assume "\<not> truthy (cn_title body)"
    then have "createNote js now body ctx s = (sendError 400 ''Title is required'', s)"
      by (simp add: createNote_def)
    with c ok show False by (auto simp: sendError_def)
  qed
  obtain res s1 where p: "process_tags js A (cn_tags body) [] s = (res, s1)"
    by (cases "process_tags js A (cn_tags body) [] s")
  have "res \<noteq> None"
  proof
    assume "res = None"
    then have "createNote js now body ctx s = (sendError 500 ''Failed to create note'', s1)"
      using tr p by (simp add: createNote_def A_def)
    with c ok show False by (auto simp: sendError_def)
  qed
  then obtain tagIds where res: "res = Some tagIds" by auto
  define nn where "nn = \<lparr>note_id = new_ObjectId (map note_id (db_notes s1)),
                       note_account = A,
                       note_user = usr_id (req_user ctx),
                       note_title = trim js (the (cn_title body)),
                       note_description =
                         (if truthy (cn_description body) then trim js (the (cn_description body)) else []),
                       note_tags = tagIds,
                       note_isDeleted = False,
                       note_createdAt = now\<rparr>"
  have v: "note_valid nn"
  proof (rule ccontr)
    assume "\<not> note_valid nn"
    then have "createNote js now body ctx s = (sendError 500 ''Failed to create note'', s1)"
      using tr p res by (simp add: createNote_def Let_def A_def nn_def)
    with c ok show False by (auto simp: sendError_def)
  qed
  have "createNote js now body ctx s = (sendResponse 201 ''Note created successfully'' NoData,
      snd (incrementNoteCount (req_account ctx) (s1\<lparr>db_notes := db_notes s1 @ [nn]\<rparr>)))"
    using tr p res v by (simp add: createNote_def Let_def A_def nn_def split: prod.splits)
  with c have s': "s' = snd (incrementNoteCount (req_account ctx) (s1\<lparr>db_notes := db_notes s1 @ [nn]\<rparr>))"
    by simp
  have n1: "db_notes s1 = db_notes s" using process_tags_frame [OF p] by simp
  have nts: "db_notes s' = db_notes s @ [nn]" and tags: "db_tags s' = db_tags s1"
    unfolding s' by (simp_all add: incrementNoteCount_def Let_def n1)
  note pti = process_tags_ids [OF p [unfolded res]]
  have named: "tag_named A nm s' = tag_named A nm s1" for nm
    by (simp add: tag_named_def tags)
  have ids: "map Some (note_tags nn) = map (\<lambda>nm. map_option tag_id (tag_named A nm s')) (resolved_names js (cn_tags body))"
    using pti by (simp add: nn_def named)
  have u': "tags_unique s'" using pti u by (simp add: tags_unique_def tags)
  have once: "\<forall>nm \<in> set (resolved_names js (cn_tags body)).
      length (filter (\<lambda>t. tag_account t = A \<and> tag_tagName t = nm) (db_tags s')) = 1"
  proof
    fix nm assume nm: "nm \<in> set (resolved_names js (cn_tags body))"
    have "length (map Some (note_tags nn)) = length (resolved_names js (cn_tags body))"
      unfolding ids by simp
    from nm obtain k where k: "k < length (resolved_names js (cn_tags body))"
        "resolved_names js (cn_tags body) ! k = nm"
      by (auto simp: in_set_conv_nth)
    have "map Some (note_tags nn) ! k = map_option tag_id (tag_named A nm s')"
      unfolding ids using k by simp
    moreover have "map Some (note_tags nn) ! k = Some (note_tags nn ! k)"
      using k \<open>length (map Some (note_tags nn)) = length (resolved_names js (cn_tags body))\<close> by simp
    ultimately obtain tg where "tag_named A nm s' = Some tg" by (cases "tag_named A nm s'") auto
    from tag_named_once [OF u' this]
    show "length (filter (\<lambda>t. tag_account t = A \<and> tag_tagName t = nm) (db_tags s')) = 1" .
  qed
  show ?thesis
    using nts ids u' once unfolding A_def by blast
qed

theorem createNote_resolves_each_tag_string_witness:
  "status (fst (createNote ex_js 7000 ex_create_body ex_ctx ex_db_auth)) = 201
   \<and> tags_unique ex_db_auth
   \<and> resolved_names ex_js (cn_tags ex_create_body) = [''work'', ''work'', ''work'']
   \<and> (\<exists>n. db_notes (snd (createNote ex_js 7000 ex_create_body ex_ctx ex_db_auth))
            = db_notes ex_db_auth @ [n]
          \<and> length (note_tags n) = 3)
   \<and> length (filter (\<lambda>t. tag_account t = 1 \<and> tag_tagName t = ''work'')
        (db_tags (snd (createNote ex_js 7000 ex_create_body ex_ctx ex_db_auth)))) = 1"
proof -
  obtain r s' where c: "createNote ex_js 7000 ex_create_body ex_ctx ex_db_auth = (r, s')"
    by (cases "createNote ex_js 7000 ex_create_body ex_ctx ex_db_auth")
  have ok0: "status (fst (createNote ex_js 7000 ex_create_body ex_ctx ex_db_auth)) = 201" by code_simp
  then have ok: "status r = 201" using c by simp
  have u: "tags_unique ex_db_auth" by code_simp
  have nm: "resolved_names ex_js (cn_tags ex_create_body) = [''work'', ''work'', ''work'']" by code_simp
  have a: "acc_id (req_account ex_ctx) = 1" by code_simp
  from createNote_resolves_each_tag_string [OF c ok u] obtain n where
    n: "db_notes s' = db_notes ex_db_auth @ [n]"
      "map Some (note_tags n)
         = map (\<lambda>nm. map_option tag_id (tag_named (acc_id (req_account ex_ctx)) nm s'))
             (resolved_names ex_js (cn_tags ex_create_body))"
      "\<forall>nm \<in> set (resolved_names ex_js (cn_tags ex_create_body)).
           length (filter (\<lambda>t. tag_account t = acc_id (req_account ex_ctx) \<and> tag_tagName t = nm)
                     (db_tags s')) = 1"
    by blast
  have "length (map Some (note_tags n)) = 3" unfolding n(2) nm by simp
  then have l: "length (note_tags n) = 3" by simp
  have o: "length (filter (\<lambda>t. tag_account t = 1 \<and> tag_tagName t = ''work'') (db_tags s')) = 1"
    using n(3) unfolding nm a by simp
  show ?thesis using ok0 u nm n(1) l o c by simp
qed

text \<open>
  The claim as stated fails for its own example: for the tags "Work", " work ", "WORK" one
  tag "work" is stored, and the note's tag list holds its id three times. The three
  strings are ASCII strings, on which \<open>toLowerCase()\<close> and \<open>trim()\<close> compute what \<open>ex_js\<close> does.
\<close>

theorem createNote_attaches_tag_three_times_counterexample:
  "status (fst (createNote ex_js 7000 ex_create_body ex_ctx ex_db_auth)) = 201
   \<and> cn_tags ex_create_body = [JString ''Work'', JString '' work '', JString ''WORK'']
   \<and> map tag_tagName (db_tags (snd (createNote ex_js 7000 ex_create_body ex_ctx ex_db_auth))) = [''work'']
   \<and> map tag_id (db_tags (snd (createNote ex_js 7000 ex_create_body ex_ctx ex_db_auth))) = [1]
   \<and> note_tags (last (db_notes (snd (createNote ex_js 7000 ex_create_body ex_ctx ex_db_auth)))) = [1, 1, 1]"
  by code_simp

section \<open>Invitation, login and the activation flag\<close>

lemma findById_distinct:
  "distinct (map id_of xs) \<Longrightarrow> x \<in> set xs \<Longrightarrow> findById id_of (id_of x) xs = Some x"
  by (induction xs) (auto simp: findById_def image_iff)

lemma activation_kept_same:
  "distinct (map usr_id (db_users s)) \<Longrightarrow> db_users s' = db_users s \<Longrightarrow> activation_kept s s'"
  by (simp add: activation_kept_def findById_distinct)

lemma activation_kept_append:
  "distinct (map usr_id (db_users s)) \<Longrightarrow> db_users s' = db_users s @ new \<Longrightarrow> activation_kept s s'"
  by (auto simp: activation_kept_def dest!: findById_distinct [where id_of=usr_id]
      intro: findById_append)

lemma activation_kept_save:
  assumes d: "distinct (map usr_id (db_users s))"
    and v: "v \<in> set (db_users s)" "usr_id v' = usr_id v" "usr_isActive v' = usr_isActive v"
    and s': "db_users s' = save usr_id v' (db_users s)"
  shows "activation_kept s s'"
  unfolding activation_kept_def
proof
  fix u assume u: "u \<in> set (db_users s)"
  show "map_option usr_isActive (findById usr_id (usr_id u) (db_users s')) = Some (usr_isActive u)"
  proof (cases "usr_id u = usr_id v'")
    case True
    then have "u = v" using d u v(1,2) by (metis (mono_tags, lifting) distinct_map inj_on_def)
    moreover have "findById usr_id (usr_id v') (save usr_id v' (db_users s)) = Some v'"
      using findById_save_same [of usr_id v' "db_users s" v] findById_distinct [OF d v(1)] v(2)
      by simp
    ultimately show ?thesis using True v(3) s' by simp
  next
    case False
    then show ?thesis
      using findById_save_other [of "usr_id u" usr_id v' "db_users s"] findById_distinct [OF d u] s'
      by simp
  qed
qed

lemma logout_kept:
  assumes d: "distinct (map usr_id (db_users s))" and m: "req_user ctx \<in> set (db_users s)"
  shows "activation_kept s (snd (logout now ctx s))"
  by (rule activation_kept_save [OF d m]) (simp_all add: logout_def Let_def)

lemma changePassword_kept:
  assumes d: "distinct (map usr_id (db_users s))" and m: "req_user ctx \<in> set (db_users s)"
  shows "activation_kept s (snd (changePassword hp cp now body ctx s))"
proof (cases "db_users (snd (changePassword hp cp now body ctx s)) = db_users s")
  case True
  then show ?thesis using activation_kept_same [OF d] by blast
next
  case False
  then have "db_users (snd (changePassword hp cp now body ctx s)) =
      save usr_id ((req_user ctx)\<lparr>usr_password := hp (the (newPassword body)),
          usr_tokensInvalidBefore := now\<rparr>) (db_users s)"
    by (auto simp: changePassword_def Let_def split: if_splits)
  then show ?thesis
    by (intro activation_kept_save [OF d m]) simp_all
qed

lemma LocalStrategy_Inr:
  assumes "LocalStrategy js cp now email password s = (Inr user1, s1)"
  shows "\<exists>user. user \<in> set (db_users s) \<and> usr_isActive user \<and> \<not> usr_isDeleted user
      \<and> usr_email user = toLowerCase js email \<and> cp password (usr_password user)
      \<and> user1 = user\<lparr>usr_lastLogin := Some now\<rparr>
      \<and> s1 = s\<lparr>db_users := save usr_id user1 (db_users s)\<rparr>"
proof (cases "find (\<lambda>u. usr_email u = toLowerCase js email \<and> usr_isActive u \<and> \<not> usr_isDeleted u) (db_users s)")
  case None
  then show ?thesis using assms by (simp add: LocalStrategy_def)
next
  case (Some user)
  note f = find_SomeD [OF Some]
  show ?thesis
  proof (cases "findById acc_id (usr_account user) (db_accounts s)")
    case None
    then show ?thesis using assms Some by (simp add: LocalStrategy_def)
  next
    case (Some account)
    then have "user1 = user\<lparr>usr_lastLogin := Some now\<rparr>
        \<and> s1 = s\<lparr>db_users := save usr_id (user\<lparr>usr_lastLogin := Some now\<rparr>) (db_users s)\<rparr>
        \<and> cp password (usr_password user)"
      using assms \<open>find _ (db_users s) = Some user\<close>
      by (auto simp: LocalStrategy_def Let_def split: if_splits)
    then show ?thesis using f by auto
  qed
qed

lemma LocalStrategy_Inl:
  "LocalStrategy js cp now email password s = (Inl info, s1) \<Longrightarrow> s1 = s"
  by (auto simp: LocalStrategy_def Let_def split: option.splits if_splits)

lemma LocalStrategy_no_active:
  "find (\<lambda>u. usr_email u = toLowerCase js email \<and> usr_isActive u \<and> \<not> usr_isDeleted u) (db_users s) = None
   \<Longrightarrow> LocalStrategy js cp now email password s = (Inl ''Invalid email or password'', s)"
  by (simp add: LocalStrategy_def)

lemma login_shape:
  assumes l: "login js sign secret ttl cp now ip body s = (r, s')"
  shows "(status r \<noteq> 200 \<and> s' = s \<and> (\<forall>t. payload r \<noteq> TokenData t))
     \<or> (\<exists>user. user \<in> set (db_users s) \<and> usr_isActive user \<and> \<not> usr_isDeleted user
           \<and> truthy (lg_email body) \<and> truthy (lg_password body)
           \<and> usr_email user = toLowerCase js (the (lg_email body))
           \<and> cp (the (lg_password body)) (usr_password user)
           \<and> s' = s\<lparr>db_users := save usr_id (user\<lparr>usr_lastLogin := Some now, usr_lastIP := ip\<rparr>) (db_users s)\<rparr>
           \<and> (\<forall>t. payload r = TokenData t \<longrightarrow> (\<exists>rn. t =
                  generateToken sign secret ttl now (usr_id user) (usr_account user) rn)))"
proof (cases "truthy (lg_email body) \<and> truthy (lg_password body)")
  case False
  then show ?thesis using l by (auto simp: login_def sendError_def)
next
  case True
  obtain res s1 where ls: "LocalStrategy js cp now (the (lg_email body)) (the (lg_password body)) s = (res, s1)"
    by (cases "LocalStrategy js cp now (the (lg_email body)) (the (lg_password body)) s")
  show ?thesis
  proof (cases res)
    case (Inl info)
    then have "s1 = s" using ls LocalStrategy_Inl by blast
    then show ?thesis using l True ls Inl by (auto simp: login_def sendError_def)
  next
    case (Inr user1)
    from LocalStrategy_Inr [OF ls [unfolded Inr]] obtain user where
      u: "user \<in> set (db_users s)" "usr_isActive user" "\<not> usr_isDeleted user"
        "usr_email user = toLowerCase js (the (lg_email body))"
        "cp (the (lg_password body)) (usr_password user)"
        "user1 = user\<lparr>usr_lastLogin := Some now\<rparr>"
        "s1 = s\<lparr>db_users := save usr_id user1 (db_users s)\<rparr>"
      by blast
    define user2 where "user2 = user\<lparr>usr_lastLogin := Some now, usr_lastIP := ip\<rparr>"
    have u2: "user1\<lparr>usr_lastLogin := Some now, usr_lastIP := ip\<rparr> = user2"
      by (simp add: u(6) user2_def)
    have ss: "save usr_id user2 (db_users s1) = save usr_id user2 (db_users s)"
      unfolding u(7) by (simp add: save_save u(6) user2_def)
    have e: "login js sign secret ttl cp now ip body s =
        (case findById role_id (usr_role user2) (db_roles s) of
           None \<Rightarrow> (sendError 500 ''Login failed'', s1\<lparr>db_users := save usr_id user2 (db_users s1)\<rparr>)
         | Some r \<Rightarrow> (sendResponse 200 ''Login successful''
                (TokenData (generateToken sign secret ttl now (usr_id user2) (usr_account user2)
                   (role_roleName r))), s1\<lparr>db_users := save usr_id user2 (db_users s1)\<rparr>))"
      using True ls Inr by (simp add: login_def Let_def u2)
    have s1': "s1\<lparr>db_users := save usr_id user2 (db_users s1)\<rparr> = s\<lparr>db_users := save usr_id user2 (db_users s)\<rparr>"
      unfolding ss unfolding u(7) by simp
    have k: "usr_id user2 = usr_id user" "usr_account user2 = usr_account user"
      by (simp_all add: user2_def)
    show ?thesis
    proof (cases "findById role_id (usr_role user2) (db_roles s)")
      case None
      then have "r = sendError 500 ''Login failed''" "s' = s\<lparr>db_users := save usr_id user2 (db_users s)\<rparr>"
        using l e s1' by simp_all
      then show ?thesis using u True unfolding user2_def
        by (intro disjI2 exI [of _ user]) (simp add: sendError_def)
    next
      case (Some rl)
      then have "r = sendResponse 200 ''Login successful''
                (TokenData (generateToken sign secret ttl now (usr_id user) (usr_account user)
                   (role_roleName rl)))" "s' = s\<lparr>db_users := save usr_id user2 (db_users s)\<rparr>"
        using l e s1' k by simp_all
      then show ?thesis using u True unfolding user2_def
        by (intro disjI2 exI [of _ user]) (auto simp: sendResponse_def)
    qed
  qed
qed

lemma login_kept:
  assumes d: "distinct (map usr_id (db_users s))"
  shows "activation_kept s (snd (login js sign secret ttl cp now ip body s))"
proof -
  obtain r s' where l: "login js sign secret ttl cp now ip body s = (r, s')"
    by (cases "login js sign secret ttl cp now ip body s")
  from login_shape [OF l] show ?thesis unfolding l
  proof
    assume "status r \<noteq> 200 \<and> s' = s \<and> (\<forall>t. payload r \<noteq> TokenData t)"
    then show "activation_kept s (snd (r, s'))" using activation_kept_same [OF d] by simp
  next
    assume "\<exists>user. user \<in> set (db_users s) \<and> usr_isActive user \<and> \<not> usr_isDeleted user
           \<and> truthy (lg_email body) \<and> truthy (lg_password body)
           \<and> usr_email user = toLowerCase js (the (lg_email body))
           \<and> cp (the (lg_password body)) (usr_password user)
           \<and> s' = s\<lparr>db_users := save usr_id (user\<lparr>usr_lastLogin := Some now, usr_lastIP := ip\<rparr>) (db_users s)\<rparr>
           \<and> (\<forall>t. payload r = TokenData t \<longrightarrow> (\<exists>rn. t =
                  generateToken sign secret ttl now (usr_id user) (usr_account user) rn))"
    then obtain user where u: "user \<in> set (db_users s)"
      "s' = s\<lparr>db_users := save usr_id (user\<lparr>usr_lastLogin := Some now, usr_lastIP := ip\<rparr>) (db_users s)\<rparr>"
      by blast
    show "activation_kept s (snd (r, s'))"
      by (rule activation_kept_save [OF d u(1)]) (simp_all add: u(2))
  qed
qed

lemma login_no_active:
  assumes t: "truthy (lg_email body)" "truthy (lg_password body)"
    and n: "\<forall>u \<in> set (db_users s). usr_email u = toLowerCase js (the (lg_email body))
        \<and> \<not> usr_isDeleted u \<longrightarrow> \<not> usr_isActive u"
  shows "login js sign secret ttl cp now ip body s = (sendError 401 ''Invalid email or password'', s)"
proof -
  have "find (\<lambda>u. usr_email u = toLowerCase js (the (lg_email body)) \<and> usr_isActive u \<and> \<not> usr_isDeleted u)
      (db_users s) = None"
    using n by (auto simp: find_None_iff)
  from LocalStrategy_no_active [OF this] show ?thesis
    using t by (simp add: login_def)
qed

lemma inviteUser_shape:
  assumes i: "inviteUser js hp temp now body ctx s = (r, s')"
  shows "(status r \<noteq> 201 \<and> db_users s' = db_users s)
     \<or> (\<exists>u. status r = 201 \<and> db_users s' = db_users s @ [u] \<and> \<not> usr_isActive u
           \<and> usr_account u = acc_id (req_account ctx)
           \<and> usr_password u = hp temp
           \<and> usr_id u \<notin> set (map usr_id (db_users s))
           \<and> payload r = InviteData (usr_email u) temp)"
proof -
  have fresh: "new_ObjectId (map usr_id (db_users s)) \<notin> usr_id ` set (db_users s)"
    using new_ObjectId_fresh [of "map usr_id (db_users s)"] by simp
  show ?thesis
    using i fresh
    by (auto simp: inviteUser_def Let_def sendError_def sendResponse_def
        split: if_splits option.splits prod.splits)
qed

lemma inviteUser_kept:
  assumes d: "distinct (map usr_id (db_users s))"
  shows "activation_kept s (snd (inviteUser js hp temp now body ctx s))"
proof -
  obtain r s' where i: "inviteUser js hp temp now body ctx s = (r, s')"
    by (cases "inviteUser js hp temp now body ctx s")
  from inviteUser_shape [OF i] show ?thesis unfolding i
    using activation_kept_same [OF d, of s'] activation_kept_append [OF d, of s'] by auto
qed

lemma register_users:
  "register js slugify hp now body s = Some (r, s') \<Longrightarrow>
   db_users s' = db_users s \<or> (\<exists>u. db_users s' = db_users s @ [u])"
  by (auto simp: register_def Let_def split: if_splits option.splits)

lemma register_kept:
  assumes d: "distinct (map usr_id (db_users s))" and r: "register js slugify hp now body s = Some (r, s')"
  shows "activation_kept s s'"
  using register_users [OF r] activation_kept_same [OF d, of s'] activation_kept_append [OF d, of s']
  by auto

lemma createNote_users: "db_users (snd (createNote js now body ctx s)) = db_users s"
proof -
  obtain res s1 where p: "process_tags js (acc_id (req_account ctx)) (cn_tags body) [] s = (res, s1)"
    by (cases "process_tags js (acc_id (req_account ctx)) (cn_tags body) [] s")
  have "db_users s1 = db_users s" using process_tags_frame [OF p] by simp
  then show ?thesis
    using p by (auto simp: createNote_def Let_def incrementNoteCount_def split: option.splits prod.splits)
qed

lemma updateNote_users: "db_users (snd (updateNote js ident body ctx s)) = db_users s"
proof -
  have t: "db_users (snd (process_tags js a ts [] s)) = db_users s" for a ts
    using process_tags_frame [of js a ts "[]" s] by (cases "process_tags js a ts [] s") simp
  have sv: "db_users (snd (save_updated n t)) = db_users t" for n t
    by (simp add: save_updated_def)
  show ?thesis
  proof (cases "un_tags body")
    case None
    then show ?thesis
      by (auto simp: updateNote_def Let_def sv split: id_param.splits option.splits)
  next
    case (Some ts)
    obtain res s1 where p: "process_tags js (acc_id (req_account ctx)) ts [] s = (res, s1)"
      by (cases "process_tags js (acc_id (req_account ctx)) ts [] s")
    have "db_users s1 = db_users s" using t [of "acc_id (req_account ctx)" ts] p by simp
    then show ?thesis
      using Some p by (auto simp: updateNote_def Let_def sv split: id_param.splits option.splits)
  qed
qed

lemma deleteNote_users: "db_users (snd (deleteNote ident ctx s)) = db_users s"
  by (auto simp: deleteNote_def Let_def decrementNoteCount_def split: id_param.splits option.splits prod.splits)

lemma read_users:
  "db_users (snd (getNoteById ident ctx s)) = db_users s"
  "db_users (snd (getNotes js tm sc q ctx s)) = db_users s"
  "db_users (snd (getMyNotes js tm sc q ctx s)) = db_users s"
  by (simp_all add: getNoteById_def getNotes_def getMyNotes_def Let_def split: id_param.splits option.splits)

lemma notes_router_users:
  "db_users (snd (notes_router js sign secret tm sc now hdrs request s)) = db_users s"
proof (cases "notes_prelude sign secret now hdrs s")
  case (Inl r)
  then show ?thesis by (simp add: notes_router_def)
next
  case (Inr ctx)
  show ?thesis
  proof (cases "requireMember (Some ctx)")
    case (Inl r)
    then show ?thesis using Inr by (simp add: notes_router_def)
  next
    case m: (Inr ctx1)
    show ?thesis
    proof (cases "requireOwnershipOrAdmin (Some ctx1)")
      case (Inl r)
      then show ?thesis using Inr m
        by (cases request)
          (simp_all add: notes_router_def createNote_users read_users split: sum.splits)
    next
      case o: (Inr ctx2)
      then show ?thesis using Inr m
        by (cases request)
          (simp_all add: notes_router_def createNote_users read_users updateNote_users
            deleteNote_users split: sum.splits)
    qed
  qed
qed

lemma subscription_users:
  "db_users (snd (verifyPaymentAndUpgrade hmac secret fetch clock body account s)) = db_users s"
  "db_users (snd (cancelSubscription now account s)) = db_users s"
  "db_users (snd (upgradeSubscription orders rs pm account s)) = db_users s"
proof -
  have c: "db_users (cancel_existing t a n) = db_users t" for t a n
    by (simp add: cancel_existing_def split: option.splits)
  show "db_users (snd (verifyPaymentAndUpgrade hmac secret fetch clock body account s)) = db_users s"
    by (simp add: verifyPaymentAndUpgrade_def Let_def upgradeToPro_def c
        split: option.splits sum.splits)
  show "db_users (snd (cancelSubscription now account s)) = db_users s"
    by (simp add: cancelSubscription_def Let_def split: option.splits)
  show "db_users (snd (upgradeSubscription orders rs pm account s)) = db_users s"
    by (simp add: upgradeSubscription_def Let_def split: sum.splits)
qed

lemma authenticate_user_mem:
  assumes "authenticate sign secret now hdrs s = Inr ctx"
  shows "req_user ctx \<in> set (db_users s)"
  using authenticate_ctx [OF assms] by (auto dest: findById_SomeD)

lemma protected_user_mem:
  assumes "protected env now hdrs s = Inr ctx"
  shows "req_user ctx \<in> set (db_users s)"
proof -
  from notes_prelude_ctx [OF assms [unfolded protected_def]] obtain ctx0 where
    "authenticate (env_sign env) (env_secret env) now hdrs s = Inr ctx0"
    "ctx = ctx0\<lparr>req_tenantFilter := Some \<lparr>tf_account = Some (acc_id (req_account ctx0)), tf_user = None\<rparr>\<rparr>"
    by blast
  then show ?thesis using authenticate_user_mem by fastforce
qed

lemma auth_router_kept:
  assumes d: "distinct (map usr_id (db_users s))"
    and run: "auth_router js env now hdrs request s = Some (r, s')"
  shows "activation_kept s s'"
proof (cases request)
  case (POST_register body)
  then show ?thesis using run register_kept [OF d] by (simp add: auth_router_def)
next
  case (POST_login body)
  then have "s' = snd (login js (env_sign env) (env_secret env) (env_expiresIn env)
      (env_comparePassword env) now (env_ip env) body s)"
    using run by (simp add: auth_router_def)
  then show ?thesis using login_kept [OF d] by simp
next
  case GET_profile
  then have "s' = s"
    using run by (auto simp: auth_router_def getProfile_def split: sum.splits option.splits)
  then show ?thesis using activation_kept_same [OF d] by simp
next
  case (POST_invite body)
  show ?thesis
  proof (cases "protected env now hdrs s")
    case (Inl x)
    then have "s' = s" using run POST_invite by (simp add: auth_router_def)
    then show ?thesis using activation_kept_same [OF d] by simp
  next
    case (Inr ctx)
    show ?thesis
    proof (cases "requireAdmin (Some ctx)")
      case (Inl x)
      then have "s' = s" using run POST_invite Inr by (simp add: auth_router_def)
      then show ?thesis using activation_kept_same [OF d] by simp
    next
      case a: (Inr ctx')
      then have "s' = snd (inviteUser js (env_hashPassword env) (env_randomString env) now body ctx' s)"
        using run POST_invite Inr by (simp add: auth_router_def)
      then show ?thesis using inviteUser_kept [OF d] by simp
    qed
  qed
next
  case (POST_change_password body)
  show ?thesis
  proof (cases "protected env now hdrs s")
    case (Inl x)
    then have "s' = s" using run POST_change_password by (simp add: auth_router_def)
    then show ?thesis using activation_kept_same [OF d] by simp
  next
    case (Inr ctx)
    then have "s' = snd (changePassword (env_hashPassword env) (env_comparePassword env) now body ctx s)"
      using run POST_change_password by (simp add: auth_router_def)
    then show ?thesis using changePassword_kept [OF d protected_user_mem [OF Inr]] by simp
  qed
next
  case POST_logout
  show ?thesis
  proof (cases "authenticate (env_sign env) (env_secret env) now hdrs s")
    case (Inl x)
    then have "s' = s" using run POST_logout by (simp add: auth_router_def)
    then show ?thesis using activation_kept_same [OF d] by simp
  next
    case (Inr ctx)
    then have "s' = snd (logout now ctx s)"
      using run POST_logout by (simp add: auth_router_def)
    then show ?thesis using logout_kept [OF d authenticate_user_mem [OF Inr]] by simp
  qed
qed

text \<open>
  Claim C10, as amended. User ids are unique in the store.

  An invitation answered 201 has stored one new user, with \<open>isActive\<close> false, whose email
  and temporary password are in the answer; any other answer of \<open>inviteUser\<close> stores no user.

  A token in the answer of \<open>login\<close> is a token of a stored user that is active and not
  deleted, whose email is the lowered email of the request and whose password hash matches
  the password of the request. When every user that holds the lowered email and is not
  deleted is inactive, \<open>login\<close> answers 401 "Invalid email or password" and writes nothing.

  Every request to the auth routes and to the notes routes, and each of the subscription
  handlers that write the store, leaves each stored user under its id with the \<open>isActive\<close>
  flag it had.
\<close>

theorem invited_user_never_authenticated:
  assumes d: "distinct (map usr_id (db_users s))"
  shows "(\<forall>r s'. inviteUser js hashPassword tempPassword now ibody ctx s = (r, s') \<longrightarrow>
        (if status r = 201
         then \<exists>u. db_users s' = db_users s @ [u] \<and> \<not> usr_isActive u
                \<and> usr_id u \<notin> set (map usr_id (db_users s))
                \<and> usr_password u = hashPassword tempPassword
                \<and> payload r = InviteData (usr_email u) tempPassword
         else db_users s' = db_users s))
     \<and> (\<forall>r s' t. login js sign secret expiresIn comparePassword now ip lbody s = (r, s')
            \<and> payload r = TokenData t \<longrightarrow>
          (\<exists>u \<in> set (db_users s). usr_isActive u \<and> \<not> usr_isDeleted u
             \<and> usr_email u = toLowerCase js (the (lg_email lbody))
             \<and> comparePassword (the (lg_password lbody)) (usr_password u)
             \<and> (\<exists>roleName. t = generateToken sign secret expiresIn now (usr_id u) (usr_account u)
                    roleName)))
     \<and> (truthy (lg_email lbody) \<and> truthy (lg_password lbody)
          \<and> (\<forall>u \<in> set (db_users s). usr_email u = toLowerCase js (the (lg_email lbody))
                 \<and> \<not> usr_isDeleted u \<longrightarrow> \<not> usr_isActive u) \<longrightarrow>
        login js sign secret expiresIn comparePassword now ip lbody s
          = (sendError 401 ''Invalid email or password'', s))
     \<and> (\<forall>r s'. auth_router js env now hdrs request s = Some (r, s') \<longrightarrow> activation_kept s s')
     \<and> activation_kept s (snd (notes_router js sign secret tm sc now hdrs nrequest s))
     \<and> activation_kept s (snd (verifyPaymentAndUpgrade hmac key fetch clock vbody account s))
     \<and> activation_kept s (snd (cancelSubscription now account s))
     \<and> activation_kept s (snd (upgradeSubscription orders randomString paymentMethod account s))"
proof -
  have a: "\<forall>r s'. inviteUser js hashPassword tempPassword now ibody ctx s = (r, s') \<longrightarrow>
        (if status r = 201
         then \<exists>u. db_users s' = db_users s @ [u] \<and> \<not> usr_isActive u
                \<and> usr_id u \<notin> set (map usr_id (db_users s))
                \<and> usr_password u = hashPassword tempPassword
                \<and> payload r = InviteData (usr_email u) tempPassword
         else db_users s' = db_users s)"
  proof (intro allI impI)
    fix r s' assume "inviteUser js hashPassword tempPassword now ibody ctx s = (r, s')"
    from inviteUser_shape [OF this]
    show "if status r = 201
         then \<exists>u. db_users s' = db_users s @ [u] \<and> \<not> usr_isActive u
                \<and> usr_id u \<notin> set (map usr_id (db_users s))
                \<and> usr_password u = hashPassword tempPassword
                \<and> payload r = InviteData (usr_email u) tempPassword
         else db_users s' = db_users s"
      by auto
  qed
  have b: "\<forall>r s' t. login js sign secret expiresIn comparePassword now ip lbody s = (r, s')
            \<and> payload r = TokenData t \<longrightarrow>
          (\<exists>u \<in> set (db_users s). usr_isActive u \<and> \<not> usr_isDeleted u
             \<and> usr_email u = toLowerCase js (the (lg_email lbody))
             \<and> comparePassword (the (lg_password lbody)) (usr_password u)
             \<and> (\<exists>roleName. t = generateToken sign secret expiresIn now (usr_id u) (usr_account u)
                    roleName))"
  proof (intro allI impI)
    fix r s' t
    assume h: "login js sign secret expiresIn comparePassword now ip lbody s = (r, s')
        \<and> payload r = TokenData t"
    then have l: "login js sign secret expiresIn comparePassword now ip lbody s = (r, s')"
      and p: "payload r = TokenData t" by simp_all
    from login_shape [OF l] p
    show "\<exists>u \<in> set (db_users s). usr_isActive u \<and> \<not> usr_isDeleted u
             \<and> usr_email u = toLowerCase js (the (lg_email lbody))
             \<and> comparePassword (the (lg_password lbody)) (usr_password u)
             \<and> (\<exists>roleName. t = generateToken sign secret expiresIn now (usr_id u) (usr_account u)
                    roleName)"
      by blast
  qed
  have c: "truthy (lg_email lbody) \<and> truthy (lg_password lbody)
          \<and> (\<forall>u \<in> set (db_users s). usr_email u = toLowerCase js (the (lg_email lbody))
                 \<and> \<not> usr_isDeleted u \<longrightarrow> \<not> usr_isActive u) \<longrightarrow>
        login js sign secret expiresIn comparePassword now ip lbody s
          = (sendError 401 ''Invalid email or password'', s)"
    using login_no_active by blast
  have r: "\<forall>r s'. auth_router js env now hdrs request s = Some (r, s') \<longrightarrow> activation_kept s s'"
    using auth_router_kept [OF d] by blast
  have n: "activation_kept s (snd (notes_router js sign secret tm sc now hdrs nrequest s))"
    by (rule activation_kept_same [OF d notes_router_users])
  have v: "activation_kept s (snd (verifyPaymentAndUpgrade hmac key fetch clock vbody account s))"
    by (rule activation_kept_same [OF d subscription_users(1)])
  have k: "activation_kept s (snd (cancelSubscription now account s))"
    by (rule activation_kept_same [OF d subscription_users(2)])
  have o: "activation_kept s (snd (upgradeSubscription orders randomString paymentMethod account s))"
    by (rule activation_kept_same [OF d subscription_users(3)])
  from a b c r n v k o show ?thesis by (intro conjI)
qed

theorem invited_user_never_authenticated_witness:
  "distinct (map usr_id (db_users ex_store))
   \<and> auth_router ex_js ex_env 6000 ex_headers (POST_invite ex_invite_body) ex_store
       = Some (inviteUser ex_js ex_hash ''Zk3Qp8Lm2Xy7'' 6000 ex_invite_body ex_admin_ctx ex_store)
   \<and> fst (inviteUser ex_js ex_hash ''Zk3Qp8Lm2Xy7'' 6000 ex_invite_body ex_admin_ctx ex_store)
       = sendResponse 201 ''User invited successfully'' (InviteData ''new@x.com'' ''Zk3Qp8Lm2Xy7'')
   \<and> map usr_id (db_users ex_after_invite) = [11, 12, 13, 14]
   \<and> map_option usr_isActive (findById usr_id 14 (db_users ex_after_invite)) = Some False
   \<and> login ex_js ex_sign ''jwt'' 604800 ex_compare 8000 (Some ''10.0.0.1'') ex_invited_login
         ex_after_invite
       = (sendError 401 ''Invalid email or password'', ex_after_invite)
   \<and> fst (login ex_js ex_sign ''jwt'' 604800 ex_compare 8000 (Some ''10.0.0.1'') ex_admin_login
         ex_after_invite)
       = sendResponse 200 ''Login successful''
           (TokenData (generateToken ex_sign ''jwt'' 604800 8000 11 1 ADMIN))
   \<and> (\<exists>u \<in> set (db_users ex_after_invite). usr_isActive u \<and> \<not> usr_isDeleted u
          \<and> usr_email u = ''a@x.com'' \<and> ex_compare ''secret1'' (usr_password u))
   \<and> activation_kept ex_after_invite
        (snd (the (auth_router ex_js ex_env 9000 ex_headers POST_logout ex_after_invite)))
   \<and> map_option usr_isActive (findById usr_id 14 (db_users
        (snd (the (auth_router ex_js ex_env 9000 ex_headers POST_logout ex_after_invite)))))
       = Some False"
proof -
  have d0: "distinct (map usr_id (db_users ex_store))" by code_simp
  have rt: "auth_router ex_js ex_env 6000 ex_headers (POST_invite ex_invite_body) ex_store
       = Some (inviteUser ex_js ex_hash ''Zk3Qp8Lm2Xy7'' 6000 ex_invite_body ex_admin_ctx ex_store)"
    by code_simp
  obtain r1 where i: "inviteUser ex_js ex_hash ''Zk3Qp8Lm2Xy7'' 6000 ex_invite_body ex_admin_ctx ex_store
      = (r1, ex_after_invite)"
    unfolding ex_after_invite_def
    by (cases "inviteUser ex_js ex_hash ''Zk3Qp8Lm2Xy7'' 6000 ex_invite_body ex_admin_ctx ex_store") simp
  have r1: "fst (inviteUser ex_js ex_hash ''Zk3Qp8Lm2Xy7'' 6000 ex_invite_body ex_admin_ctx ex_store)
       = sendResponse 201 ''User invited successfully'' (InviteData ''new@x.com'' ''Zk3Qp8Lm2Xy7'')"
    by code_simp
  then have st: "status r1 = 201" using i by (simp add: sendResponse_def)
  have ids: "map usr_id (db_users ex_after_invite) = [11, 12, 13, 14]" by code_simp
  have ids0: "map usr_id (db_users ex_store) = [11, 12, 13]" by code_simp
  note at_store = invited_user_never_authenticated [where s=ex_store and js=ex_js
      and hashPassword=ex_hash and tempPassword="''Zk3Qp8Lm2Xy7''" and now=6000
      and ibody=ex_invite_body and ctx=ex_admin_ctx, OF d0]
  have "if status r1 = 201
      then \<exists>u. db_users ex_after_invite = db_users ex_store @ [u] \<and> \<not> usr_isActive u
             \<and> usr_id u \<notin> set (map usr_id (db_users ex_store))
             \<and> usr_password u = ex_hash ''Zk3Qp8Lm2Xy7''
             \<and> payload r1 = InviteData (usr_email u) ''Zk3Qp8Lm2Xy7''
      else db_users ex_after_invite = db_users ex_store"
    using at_store [THEN conjunct1, rule_format, OF i] .
  with st obtain u where
    u: "db_users ex_after_invite = db_users ex_store @ [u]" "\<not> usr_isActive u"
    by auto
  have d1: "distinct (map usr_id (db_users ex_after_invite))" by (simp add: ids)
  have m: "u \<in> set (db_users ex_after_invite)" using u(1) by simp
  have "usr_id u = 14" using u(1) ids ids0 by simp
  moreover have "findById usr_id (usr_id u) (db_users ex_after_invite) = Some u"
    using findById_distinct [OF d1 m] .
  ultimately have inactive: "map_option usr_isActive (findById usr_id 14 (db_users ex_after_invite))
      = Some False"
    using u(2) by simp
  have h: "truthy (lg_email ex_invited_login) \<and> truthy (lg_password ex_invited_login)
      \<and> (\<forall>u \<in> set (db_users ex_after_invite).
             usr_email u = toLowerCase ex_js (the (lg_email ex_invited_login))
             \<and> \<not> usr_isDeleted u \<longrightarrow> \<not> usr_isActive u)"
    by code_simp
  note after = invited_user_never_authenticated [where s=ex_after_invite and js=ex_js
      and sign=ex_sign and secret="''jwt''" and expiresIn=604800 and comparePassword=ex_compare
      and now=8000 and ip="Some ''10.0.0.1''" and lbody=ex_invited_login, OF d1]
  have refused: "login ex_js ex_sign ''jwt'' 604800 ex_compare 8000 (Some ''10.0.0.1'')
      ex_invited_login ex_after_invite = (sendError 401 ''Invalid email or password'', ex_after_invite)"
    using after [THEN conjunct2, THEN conjunct2, THEN conjunct1, rule_format, OF h] .
  have admin: "fst (login ex_js ex_sign ''jwt'' 604800 ex_compare 8000 (Some ''10.0.0.1'') ex_admin_login
         ex_after_invite)
       = sendResponse 200 ''Login successful''
           (TokenData (generateToken ex_sign ''jwt'' 604800 8000 11 1 ADMIN))"
    by code_simp
  obtain r2 s2 where l2: "login ex_js ex_sign ''jwt'' 604800 ex_compare 8000 (Some ''10.0.0.1'')
      ex_admin_login ex_after_invite = (r2, s2)"
    by (cases "login ex_js ex_sign ''jwt'' 604800 ex_compare 8000 (Some ''10.0.0.1'')
      ex_admin_login ex_after_invite")
  have p2: "payload r2 = TokenData (generateToken ex_sign ''jwt'' 604800 8000 11 1 ADMIN)"
    using admin l2 by (simp add: sendResponse_def)
  have lw: "toLowerCase ex_js (the (lg_email ex_admin_login)) = ''a@x.com''"
      "the (lg_password ex_admin_login) = ''secret1''"
    by code_simp+
  note token = invited_user_never_authenticated [where s=ex_after_invite and js=ex_js
      and sign=ex_sign and secret="''jwt''" and expiresIn=604800 and comparePassword=ex_compare
      and now=8000 and ip="Some ''10.0.0.1''" and lbody=ex_admin_login, OF d1]
  have "\<exists>u \<in> set (db_users ex_after_invite). usr_isActive u \<and> \<not> usr_isDeleted u
      \<and> usr_email u = toLowerCase ex_js (the (lg_email ex_admin_login))
      \<and> ex_compare (the (lg_password ex_admin_login)) (usr_password u)
      \<and> (\<exists>roleName. generateToken ex_sign ''jwt'' 604800 8000 11 1 ADMIN
            = generateToken ex_sign ''jwt'' 604800 8000 (usr_id u) (usr_account u) roleName)"
    using token [THEN conjunct2, THEN conjunct1, rule_format, OF conjI [OF l2 p2]] .
  then have act: "\<exists>u \<in> set (db_users ex_after_invite). usr_isActive u \<and> \<not> usr_isDeleted u
          \<and> usr_email u = ''a@x.com'' \<and> ex_compare ''secret1'' (usr_password u)"
    unfolding lw by blast
  obtain r3 s3 where lo: "auth_router ex_js ex_env 9000 ex_headers POST_logout ex_after_invite
      = Some (r3, s3)"
  proof -
    have "auth_router ex_js ex_env 9000 ex_headers POST_logout ex_after_invite \<noteq> None"
      by code_simp
    then show ?thesis using that by (cases "auth_router ex_js ex_env 9000 ex_headers POST_logout
      ex_after_invite") auto
  qed
  note out = invited_user_never_authenticated [where s=ex_after_invite and js=ex_js
      and env=ex_env and now=9000 and hdrs=ex_headers and request=POST_logout, OF d1]
  have kept: "activation_kept ex_after_invite s3"
    using out [THEN conjunct2, THEN conjunct2, THEN conjunct2, THEN conjunct1, rule_format, OF lo] .
  have still: "map_option usr_isActive (findById usr_id 14 (db_users s3)) = Some False"
    using kept m \<open>usr_id u = 14\<close> u(2) unfolding activation_kept_def by fastforce
  have s3: "snd (the (auth_router ex_js ex_env 9000 ex_headers POST_logout ex_after_invite)) = s3"
    using lo by simp
  from d0 rt r1 ids inactive refused admin act kept [folded s3] still [folded s3]
  show ?thesis by (intro conjI)
qed

text \<open>
  The claim as stated fails where an active user of another tenant holds the invited email
  and has, as password, the string that the invitation draws: the invitation is answered
  201 and stores the invited user inactive, and the login with the returned email and
  temporary password is answered 200 with a token of the other user. A login that finds
  no active user is answered 401 with the message "Invalid email or password".
\<close>

theorem invited_credentials_log_in_counterexample:
  "fst (the (auth_router ex_js ex_env 6000 ex_headers (POST_invite ex_invite_shared) ex_store_shared))
     = sendResponse 201 ''User invited successfully'' (InviteData ''b@y.com'' ''Zk3Qp8Lm2Xy7'')
   \<and> map (\<lambda>u. (usr_id u, usr_account u, usr_email u, usr_isActive u)) (db_users ex_after_invite_shared)
     = [(11, 1, ''a@x.com'', True), (12, 1, ''m@x.com'', True), (13, 2, ''b@y.com'', True),
        (14, 1, ''b@y.com'', False)]
   \<and> fst (the (auth_router ex_js ex_env 8000 ex_headers (POST_login ex_shared_login)
        ex_after_invite_shared))
     = sendResponse 200 ''Login successful''
         (TokenData (generateToken ex_sign ''jwt'' 604800 8000 13 2 ADMIN))
   \<and> fst (the (auth_router ex_js ex_env 8000 ex_headers (POST_login ex_invited_login)
        ex_after_invite))
     = sendError 401 ''Invalid email or password''"
  by code_simp

end
